theory Spec2Isabelle
  imports Main
begin

section \<open>Errors and results\<close>

text \<open>
  Go errors as values. The sentinels of package \<open>constant\<close> are constructors of their own;
  \<open>Wrapw m e\<close> is \<open>fmt.Errorf\<close> with the verb \<open>%w\<close> (the chain to \<open>e\<close> is kept),
  \<open>Msgv m e\<close> is \<open>fmt.Errorf\<close> with \<open>%v\<close> (only the text of \<open>e\<close> survives),
  \<open>New m\<close> is \<open>errors.New\<close> or a \<open>fmt.Errorf\<close> without an error argument. Messages carry
  the fixed part of the format string only. The \<open>Api\<close> constructors are the status errors
  of the Kubernetes API machinery.
\<close>

datatype err =
    ErrMissingRequiredParam
  | ErrRetriesExhausted
  | ErrNoAvailablePool
  | ErrWrongInput
  | ErrIPUsedOut
  | ApiNotFound
  | ApiConflict
  | ApiAlreadyExists
  | New string
  | Wrapw string err
  | Msgv string err
  | Aggregate "err list"

text \<open>
  A call returns a value, returns an error, or panics (index out of range, nil
  dereference); a panic unwinds through every caller that does not recover.
\<close>

datatype 'a res = Ok 'a | Fail err | Panic string

fun IsConflict :: "err \<Rightarrow> bool" where
  "IsConflict ApiConflict = True"
| "IsConflict (Wrapw m e) = IsConflict e"
| "IsConflict e = False"

fun IsNotFound :: "err \<Rightarrow> bool" where
  "IsNotFound ApiNotFound = True"
| "IsNotFound (Wrapw m e) = IsNotFound e"
| "IsNotFound e = False"

text \<open>\<open>client.IgnoreNotFound\<close>, on an error that is not nil.\<close>

definition IgnoreNotFound :: "err \<Rightarrow> unit res" where
  "IgnoreNotFound e = (if IsNotFound e then Ok () else Fail e)"

section \<open>Data model of the endpoint record\<close>

record Route =
  route_IfName :: string
  route_Dst :: string
  route_Gw :: string

record IPAllocationDetail =
  detail_NIC :: string
  detail_IPv4 :: "string option"
  detail_IPv6 :: "string option"
  detail_IPv4Pool :: "string option"
  detail_IPv6Pool :: "string option"
  detail_Vlan :: "int option"
  detail_IPv4Gateway :: "string option"
  detail_IPv6Gateway :: "string option"
  detail_CleanGateway :: "bool option"
  detail_Routes :: "Route list"

text \<open>
  \<open>Node\<close> and \<open>CreationTime\<close> are pointers in the source, \<open>None\<close> is nil. The
  records of the history are copies of \<open>current\<close> that share its \<open>Node\<close> pointer while
  the object stays in memory; the model copies the node name by value, and nothing
  proved below reads the node of a history record.
\<close>

record PodIPAllocation =
  ContainerID :: string
  Node :: "string option"
  IPs :: "IPAllocationDetail list"
  CreationTime :: "nat option"

record WorkloadEndpointStatus =
  Current :: "PodIPAllocation option"
  History :: "PodIPAllocation list"
  OwnerControllerType :: string
  OwnerControllerName :: string

record OwnerReference =
  owner_Kind :: string
  owner_Name :: string
  owner_UID :: string

record SpiderEndpoint =
  ep_Name :: string
  ep_Namespace :: string
  DeletionTimestamp :: "nat option"
  OwnerReferences :: "OwnerReference list"
  Finalizers :: "string list"
  Status :: WorkloadEndpointStatus

record Pod =
  pod_Name :: string
  pod_Namespace :: string
  pod_UID :: string
  pod_NodeName :: string
  pod_Annotations :: "(string \<times> string) list"

record PodTopController =
  ctl_Kind :: string
  ctl_Name :: string

text \<open>
  The data of the allocation path. A pointer field of the Go structs is an \<open>option\<close>.
  \<open>IPConfig\<close> and \<open>Route\<close> are the API models of the agent; a label selector is kept
  as an opaque string.
\<close>

record IPConfig =
  ipc_Address :: "string option"
  ipc_Gateway :: string
  ipc_IPPool :: string
  ipc_Nic :: "string option"
  ipc_Version :: "int option"
  ipc_Vlan :: int

record AllocationResult =
  res_IP :: "IPConfig option"
  res_CleanGateway :: bool
  res_Routes :: "Route list"

record PoolCandidate =
  IPVersion :: int
  Pools :: "string list"

record ToBeAllocated =
  NIC :: string
  CleanGateway :: bool
  PoolCandidates :: "PoolCandidate list"

record SpecRoute =
  sr_Dst :: string
  sr_Gw :: string

record SpiderIPPool =
  pool_Name :: string
  pool_DeletionTimestamp :: "nat option"
  pool_IPVersion :: "int option"
  pool_Disable :: "bool option"
  pool_Vlan :: int
  pool_Routes :: "SpecRoute list"
  pool_PodAffinity :: "string option"
  pool_NamespaceAffinity :: "string option"
  pool_NodeAffinity :: "string option"
  pool_TotalIPCount :: "int option"
  pool_AllocatedIPCount :: "int option"

record IPAndCID =
  ic_IP :: string
  ic_ContainerID :: string

record Namespace =
  nsobj_Name :: string
  nsobj_Annotations :: "(string \<times> string) list"

record TopController =
  top_UID :: string
  top_Namespace :: string
  top_Name :: string

record SubnetAnnoConfig =
  subnet_IPv4 :: "string list"
  subnet_IPv6 :: "string list"

record IpamAddArgs =
  add_ContainerID :: string
  add_IfName :: string
  add_PodNamespace :: string
  add_PodName :: string
  add_DefaultIPV4IPPool :: "string list"
  add_DefaultIPV6IPPool :: "string list"
  add_CleanGateway :: bool

record IpamDelArgs =
  del_ContainerID :: string
  del_IfName :: string
  del_PodNamespace :: string
  del_PodName :: string

record IpamAddResponse =
  resp_Ips :: "IPConfig list"
  resp_Routes :: "Route list"

record IPAMConfig =
  EnableIPv4 :: bool
  EnableIPv6 :: bool
  EnableStatefulSet :: bool
  WaitSubnetPoolRetries :: int
  WaitSubnetPoolTime :: int

definition KindStatefulSet :: string where
  "KindStatefulSet = ''StatefulSet''"

definition SpiderFinalizer :: string where
  "SpiderFinalizer = ''spiderpool.spidernet.io''"

text \<open>
  The configuration of the endpoint manager. \<open>MaxHistoryRecords\<close> is a pointer in the
  source (\<open>*int\<close>), \<open>None\<close> is nil. \<open>ConflictRetryUnitTime\<close> is a \<open>time.Duration\<close>, a
  signed 64-bit count of nanoseconds. \<open>scheme_knows_pod\<close> says whether the runtime scheme
  resolves the kind of a Pod, which is all \<open>SetOwnerReference\<close> asks of it.
\<close>

record EndpointManagerConfig =
  MaxConflictRetries :: int
  ConflictRetryUnitTime :: int
  MaxHistoryRecords :: "int option"
  scheme_knows_pod :: bool

section \<open>Effects: the world outside, and the trace of calls\<close>

text \<open>
  Every call that leaves the process (API server, clock, random source, sleeping) or
  goes through an interface to another component (limiter, pool manager, pod manager)
  is a function on an abstract world \<open>'w\<close>. The state threaded through the program
  holds the world and a trace: one event per call, oldest first. Warnings, errors the
  logger writes and metric increments are events too; \<open>EvRead\<close> is a call that only
  reads (its name and arguments).
\<close>

datatype event =
    EvGet string string
  | EvCreate SpiderEndpoint
  | EvUpdate SpiderEndpoint
  | EvStatusUpdate SpiderEndpoint
  | EvSleep int
  | EvWarn string
  | EvError string
  | EvRead string "string list"
  | EvAcquireTicket "string list"
  | EvReleaseTicket "string list"
  | EvAllocateIP string string string
  | EvReleaseIP string "IPAndCID list"
  | EvUpdateAllocatedIPs string IPConfig
  | EvMergeAnnotations string string "(string \<times> string) list"
  | EvMarkIPAllocation string
  | EvPatchIPAllocation PodIPAllocation
  | EvClearCurrentIPAllocation string
  | EvUpdateCurrentStatus string
  | EvMetricAdd string int

record 'w k8s =
  client_Get :: "string \<Rightarrow> string \<Rightarrow> 'w \<Rightarrow> SpiderEndpoint res \<times> 'w"
  client_Create :: "SpiderEndpoint \<Rightarrow> 'w \<Rightarrow> err option \<times> 'w"
  client_Update :: "SpiderEndpoint \<Rightarrow> 'w \<Rightarrow> err option \<times> 'w"
  client_StatusUpdate :: "SpiderEndpoint \<Rightarrow> 'w \<Rightarrow> err option \<times> 'w"
  time_Now :: "'w \<Rightarrow> nat"
  rand_Int63 :: "'w \<Rightarrow> nat \<times> 'w"
  time_Sleep :: "int \<Rightarrow> 'w \<Rightarrow> 'w"

record 'w st =
  world :: 'w
  trace :: "event list"

definition emit :: "event \<Rightarrow> 'w st \<Rightarrow> 'w st" where
  "emit e s = s\<lparr>trace := trace s @ [e]\<rparr>"

definition do_Get :: "'w k8s \<Rightarrow> string \<Rightarrow> string \<Rightarrow> 'w st \<Rightarrow> SpiderEndpoint res \<times> 'w st" where
  "do_Get k ns n s =
     (case client_Get k ns n (world s) of
        (r, w') \<Rightarrow> (r, emit (EvGet ns n) (s\<lparr>world := w'\<rparr>)))"

definition do_Create :: "'w k8s \<Rightarrow> SpiderEndpoint \<Rightarrow> 'w st \<Rightarrow> err option \<times> 'w st" where
  "do_Create k ep s =
     (case client_Create k ep (world s) of
        (r, w') \<Rightarrow> (r, emit (EvCreate ep) (s\<lparr>world := w'\<rparr>)))"

definition do_Update :: "'w k8s \<Rightarrow> SpiderEndpoint \<Rightarrow> 'w st \<Rightarrow> err option \<times> 'w st" where
  "do_Update k ep s =
     (case client_Update k ep (world s) of
        (r, w') \<Rightarrow> (r, emit (EvUpdate ep) (s\<lparr>world := w'\<rparr>)))"

definition do_StatusUpdate :: "'w k8s \<Rightarrow> SpiderEndpoint \<Rightarrow> 'w st \<Rightarrow> err option \<times> 'w st" where
  "do_StatusUpdate k ep s =
     (case client_StatusUpdate k ep (world s) of
        (r, w') \<Rightarrow> (r, emit (EvStatusUpdate ep) (s\<lparr>world := w'\<rparr>)))"

definition do_Sleep :: "'w k8s \<Rightarrow> int \<Rightarrow> 'w st \<Rightarrow> 'w st" where
  "do_Sleep k d s = emit (EvSleep d) (s\<lparr>world := time_Sleep k d (world s)\<rparr>)"

text \<open>
  \<open>rand.Intn n\<close> panics when \<open>n \<le> 0\<close> and otherwise returns a number of \<open>[0, n)\<close> that
  the random source decides: here the next raw draw, reduced modulo \<open>n\<close> (for a power
  of two, the only arguments \<open>RemoveFinalizer\<close> passes, Go masks the raw draw with
  \<open>n - 1\<close>). \<open>None\<close> is the panic.
\<close>

definition do_Intn :: "'w k8s \<Rightarrow> int \<Rightarrow> 'w st \<Rightarrow> int option \<times> 'w st" where
  "do_Intn k n s =
     (if n \<le> 0 then (None, s)
      else (case rand_Int63 k (world s) of
              (r, w') \<Rightarrow> (Some (int r mod n), s\<lparr>world := w'\<rparr>)))"

section \<open>Machine integers\<close>

text \<open>
  Go's \<open>int\<close> and \<open>time.Duration\<close> are signed 64-bit: \<open>wrap64\<close> is the value an
  arithmetic result has after wrap-around, and \<open>shl1 k\<close> is \<open>1 << k\<close> for a shift count
  \<open>k \<ge> 0\<close> (bits shifted out are lost, bit 63 is the sign).
\<close>

definition wrap64 :: "int \<Rightarrow> int" where
  "wrap64 x = (x + 2 ^ 63) mod 2 ^ 64 - 2 ^ 63"

definition shl1 :: "int \<Rightarrow> int" where
  "shl1 k = (if 64 \<le> k then 0 else wrap64 (2 ^ nat k))"

section \<open>The endpoint manager\<close>

definition ContainsFinalizer :: "SpiderEndpoint \<Rightarrow> string \<Rightarrow> bool" where
  "ContainsFinalizer ep f = (f \<in> set (Finalizers ep))"

definition AddFinalizer :: "SpiderEndpoint \<Rightarrow> string \<Rightarrow> SpiderEndpoint" where
  "AddFinalizer ep f =
     (if f \<in> set (Finalizers ep) then ep else ep\<lparr>Finalizers := Finalizers ep @ [f]\<rparr>)"

definition RemoveFinalizer_util :: "SpiderEndpoint \<Rightarrow> string \<Rightarrow> SpiderEndpoint" where
  "RemoveFinalizer_util ep f = ep\<lparr>Finalizers := filter (\<lambda>g. g \<noteq> f) (Finalizers ep)\<rparr>"

text \<open>
  \<open>controllerutil.SetOwnerReference\<close> with a Pod as owner: it fails when the scheme does
  not resolve the owner's kind, and otherwise replaces the reference to the same owner or
  appends a new one.
\<close>

definition SetOwnerReference :: "EndpointManagerConfig \<Rightarrow> Pod \<Rightarrow> SpiderEndpoint \<Rightarrow> SpiderEndpoint res" where
  "SetOwnerReference cfg pod ep =
     (if \<not> scheme_knows_pod cfg then Fail (New ''no kind is registered for the type Pod'')
      else
        let ref = \<lparr>owner_Kind = ''Pod'', owner_Name = pod_Name pod, owner_UID = pod_UID pod\<rparr>;
            same = (\<lambda>r. owner_Kind r = ''Pod'' \<and> owner_Name r = pod_Name pod)
        in if list_ex same (OwnerReferences ep)
           then Ok (ep\<lparr>OwnerReferences := map (\<lambda>r. if same r then ref else r) (OwnerReferences ep)\<rparr>)
           else Ok (ep\<lparr>OwnerReferences := OwnerReferences ep @ [ref]\<rparr>))"

definition GetEndpointByName :: "'w k8s \<Rightarrow> string \<Rightarrow> string \<Rightarrow> 'w st \<Rightarrow> SpiderEndpoint res \<times> 'w st" where
  "GetEndpointByName k namespace podName s = do_Get k namespace podName s"

text \<open>
  A loop body ends by \<open>return\<close>, by \<open>break\<close> or by reaching \<open>continue\<close> (or its own
  end), which starts the next iteration.
\<close>

datatype 'a ctl = Return 'a | Break | Continue

text \<open>
  One iteration of the loop of \<open>RemoveFinalizer\<close>, with loop variable \<open>i\<close>. The shift
  \<open>1 << (i + 1)\<close> is an \<open>int\<close>, the product with the unit time a \<open>time.Duration\<close>.
\<close>

definition RemoveFinalizer_body ::
  "'w k8s \<Rightarrow> EndpointManagerConfig \<Rightarrow> string \<Rightarrow> string \<Rightarrow> int \<Rightarrow> 'w st \<Rightarrow> unit res ctl \<times> 'w st" where
  "RemoveFinalizer_body k cfg namespace podName i s =
     (case GetEndpointByName k namespace podName s of
        (Fail e, s1) \<Rightarrow> (Return (IgnoreNotFound e), s1)
      | (Panic p, s1) \<Rightarrow> (Return (Panic p), s1)
      | (Ok endpoint, s1) \<Rightarrow>
          if \<not> ContainsFinalizer endpoint SpiderFinalizer then (Return (Ok ()), s1)
          else
            (case do_Update k (RemoveFinalizer_util endpoint SpiderFinalizer) s1 of
               (None, s2) \<Rightarrow> (Break, s2)
             | (Some e, s2) \<Rightarrow>
                 if \<not> IsConflict e then (Return (Fail e), s2)
                 else if i = MaxConflictRetries cfg
                 then (Return (Fail (Wrapw ''failed to remove finalizer from Endpoint'' ErrRetriesExhausted)), s2)
                 else
                   (case do_Intn k (shl1 (i + 1)) s2 of
                      (None, s3) \<Rightarrow> (Return (Panic ''invalid argument to Intn''), s3)
                    | (Some n, s3) \<Rightarrow>
                        (Continue, do_Sleep k (wrap64 (n * ConflictRetryUnitTime cfg)) s3))))"

text \<open>
  The loop \<open>for i := 0; i <= MaxConflictRetries; i++\<close>, entered with loop variable \<open>i\<close>;
  after the loop the function returns nil. The body never continues when
  \<open>i = MaxConflictRetries\<close>, so \<open>i + 1\<close> does not overflow.
\<close>

function RemoveFinalizer_from ::
  "'w k8s \<Rightarrow> EndpointManagerConfig \<Rightarrow> string \<Rightarrow> string \<Rightarrow> int \<Rightarrow> 'w st \<Rightarrow> unit res \<times> 'w st" where
  "RemoveFinalizer_from k cfg namespace podName i s =
     (if i \<le> MaxConflictRetries cfg then
        (case RemoveFinalizer_body k cfg namespace podName i s of
           (Return r, s1) \<Rightarrow> (r, s1)
         | (Break, s1) \<Rightarrow> (Ok (), s1)
         | (Continue, s1) \<Rightarrow> RemoveFinalizer_from k cfg namespace podName (i + 1) s1)
      else (Ok (), s))"
  by pat_completeness auto
termination
  by (relation "measure (\<lambda>(k, cfg, namespace, podName, i, s). nat (MaxConflictRetries cfg + 1 - i))") auto

declare RemoveFinalizer_from.simps [simp del]

definition RemoveFinalizer ::
  "'w k8s \<Rightarrow> EndpointManagerConfig \<Rightarrow> string \<Rightarrow> string \<Rightarrow> 'w st \<Rightarrow> unit res \<times> 'w st" where
  "RemoveFinalizer k cfg namespace podName s = RemoveFinalizer_from k cfg namespace podName 0 s"

text \<open>
  The operations below take the endpoint by pointer and change it in place before they
  write it to the API server; the model returns the object as the caller sees it after
  the call, next to the result. A nil pointer is \<open>None\<close>.
\<close>

definition MarkIPAllocation ::
  "'w k8s \<Rightarrow> EndpointManagerConfig \<Rightarrow> string \<Rightarrow> Pod option \<Rightarrow> PodTopController
     \<Rightarrow> 'w st \<Rightarrow> SpiderEndpoint res \<times> 'w st" where
  "MarkIPAllocation k cfg containerID pod podController s =
     (case pod of
        None \<Rightarrow> (Fail (Wrapw ''pod'' ErrMissingRequiredParam), s)
      | Some p \<Rightarrow>
          let endpoint0 = \<lparr>ep_Name = pod_Name p, ep_Namespace = pod_Namespace p,
                           DeletionTimestamp = None, OwnerReferences = [], Finalizers = [],
                           Status = \<lparr>Current = None, History = [],
                                     OwnerControllerType = [], OwnerControllerName = []\<rparr>\<rparr>;
              owned = (if ctl_Kind podController \<noteq> KindStatefulSet
                       then SetOwnerReference cfg p endpoint0 else Ok endpoint0)
          in case owned of
               Fail e \<Rightarrow> (Fail e, s)
             | Panic m \<Rightarrow> (Panic m, s)
             | Ok endpoint1 \<Rightarrow>
                 let endpoint2 = AddFinalizer endpoint1 SpiderFinalizer
                 in case do_Create k endpoint2 s of
                      (Some e, s1) \<Rightarrow> (Fail e, s1)
                    | (None, s1) \<Rightarrow>
                        let allocation = \<lparr>ContainerID = containerID, Node = Some (pod_NodeName p),
                                          IPs = [], CreationTime = Some (time_Now k (world s1))\<rparr>;
                            endpoint3 = endpoint2\<lparr>Status :=
                              \<lparr>Current = Some allocation, History = [allocation],
                               OwnerControllerType = ctl_Kind podController,
                               OwnerControllerName = ctl_Name podController\<rparr>\<rparr>
                        in case do_StatusUpdate k endpoint3 s1 of
                             (Some e, s2) \<Rightarrow> (Fail e, s2)
                           | (None, s2) \<Rightarrow> (Ok endpoint3, s2))"

definition ReMarkIPAllocation ::
  "'w k8s \<Rightarrow> EndpointManagerConfig \<Rightarrow> string \<Rightarrow> SpiderEndpoint option \<Rightarrow> Pod option
     \<Rightarrow> 'w st \<Rightarrow> (unit res \<times> SpiderEndpoint option) \<times> 'w st" where
  "ReMarkIPAllocation k cfg containerID endpoint pod s =
     (case pod of
        None \<Rightarrow> ((Fail (Wrapw ''pod'' ErrMissingRequiredParam), endpoint), s)
      | Some p \<Rightarrow>
     (case endpoint of
        None \<Rightarrow> ((Fail (Wrapw ''endpoint'' ErrMissingRequiredParam), endpoint), s)
      | Some ep \<Rightarrow>
          if DeletionTimestamp ep \<noteq> None \<and> OwnerReferences ep = []
          then ((Panic ''index out of range [0] with length 0'', endpoint), s)
          else if DeletionTimestamp ep \<noteq> None \<and> owner_UID (hd (OwnerReferences ep)) \<noteq> pod_UID p
          then ((Fail (New ''currently, the IP addresses of the Pod is being recycled''), endpoint), s)
          else if (case Current (Status ep) of None \<Rightarrow> False | Some c \<Rightarrow> ContainerID c = containerID)
          then ((Ok (), endpoint), s)
          else
            let allocation = \<lparr>ContainerID = containerID, Node = Some (pod_NodeName p),
                              IPs = [], CreationTime = Some (time_Now k (world s))\<rparr>;
                ep1 = ep\<lparr>Status := (Status ep)\<lparr>Current := Some allocation,
                                                History := allocation # History (Status ep)\<rparr>\<rparr>
            in case MaxHistoryRecords cfg of
                 None \<Rightarrow> ((Panic ''nil pointer dereference'', Some ep1), s)
               | Some m \<Rightarrow>
                   if int (length (History (Status ep1))) > m
                   then
                     let s1 = emit (EvWarn ''threshold of historical IP allocation records exceeded'') s
                     in if m < 0 then ((Panic ''slice bounds out of range'', Some ep1), s1)
                        else
                          let ep2 = ep1\<lparr>Status := (Status ep1)\<lparr>History := take (nat m) (History (Status ep1))\<rparr>\<rparr>
                          in (case do_StatusUpdate k ep2 s1 of
                                (None, s2) \<Rightarrow> ((Ok (), Some ep2), s2)
                              | (Some e, s2) \<Rightarrow> ((Fail e, Some ep2), s2))
                   else
                     (case do_StatusUpdate k ep1 s of
                        (None, s2) \<Rightarrow> ((Ok (), Some ep1), s2)
                      | (Some e, s2) \<Rightarrow> ((Fail e, Some ep1), s2))))"

definition PatchIPAllocation ::
  "'w k8s \<Rightarrow> PodIPAllocation option \<Rightarrow> SpiderEndpoint option
     \<Rightarrow> 'w st \<Rightarrow> (unit res \<times> SpiderEndpoint option) \<times> 'w st" where
  "PatchIPAllocation k allocation endpoint s =
     (case endpoint of
        None \<Rightarrow> ((Fail (Wrapw ''endpoint'' ErrMissingRequiredParam), endpoint), s)
      | Some ep \<Rightarrow>
     (case allocation of
        None \<Rightarrow> ((Fail (Wrapw ''allocation'' ErrMissingRequiredParam), endpoint), s)
      | Some a \<Rightarrow>
     (case Current (Status ep) of
        None \<Rightarrow> ((Fail (New ''patch a unmarked Endpoint''), endpoint), s)
      | Some c \<Rightarrow>
          if length (History (Status ep)) = 0 \<or>
             ContainerID (hd (History (Status ep))) \<noteq> ContainerID c
          then ((Fail (New ''data of the Endpoint is corrupt''), endpoint), s)
          else if ContainerID c \<noteq> ContainerID a
          then ((Fail (New ''patch a mismarked Endpoint''), endpoint), s)
          else
            let c1 = c\<lparr>IPs := IPs a\<rparr>;
                ep1 = ep\<lparr>Status := (Status ep)\<lparr>Current := Some c1,
                                                History := c1 # History (Status ep)\<rparr>\<rparr>
            in (case do_StatusUpdate k ep1 s of
                  (None, s1) \<Rightarrow> ((Ok (), Some ep1), s1)
                | (Some e, s1) \<Rightarrow> ((Fail e, Some ep1), s1)))))"

definition ClearCurrentIPAllocation ::
  "'w k8s \<Rightarrow> string \<Rightarrow> SpiderEndpoint option
     \<Rightarrow> 'w st \<Rightarrow> (unit res \<times> SpiderEndpoint option) \<times> 'w st" where
  "ClearCurrentIPAllocation k containerID endpoint s =
     (case endpoint of
        None \<Rightarrow> ((Ok (), endpoint), s)
      | Some ep \<Rightarrow>
     (case Current (Status ep) of
        None \<Rightarrow> ((Ok (), endpoint), s)
      | Some c \<Rightarrow>
          if ContainerID c \<noteq> containerID then ((Ok (), endpoint), s)
          else
            let ep1 = ep\<lparr>Status := (Status ep)\<lparr>Current := None\<rparr>\<rparr>
            in (case do_StatusUpdate k ep1 s of
                  (None, s1) \<Rightarrow> ((Ok (), Some ep1), s1)
                | (Some e, s1) \<Rightarrow> ((IgnoreNotFound e, Some ep1), s1))))"

definition ReallocateCurrentIPAllocation ::
  "'w k8s \<Rightarrow> string \<Rightarrow> string \<Rightarrow> SpiderEndpoint option
     \<Rightarrow> 'w st \<Rightarrow> (unit res \<times> SpiderEndpoint option) \<times> 'w st" where
  "ReallocateCurrentIPAllocation k containerID nodeName endpoint s =
     (case endpoint of
        None \<Rightarrow> ((Fail (Wrapw ''endpoint'' ErrMissingRequiredParam), endpoint), s)
      | Some ep \<Rightarrow>
     (case Current (Status ep) of
        None \<Rightarrow> ((Fail (New ''must be allocated befroe re-allocation''), endpoint), s)
      | Some c \<Rightarrow>
          if ContainerID c = containerID then ((Ok (), endpoint), s)
          else
            let c1 = c\<lparr>ContainerID := containerID\<rparr>;
                ep1 = ep\<lparr>Status := (Status ep)\<lparr>Current := Some c1\<rparr>\<rparr>
            in if Node c1 = None then ((Panic ''nil pointer dereference'', Some ep1), s)
               else
                 let c2 = c1\<lparr>Node := Some nodeName\<rparr>;
                     ep2 = ep\<lparr>Status := (Status ep)\<lparr>Current := Some c2,
                                                     History := c2 # History (Status ep)\<rparr>\<rparr>
                 in (case do_StatusUpdate k ep2 s of
                       (None, s1) \<Rightarrow> ((Ok (), Some ep2), s1)
                     | (Some e, s1) \<Rightarrow> ((Fail e, Some ep2), s1))))"

section \<open>The allocation path: collaborators\<close>

text \<open>
  The orchestrator reaches every other component through an interface, and the
  interfaces' implementations are not part of what is verified here: each method is a
  parameter, a function on the world. A method that returns \<open>(value, error)\<close> is a sum,
  \<open>Inl\<close> the error; one that returns only an error is an \<open>err option\<close>.
  \<open>AllocateIP\<close> keeps Go's three results apart, because the orchestrator guards
  against a nil result next to a nil error.
\<close>

record 'w Limiter =
  AcquireTicket :: "string list \<Rightarrow> 'w \<Rightarrow> err option \<times> 'w"
  ReleaseTicket :: "string list \<Rightarrow> 'w \<Rightarrow> 'w"

record 'w IPPoolManager =
  AllocateIP :: "string \<Rightarrow> string \<Rightarrow> string \<Rightarrow> Pod \<Rightarrow> 'w
                  \<Rightarrow> (IPConfig option \<times> SpiderIPPool option \<times> err option) \<times> 'w"
  ReleaseIP :: "string \<Rightarrow> IPAndCID list \<Rightarrow> 'w \<Rightarrow> err option \<times> 'w"
  UpdateAllocatedIPs :: "string \<Rightarrow> Pod \<Rightarrow> IPConfig \<Rightarrow> 'w \<Rightarrow> err option \<times> 'w"
  ListIPPools :: "(string \<times> string) list \<Rightarrow> 'w \<Rightarrow> (err + SpiderIPPool list) \<times> 'w"
  GetIPPoolByName :: "string \<Rightarrow> 'w \<Rightarrow> (err + SpiderIPPool) \<times> 'w"

text \<open>
  The endpoint manager as the orchestrator calls it: \<open>MarkIPAllocation\<close> takes the
  endpoint read before (nil when there is none) and the pod, and the methods that take
  the endpoint by pointer hand back the object as it is after the call.
\<close>

record 'w WorkloadEndpointManager =
  we_GetEndpointByName :: "string \<Rightarrow> string \<Rightarrow> 'w \<Rightarrow> (err + SpiderEndpoint) \<times> 'w"
  we_MarkIPAllocation :: "string \<Rightarrow> SpiderEndpoint option \<Rightarrow> Pod \<Rightarrow> 'w
                            \<Rightarrow> (err + SpiderEndpoint option) \<times> 'w"
  we_PatchIPAllocation :: "PodIPAllocation \<Rightarrow> SpiderEndpoint option \<Rightarrow> 'w
                            \<Rightarrow> (err option \<times> SpiderEndpoint option) \<times> 'w"
  we_ClearCurrentIPAllocation :: "string \<Rightarrow> SpiderEndpoint option \<Rightarrow> 'w
                            \<Rightarrow> (err option \<times> SpiderEndpoint option) \<times> 'w"
  we_UpdateCurrentStatus :: "string \<Rightarrow> Pod \<Rightarrow> 'w \<Rightarrow> err option \<times> 'w"

record 'w NodeManager =
  node_MatchLabelSelector :: "string \<Rightarrow> string \<Rightarrow> 'w \<Rightarrow> (err + bool) \<times> 'w"

record 'w NamespaceManager =
  GetNamespaceByName :: "string \<Rightarrow> 'w \<Rightarrow> (err + Namespace) \<times> 'w"
  GetNSDefaultPools :: "Namespace \<Rightarrow> 'w \<Rightarrow> (err + string list \<times> string list) \<times> 'w"
  ns_MatchLabelSelector :: "string \<Rightarrow> string \<Rightarrow> 'w \<Rightarrow> (err + bool) \<times> 'w"

record 'w PodManager =
  GetPodByName :: "string \<Rightarrow> string \<Rightarrow> 'w \<Rightarrow> (err + Pod) \<times> 'w"
  GetPodTopController :: "Pod \<Rightarrow> 'w \<Rightarrow> (err + string \<times> TopController) \<times> 'w"
  pod_MatchLabelSelector :: "string \<Rightarrow> string \<Rightarrow> string \<Rightarrow> 'w \<Rightarrow> (err + bool) \<times> 'w"
  MergeAnnotations :: "string \<Rightarrow> string \<Rightarrow> (string \<times> string) list \<Rightarrow> 'w \<Rightarrow> err option \<times> 'w"

record 'w StatefulSetManager =
  IsValidStatefulSetPod :: "string \<Rightarrow> string \<Rightarrow> string \<Rightarrow> 'w \<Rightarrow> (err + bool) \<times> 'w"

text \<open>
  Functions of the repository that the orchestrator calls and whose code is not among
  the files at hand: conversions, annotation parsers, the configuration's methods.
  They compute from their arguments only and are parameters too. \<open>GroupIPDetails\<close>
  returns a Go map; the list gives its entries in the order in which the model visits
  them. \<open>groupCustomRoutesByGW\<close> returns the routes it grouped and what is left of the
  custom routes, which it edits through a pointer.
\<close>

record helpers =
  convertResultsToIPConfigsAndAllRoutes :: "AllocationResult list \<Rightarrow> IPConfig list \<times> Route list"
  convertResultsToIPDetails :: "AllocationResult list \<Rightarrow> IPAllocationDetail list"
  convertIPDetailsToIPConfigsAndAllRoutes :: "IPAllocationDetail list \<Rightarrow> IPConfig list \<times> Route list"
  convertSpecRoutesToOAIRoutes :: "string \<Rightarrow> SpecRoute list \<Rightarrow> Route list"
  GroupIPDetails :: "string \<Rightarrow> IPAllocationDetail list \<Rightarrow> (string \<times> IPAndCID list) list"
  genIPAssignmentAnnotation :: "IPConfig list \<Rightarrow> err + (string \<times> string) list"
  getCustomRoutes :: "Pod \<Rightarrow> err + Route list"
  groupCustomRoutesByGW :: "Route list \<Rightarrow> IPConfig option \<Rightarrow> err + Route list \<times> Route list"
  GetSubnetAnnoConfig :: "(string \<times> string) list \<Rightarrow> err + SubnetAnnoConfig option"
  AppLabelValue :: "string \<Rightarrow> string \<Rightarrow> string \<Rightarrow> string"
  getPoolFromPodAnnoPools :: "string \<Rightarrow> string \<Rightarrow> err + ToBeAllocated list"
  getPoolFromPodAnnoPool :: "string \<Rightarrow> string \<Rightarrow> bool \<Rightarrow> err + ToBeAllocated"
  getPoolFromNetConf :: "string \<Rightarrow> string list \<Rightarrow> string list \<Rightarrow> bool \<Rightarrow> ToBeAllocated option"
  getClusterDefaultPool :: "IPAMConfig \<Rightarrow> string \<Rightarrow> bool \<Rightarrow> err + ToBeAllocated"
  checkIPVersionEnable :: "IPAMConfig \<Rightarrow> ToBeAllocated list \<Rightarrow> err option"
  CheckPodStatus :: "Pod \<Rightarrow> string \<times> bool"
  GetOwnerControllerType :: "Pod \<Rightarrow> string \<times> string"
  RetrieveIPAllocation :: "string \<Rightarrow> string \<Rightarrow> bool \<Rightarrow> SpiderEndpoint option
                             \<Rightarrow> PodIPAllocation option \<times> bool"

record 'w ipam =
  config :: IPAMConfig
  ipamLimiter :: "'w Limiter"
  ipPoolManager :: "'w IPPoolManager"
  weManager :: "'w WorkloadEndpointManager"
  nodeManager :: "'w NodeManager"
  nsManager :: "'w NamespaceManager"
  podManager :: "'w PodManager"
  stsManager :: "'w StatefulSetManager"
  funcs :: helpers
  sleep :: "int \<Rightarrow> 'w \<Rightarrow> 'w"

text \<open>A call to a collaborator: it acts on the world, and the trace records it.\<close>

definition call :: "event \<Rightarrow> ('w \<Rightarrow> 'a \<times> 'w) \<Rightarrow> 'w st \<Rightarrow> 'a \<times> 'w st" where
  "call ev f s = (case f (world s) of (r, w') \<Rightarrow> (r, emit ev (s\<lparr>world := w'\<rparr>)))"

definition constant_IPv4 :: int where "constant_IPv4 = 4"
definition constant_IPv6 :: int where "constant_IPv6 = 6"
definition OwnerStatefulSet :: string where "OwnerStatefulSet = ''StatefulSet''"
definition OwnerNone :: string where "OwnerNone = ''None''"
definition OwnerUnknown :: string where "OwnerUnknown = ''Unknown''"
definition AnnoPodIPPools :: string where "AnnoPodIPPools = ''ipam.spidernet.io/ippools''"
definition AnnoPodIPPool :: string where "AnnoPodIPPool = ''ipam.spidernet.io/ippool''"

section \<open>The allocation path: allocating and releasing\<close>

text \<open>
  The loop of \<open>allocateIPFromPoolCandidates\<close> over the pools of a candidate, with the
  errors collected so far. \<open>None\<close> is a panic inside the loop (the pool or the IP that
  \<open>AllocateIP\<close> returned next to a nil error is nil, or the IP has no address), which
  the deferred \<open>recover\<close> of the function catches.
\<close>

fun allocate_from_pools ::
  "'w ipam \<Rightarrow> string \<Rightarrow> string \<Rightarrow> bool \<Rightarrow> Pod \<Rightarrow> string list \<Rightarrow> err list \<Rightarrow> 'w st
     \<Rightarrow> (AllocationResult \<times> err list) option \<times> 'w st" where
  "allocate_from_pools I nic containerID cleanGateway pod [] errs s =
     (Some (\<lparr>res_IP = None, res_CleanGateway = False, res_Routes = []\<rparr>, errs), s)"
| "allocate_from_pools I nic containerID cleanGateway pod (pool # pools) errs s =
     (case call (EvAllocateIP pool containerID nic)
             (AllocateIP (ipPoolManager I) pool containerID nic pod) s of
        ((ip, ipPool, Some e), s1) \<Rightarrow>
          allocate_from_pools I nic containerID cleanGateway pod pools (errs @ [e])
            (emit (EvWarn ''Failed to allocate IP from IPPool'') s1)
      | ((ip, ipPool, None), s1) \<Rightarrow>
          (case ipPool of
             None \<Rightarrow> (None, s1)
           | Some p \<Rightarrow>
               (case ip of
                  None \<Rightarrow> (None, s1)
                | Some c \<Rightarrow>
                    (case ipc_Address c of
                       None \<Rightarrow> (None, s1)
                     | Some a \<Rightarrow>
                         (Some (\<lparr>res_IP = ip, res_CleanGateway = cleanGateway,
                                 res_Routes = convertSpecRoutesToOAIRoutes (funcs I) nic (pool_Routes p)\<rparr>,
                                errs), s1)))))"

text \<open>
  \<open>allocateIPFromPoolCandidates\<close> returns \<open>(nil, nil)\<close> after a recovered panic: its
  results are not named, so the recovered function returns their zero values.
\<close>

definition allocateIPFromPoolCandidates ::
  "'w ipam \<Rightarrow> PoolCandidate \<Rightarrow> string \<Rightarrow> string \<Rightarrow> bool \<Rightarrow> Pod \<Rightarrow> 'w st
     \<Rightarrow> (AllocationResult option \<times> err option) \<times> 'w st" where
  "allocateIPFromPoolCandidates I c nic containerID cleanGateway pod s =
     (case call (EvAcquireTicket (Pools c)) (AcquireTicket (ipamLimiter I) (Pools c)) s of
        (ticketErr, s1) \<Rightarrow>
          let s2 = (case ticketErr of
                      Some e \<Rightarrow> emit (EvError ''Failed to queue correctly'') s1
                    | None \<Rightarrow> s1);
              deferred = (\<lambda>s'. case ticketErr of
                      Some e \<Rightarrow> s'
                    | None \<Rightarrow> snd (call (EvReleaseTicket (Pools c))
                                 (\<lambda>w. ((), ReleaseTicket (ipamLimiter I) (Pools c) w)) s'))
          in case allocate_from_pools I nic containerID cleanGateway pod (Pools c) [] s2 of
               (None, s3) \<Rightarrow>
                 ((None, None),
                  deferred (emit (EvError ''stack trace'')
                    (emit (EvError ''panic runtime error: IPPool'')
                      (emit (EvError ''panic runtime error: AllocationResult'') s3))))
             | (Some (result, errs), s3) \<Rightarrow>
                 if length errs = length (Pools c)
                 then ((Some result,
                        Some (Wrapw ''failed to allocate any IP address from IPPools'' (Aggregate errs))),
                       deferred s3)
                 else ((Some result, None), deferred s3))"

text \<open>
  A function of the allocation path ends with its results or with a panic that nothing
  recovers.
\<close>

datatype 'a ending = Done 'a | Panicked string

text \<open>
  The loop of \<open>allocateForOneNIC\<close> over the candidates of one NIC. It carries the
  results so far, the custom routes not grouped yet and the endpoint. The result of a
  candidate sits in \<open>results\<close> by pointer, so the routes added to it afterwards show
  there.
\<close>

fun allocateForOneNIC_loop ::
  "'w ipam \<Rightarrow> ToBeAllocated \<Rightarrow> string \<Rightarrow> Pod \<Rightarrow> PoolCandidate list
     \<Rightarrow> AllocationResult list \<Rightarrow> Route list \<Rightarrow> SpiderEndpoint option \<Rightarrow> 'w st
     \<Rightarrow> (AllocationResult list \<times> Route list \<times> SpiderEndpoint option \<times> err option) ending \<times> 'w st" where
  "allocateForOneNIC_loop I t containerID pod [] results customRoutes endpoint s =
     (Done (results, customRoutes, endpoint, None), s)"
| "allocateForOneNIC_loop I t containerID pod (c # cs) results customRoutes endpoint s =
     (case allocateIPFromPoolCandidates I c (NIC t) containerID (CleanGateway t) pod s of
        ((None, err), s1) \<Rightarrow> (Panicked ''nil pointer dereference'', s1)
      | ((Some result, err), s1) \<Rightarrow>
          let results1 = (if res_IP result \<noteq> None then results @ [result] else results)
          in case err of
               Some e \<Rightarrow> (Done (results1, customRoutes, endpoint, Some e), s1)
             | None \<Rightarrow>
                 (case groupCustomRoutesByGW (funcs I) customRoutes (res_IP result) of
                    Inl e \<Rightarrow>
                      (Done (results1, customRoutes, endpoint,
                             Some (Msgv ''failed to group custom routes by gateway'' e)), s1)
                  | Inr (routes, customRoutes1) \<Rightarrow>
                      let result1 = result\<lparr>res_Routes := res_Routes result @ routes\<rparr>;
                          results2 = (if res_IP result \<noteq> None then results @ [result1] else results);
                          patch = convertResultsToIPDetails (funcs I) [result1];
                          allocation = \<lparr>ContainerID = containerID, Node = None,
                                        IPs = patch, CreationTime = None\<rparr>
                      in case call (EvPatchIPAllocation allocation)
                                (we_PatchIPAllocation (weManager I) allocation endpoint) s1 of
                           ((Some e, endpoint1), s2) \<Rightarrow>
                             (if endpoint = None then (Panicked ''nil pointer dereference'', s2)
                              else (Done (results2, customRoutes1, endpoint1,
                                     Some (Msgv ''failed to update IP allocation detail of Endpoint'' e)), s2))
                         | ((None, endpoint1), s2) \<Rightarrow>
                             allocateForOneNIC_loop I t containerID pod cs results2 customRoutes1 endpoint1 s2))"

definition allocateForOneNIC ::
  "'w ipam \<Rightarrow> ToBeAllocated \<Rightarrow> string \<Rightarrow> Route list \<Rightarrow> SpiderEndpoint option \<Rightarrow> Pod \<Rightarrow> 'w st
     \<Rightarrow> (AllocationResult list \<times> Route list \<times> SpiderEndpoint option \<times> err option) ending \<times> 'w st" where
  "allocateForOneNIC I t containerID customRoutes endpoint pod s =
     allocateForOneNIC_loop I t containerID pod (PoolCandidates t) [] customRoutes endpoint s"

text \<open>The loop of \<open>allocateForAllNICs\<close> over the NICs, with all results so far.\<close>

fun allocateForAllNICs_loop ::
  "'w ipam \<Rightarrow> string \<Rightarrow> Pod \<Rightarrow> ToBeAllocated list
     \<Rightarrow> AllocationResult list \<Rightarrow> Route list \<Rightarrow> SpiderEndpoint option \<Rightarrow> 'w st
     \<Rightarrow> (AllocationResult list \<times> Route list \<times> SpiderEndpoint option \<times> err option) ending \<times> 'w st" where
  "allocateForAllNICs_loop I containerID pod [] allResults customRoutes endpoint s =
     (Done (allResults, customRoutes, endpoint, None), s)"
| "allocateForAllNICs_loop I containerID pod (t # tt) allResults customRoutes endpoint s =
     (case allocateForOneNIC I t containerID customRoutes endpoint pod s of
        (Panicked m, s1) \<Rightarrow> (Panicked m, s1)
      | (Done (oneResults, customRoutes1, endpoint1, err), s1) \<Rightarrow>
          let allResults1 = (if length oneResults \<noteq> 0 then allResults @ oneResults else allResults)
          in case err of
               Some e \<Rightarrow> (Done (allResults1, customRoutes1, endpoint1, Some e), s1)
             | None \<Rightarrow> allocateForAllNICs_loop I containerID pod tt allResults1 customRoutes1 endpoint1 s1)"

definition allocateForAllNICs ::
  "'w ipam \<Rightarrow> ToBeAllocated list \<Rightarrow> string \<Rightarrow> SpiderEndpoint option \<Rightarrow> Pod \<Rightarrow> 'w st
     \<Rightarrow> (AllocationResult list \<times> SpiderEndpoint option \<times> err option) ending \<times> 'w st" where
  "allocateForAllNICs I tt containerID endpoint pod s =
     (case getCustomRoutes (funcs I) pod of
        Inl e \<Rightarrow> (Done ([], endpoint, Some e), s)
      | Inr customRoutes \<Rightarrow>
          (case allocateForAllNICs_loop I containerID pod tt [] customRoutes endpoint s of
             (Panicked m, s1) \<Rightarrow> (Panicked m, s1)
           | (Done (allResults, customRoutes1, endpoint1, Some e), s1) \<Rightarrow>
               (Done (allResults, endpoint1, Some e), s1)
           | (Done (allResults, customRoutes1, endpoint1, None), s1) \<Rightarrow>
               let s2 = (if length customRoutes1 \<noteq> 0 then emit (EvWarn ''Invalid custom routes'') s1 else s1);
                   ips = fst (convertResultsToIPConfigsAndAllRoutes (funcs I) allResults)
               in case genIPAssignmentAnnotation (funcs I) ips of
                    Inl e \<Rightarrow>
                      (Done (allResults, endpoint1,
                             Some (Msgv ''failed to generate IP assignment annotation'' e)), s2)
                  | Inr anno \<Rightarrow>
                      (case call (EvMergeAnnotations (pod_Namespace pod) (pod_Name pod) anno)
                              (MergeAnnotations (podManager I) (pod_Namespace pod) (pod_Name pod) anno) s2 of
                         (Some e, s3) \<Rightarrow>
                           (Done (allResults, endpoint1,
                                  Some (Wrapw ''failed to merge IP assignment annotation'' e)), s3)
                       | (None, s3) \<Rightarrow> (Done (allResults, endpoint1, None), s3))))"

text \<open>
  \<open>release\<close> starts one goroutine per pool and waits for all of them. The model runs
  them one after the other, in the order of the grouped details: each goroutine asks
  for a ticket, releases the addresses of its pool, and gives the ticket back if it got
  one; the errors of \<open>ReleaseIP\<close> are collected.
\<close>

fun release_pools ::
  "'w ipam \<Rightarrow> (string \<times> IPAndCID list) list \<Rightarrow> err list \<Rightarrow> 'w st \<Rightarrow> err list \<times> 'w st" where
  "release_pools I [] errs s = (errs, s)"
| "release_pools I ((pool, ipAndCIDs) # rest) errs s =
     (case call (EvAcquireTicket [pool]) (AcquireTicket (ipamLimiter I) [pool]) s of
        (ticketErr, s1) \<Rightarrow>
          let s2 = (case ticketErr of
                      Some e \<Rightarrow> emit (EvError ''Failed to queue correctly'') s1
                    | None \<Rightarrow> s1)
          in case call (EvReleaseIP pool ipAndCIDs) (ReleaseIP (ipPoolManager I) pool ipAndCIDs) s2 of
               (r, s3) \<Rightarrow>
                 let s4 = (case ticketErr of
                             Some e \<Rightarrow> s3
                           | None \<Rightarrow> snd (call (EvReleaseTicket [pool])
                                        (\<lambda>w. ((), ReleaseTicket (ipamLimiter I) [pool] w)) s3))
                 in release_pools I rest (case r of Some e \<Rightarrow> errs @ [e] | None \<Rightarrow> errs) s4)"

definition release ::
  "'w ipam \<Rightarrow> string \<Rightarrow> IPAllocationDetail list \<Rightarrow> 'w st \<Rightarrow> err option \<times> 'w st" where
  "release I containerID details s =
     (if length details = 0 then (None, s)
      else
        let poolToIPAndCIDs = GroupIPDetails (funcs I) containerID details
        in case release_pools I poolToIPAndCIDs [] s of
             (errs, s1) \<Rightarrow>
               if length errs \<noteq> 0
               then (Some (Wrapw ''failed to release all allocated IP addresses'' (Aggregate errs)), s1)
               else (None, s1))"

section \<open>The allocation path: choosing the pools\<close>

text \<open>
  The retry loop of \<open>getPoolFromSubnet\<close>, which the source writes once for IPv4 and once
  for IPv6 with the same body: it lists the pools that carry the labels, and ends with
  an error (\<open>Inl\<close>), with the name of the one pool found, or with nothing after the last
  retry. \<open>WaitSubnetPoolRetries\<close> is taken below the largest \<open>int\<close>, so that \<open>j + 1\<close>
  does not overflow.
\<close>

function subnet_pool_loop ::
  "'w ipam \<Rightarrow> (string \<times> string) list \<Rightarrow> int \<Rightarrow> 'w st \<Rightarrow> (err + string option) \<times> 'w st" where
  "subnet_pool_loop I labels j s =
     (if j \<le> WaitSubnetPoolRetries (config I) then
        (case call (EvRead ''ListIPPools'' (map snd labels)) (ListIPPools (ipPoolManager I) labels) s of
           (Inl e, s1) \<Rightarrow>
             if j = WaitSubnetPoolRetries (config I) then (Inl e, s1)
             else subnet_pool_loop I labels (j + 1) (emit (EvError ''failed to list IPPools'') s1)
         | (Inr items, s1) \<Rightarrow>
             if length items = 0
             then subnet_pool_loop I labels (j + 1)
                    (snd (call (EvSleep (WaitSubnetPoolTime (config I)))
                            (\<lambda>w. ((), sleep I (WaitSubnetPoolTime (config I)) w))
                            (emit (EvError ''no IPPool retrieved from SpiderSubnet'') s1)))
             else if length items > 1
             then (Inl (New ''SpiderSubnet owns multiple IPPools for one specify application''), s1)
             else (Inr (Some (pool_Name (hd items))), s1))
      else (Inr None, s))"
  by pat_completeness auto
termination
  by (relation "measure (\<lambda>(I, labels, j, s). nat (WaitSubnetPoolRetries (config I) + 1 - j))") auto

declare subnet_pool_loop.simps [simp del]

definition subnet_labels :: "'w ipam \<Rightarrow> string \<Rightarrow> TopController \<Rightarrow> string \<Rightarrow> string \<Rightarrow> (string \<times> string) list" where
  "subnet_labels I kind ctl version subnet =
     [(''LabelIPPoolOwnerApplicationUID'', top_UID ctl),
      (''LabelIPPoolVersion'', version),
      (''LabelIPPoolOwnerSpiderSubnet'', subnet),
      (''LabelIPPoolOwnerApplication'', AppLabelValue (funcs I) kind (top_Namespace ctl) (top_Name ctl))]"

definition getPoolFromSubnet ::
  "'w ipam \<Rightarrow> Pod \<Rightarrow> string \<Rightarrow> bool \<Rightarrow> 'w st \<Rightarrow> (err + ToBeAllocated option) \<times> 'w st" where
  "getPoolFromSubnet I pod nic cleanGateway s =
     (case GetSubnetAnnoConfig (funcs I) (pod_Annotations pod) of
        Inl e \<Rightarrow> (Inl e, s)
      | Inr None \<Rightarrow> (Inr None, s)
      | Inr (Some subnetAnnoConfig) \<Rightarrow>
          if EnableIPv4 (config I) \<and> length (subnet_IPv4 subnetAnnoConfig) = 0
          then (Inl (New ''no specified IPv4 SpiderSubnet''), s)
          else if EnableIPv6 (config I) \<and> length (subnet_IPv6 subnetAnnoConfig) = 0
          then (Inl (New ''no specified IPv6 SpiderSubnet''), s)
          else
            (case call (EvRead ''GetPodTopController'' [pod_Namespace pod, pod_Name pod])
                    (GetPodTopController (podManager I) pod) s of
               (Inl e, s1) \<Rightarrow> (Inl (Msgv ''failed to get pod top owner reference'' e), s1)
             | (Inr (kind, ctl), s1) \<Rightarrow>
                 if kind = OwnerNone \<or> kind = OwnerUnknown
                 then (Inl (New ''spider subnet does not support pod owner controller''), s1)
                 else
                   let t = \<lparr>NIC = nic, CleanGateway = cleanGateway, PoolCandidates = []\<rparr>;
                       v4 = (if EnableIPv4 (config I) \<and> length (subnet_IPv4 subnetAnnoConfig) \<noteq> 0
                             then subnet_pool_loop I
                                    (subnet_labels I kind ctl ''IPv4'' (hd (subnet_IPv4 subnetAnnoConfig))) 0 s1
                             else (Inr None, s1))
                   in case v4 of
                        (Inl e, s2) \<Rightarrow> (Inl e, s2)
                      | (Inr found4, s2) \<Rightarrow>
                          let t4 = (case found4 of
                                      None \<Rightarrow> t
                                    | Some name \<Rightarrow> t\<lparr>PoolCandidates := PoolCandidates t @
                                        [\<lparr>IPVersion = constant_IPv4, Pools = [name]\<rparr>]\<rparr>);
                              v6 = (if EnableIPv6 (config I) \<and> length (subnet_IPv6 subnetAnnoConfig) \<noteq> 0
                                    then subnet_pool_loop I
                                           (subnet_labels I kind ctl ''IPv6'' (hd (subnet_IPv6 subnetAnnoConfig))) 0 s2
                                    else (Inr None, s2))
                          in case v6 of
                               (Inl e, s3) \<Rightarrow> (Inl e, s3)
                             | (Inr found6, s3) \<Rightarrow>
                                 (Inr (Some (case found6 of
                                        None \<Rightarrow> t4
                                      | Some name \<Rightarrow> t4\<lparr>PoolCandidates := PoolCandidates t4 @
                                          [\<lparr>IPVersion = constant_IPv6, Pools = [name]\<rparr>]\<rparr>)), s3)))"

definition getPoolFromNS ::
  "'w ipam \<Rightarrow> string \<Rightarrow> string \<Rightarrow> bool \<Rightarrow> 'w st \<Rightarrow> (err + ToBeAllocated option) \<times> 'w st" where
  "getPoolFromNS I namespace nic cleanGateway s =
     (case call (EvRead ''GetNamespaceByName'' [namespace]) (GetNamespaceByName (nsManager I) namespace) s of
        (Inl e, s1) \<Rightarrow> (Inl e, s1)
      | (Inr ns, s1) \<Rightarrow>
          (case call (EvRead ''GetNSDefaultPools'' [nsobj_Name ns]) (GetNSDefaultPools (nsManager I) ns) s1 of
             (Inl e, s2) \<Rightarrow> (Inl e, s2)
           | (Inr (nsDefaultV4Pools, nsDefaultV6Pools), s2) \<Rightarrow>
               if length nsDefaultV4Pools = 0 \<and> length nsDefaultV6Pools = 0 then (Inr None, s2)
               else
                 let t = \<lparr>NIC = nic, CleanGateway = cleanGateway, PoolCandidates = []\<rparr>;
                     t4 = (if length nsDefaultV4Pools \<noteq> 0
                           then t\<lparr>PoolCandidates := PoolCandidates t @
                                  [\<lparr>IPVersion = constant_IPv4, Pools = nsDefaultV4Pools\<rparr>]\<rparr>
                           else t);
                     t6 = (if length nsDefaultV6Pools \<noteq> 0
                           then t4\<lparr>PoolCandidates := PoolCandidates t4 @
                                  [\<lparr>IPVersion = constant_IPv6, Pools = nsDefaultV6Pools\<rparr>]\<rparr>
                           else t4)
                 in (Inr (Some t6), s2)))"

definition getPoolCandidates ::
  "'w ipam \<Rightarrow> string \<Rightarrow> string list \<Rightarrow> string list \<Rightarrow> bool \<Rightarrow> Pod \<Rightarrow> 'w st
     \<Rightarrow> (err + ToBeAllocated list) \<times> 'w st" where
  "getPoolCandidates I nic netConfV4Pool netConfV6Pool cleanGateway pod s =
     (case getPoolFromSubnet I pod nic cleanGateway s of
        (Inl e, s1) \<Rightarrow> (Inl (Msgv ''failed to get IPPool from SpiderSubnet'' e), s1)
      | (Inr (Some fromSubnet), s1) \<Rightarrow> (Inr [fromSubnet], s1)
      | (Inr None, s1) \<Rightarrow>
          (case map_of (pod_Annotations pod) AnnoPodIPPools of
             Some anno \<Rightarrow> (getPoolFromPodAnnoPools (funcs I) anno nic, s1)
           | None \<Rightarrow>
               (case map_of (pod_Annotations pod) AnnoPodIPPool of
                  Some anno \<Rightarrow>
                    (case getPoolFromPodAnnoPool (funcs I) anno nic cleanGateway of
                       Inl e \<Rightarrow> (Inl e, s1)
                     | Inr t \<Rightarrow> (Inr [t], s1))
                | None \<Rightarrow>
                    (case getPoolFromNS I (pod_Namespace pod) nic cleanGateway s1 of
                       (Inl e, s2) \<Rightarrow> (Inl e, s2)
                     | (Inr (Some t), s2) \<Rightarrow> (Inr [t], s2)
                     | (Inr None, s2) \<Rightarrow>
                         (case getPoolFromNetConf (funcs I) nic netConfV4Pool netConfV6Pool cleanGateway of
                            Some t \<Rightarrow> (Inr [t], s2)
                          | None \<Rightarrow>
                              (case getClusterDefaultPool (funcs I) (config I) nic cleanGateway of
                                 Inl e \<Rightarrow> (Inl e, s2)
                               | Inr t \<Rightarrow> (Inr [t], s2)))))))"

section \<open>The allocation path: filtering and verifying the pools\<close>

definition selectByPod :: "'w ipam \<Rightarrow> int \<Rightarrow> string \<Rightarrow> Pod \<Rightarrow> 'w st \<Rightarrow> unit res \<times> 'w st" where
  "selectByPod I version poolName pod s =
     (case call (EvRead ''GetIPPoolByName'' [poolName]) (GetIPPoolByName (ipPoolManager I) poolName) s of
        (Inl e, s1) \<Rightarrow> (Fail (Msgv ''failed to get IPPool'' e), s1)
      | (Inr ipPool, s1) \<Rightarrow>
          if pool_DeletionTimestamp ipPool \<noteq> None then (Fail (New ''terminating IPPool''), s1)
          else (case pool_Disable ipPool of
            None \<Rightarrow> (Panic ''nil pointer dereference'', s1)
          | Some disable \<Rightarrow>
          if disable then (Fail (New ''disabled IPPool''), s1)
          else (case pool_IPVersion ipPool of
            None \<Rightarrow> (Panic ''nil pointer dereference'', s1)
          | Some v \<Rightarrow>
          if v \<noteq> version then (Fail (New ''unexpected IP version of the IPPool''), s1)
          else if pool_TotalIPCount ipPool \<noteq> None \<and> pool_AllocatedIPCount ipPool \<noteq> None
                  \<and> the (pool_TotalIPCount ipPool) - the (pool_AllocatedIPCount ipPool) = 0
          then (Fail ErrIPUsedOut, s1)
          else
            (case (case pool_NodeAffinity ipPool of
                     None \<Rightarrow> (Ok (), s1)
                   | Some sel \<Rightarrow>
                       (case call (EvRead ''nodeManager.MatchLabelSelector'' [pod_NodeName pod, sel])
                               (node_MatchLabelSelector (nodeManager I) (pod_NodeName pod) sel) s1 of
                          (Inl e, s2) \<Rightarrow> (Fail (Msgv ''failed to check the Node affinity of IPPool'' e), s2)
                        | (Inr nodeMatched, s2) \<Rightarrow>
                            if \<not> nodeMatched then (Fail (New ''unmatched Node affinity of IPPool''), s2)
                            else (Ok (), s2))) of
               (Fail e, s2) \<Rightarrow> (Fail e, s2)
             | (Panic m, s2) \<Rightarrow> (Panic m, s2)
             | (Ok u, s2) \<Rightarrow>
            (case (case pool_NamespaceAffinity ipPool of
                     None \<Rightarrow> (Ok (), s2)
                   | Some sel \<Rightarrow>
                       (case call (EvRead ''nsManager.MatchLabelSelector'' [pod_Namespace pod, sel])
                               (ns_MatchLabelSelector (nsManager I) (pod_Namespace pod) sel) s2 of
                          (Inl e, s3) \<Rightarrow> (Fail (Msgv ''failed to check the Namespace affinity of IPPool'' e), s3)
                        | (Inr nsMatched, s3) \<Rightarrow>
                            if \<not> nsMatched then (Fail (New ''unmatched Namespace affinity of IPPool''), s3)
                            else (Ok (), s3))) of
               (Fail e, s3) \<Rightarrow> (Fail e, s3)
             | (Panic m, s3) \<Rightarrow> (Panic m, s3)
             | (Ok u, s3) \<Rightarrow>
            (case pool_PodAffinity ipPool of
               None \<Rightarrow> (Ok (), s3)
             | Some sel \<Rightarrow>
                 (case call (EvRead ''podManager.MatchLabelSelector'' [pod_Namespace pod, pod_Name pod, sel])
                         (pod_MatchLabelSelector (podManager I) (pod_Namespace pod) (pod_Name pod) sel) s3 of
                    (Inl e, s4) \<Rightarrow> (Fail (Msgv ''failed to check the Pod affinity of IPPool'' e), s4)
                  | (Inr podMatched, s4) \<Rightarrow>
                      if \<not> podMatched then (Fail (New ''unmatched Pod affinity of IPPool''), s4)
                      else (Ok (), s4))))))))"

text \<open>
  The three nested loops of \<open>filterPoolCandidates\<close>: over the pools of a candidate
  (collecting the errors and the pools kept), over the candidates of a NIC, over the
  NICs. The source overwrites \<open>c.Pools\<close> in place; the model returns the filtered list.
\<close>

fun filter_pools ::
  "'w ipam \<Rightarrow> int \<Rightarrow> Pod \<Rightarrow> string list \<Rightarrow> err list \<Rightarrow> string list \<Rightarrow> 'w st
     \<Rightarrow> (err list \<times> string list) res \<times> 'w st" where
  "filter_pools I version pod [] errs selectedPools s = (Ok (errs, selectedPools), s)"
| "filter_pools I version pod (pool # pools) errs selectedPools s =
     (case selectByPod I version pool pod s of
        (Panic m, s1) \<Rightarrow> (Panic m, s1)
      | (Fail e, s1) \<Rightarrow>
          filter_pools I version pod pools (errs @ [e]) selectedPools
            (emit (EvWarn ''IPPool is filtered by Pod'') s1)
      | (Ok u, s1) \<Rightarrow> filter_pools I version pod pools errs (selectedPools @ [pool]) s1)"

fun filter_candidates ::
  "'w ipam \<Rightarrow> Pod \<Rightarrow> PoolCandidate list \<Rightarrow> 'w st \<Rightarrow> PoolCandidate list res \<times> 'w st" where
  "filter_candidates I pod [] s = (Ok [], s)"
| "filter_candidates I pod (c # cs) s =
     (case filter_pools I (IPVersion c) pod (Pools c) [] [] s of
        (Panic m, s1) \<Rightarrow> (Panic m, s1)
      | (Fail e, s1) \<Rightarrow> (Fail e, s1)
      | (Ok (errs, selectedPools), s1) \<Rightarrow>
          if length errs = length (Pools c)
          then (Fail (Wrapw ''all IPPools filtered out'' ErrNoAvailablePool), s1)
          else (case filter_candidates I pod cs s1 of
                  (Ok cs', s2) \<Rightarrow> (Ok (c\<lparr>Pools := selectedPools\<rparr> # cs'), s2)
                | (r, s2) \<Rightarrow> (r, s2)))"

fun filterPoolCandidates ::
  "'w ipam \<Rightarrow> ToBeAllocated list \<Rightarrow> Pod \<Rightarrow> 'w st \<Rightarrow> ToBeAllocated list res \<times> 'w st" where
  "filterPoolCandidates I [] pod s = (Ok [], s)"
| "filterPoolCandidates I (t # tt) pod s =
     (case filter_candidates I pod (PoolCandidates t) s of
        (Panic m, s1) \<Rightarrow> (Panic m, s1)
      | (Fail e, s1) \<Rightarrow> (Fail e, s1)
      | (Ok cs, s1) \<Rightarrow>
          (case filterPoolCandidates I tt pod s1 of
             (Ok tt', s2) \<Rightarrow> (Ok (t\<lparr>PoolCandidates := cs\<rparr> # tt'), s2)
           | (r, s2) \<Rightarrow> (r, s2)))"

text \<open>
  Modelled from the spec: \<open>CheckVlanSame\<close> of the pool manager, whose code is not among
  the files. The specification gives every pool a \<open>vlan\<close> (an integer) and asks that
  the pools of a request "share the same VLAN tag": the pools are read by name one
  after the other, a failed read is the error, and they are the same when at most one
  VLAN occurs among them.
\<close>

fun pool_vlans :: "'w ipam \<Rightarrow> string list \<Rightarrow> 'w st \<Rightarrow> (err + int list) \<times> 'w st" where
  "pool_vlans I [] s = (Inr [], s)"
| "pool_vlans I (poolName # poolNames) s =
     (case call (EvRead ''GetIPPoolByName'' [poolName]) (GetIPPoolByName (ipPoolManager I) poolName) s of
        (Inl e, s1) \<Rightarrow> (Inl e, s1)
      | (Inr ipPool, s1) \<Rightarrow>
          (case pool_vlans I poolNames s1 of
             (Inl e, s2) \<Rightarrow> (Inl e, s2)
           | (Inr vlans, s2) \<Rightarrow> (Inr (pool_Vlan ipPool # vlans), s2)))"

definition CheckVlanSame :: "'w ipam \<Rightarrow> string list \<Rightarrow> 'w st \<Rightarrow> (err + bool) \<times> 'w st" where
  "CheckVlanSame I poolNameList s =
     (case pool_vlans I poolNameList s of
        (Inl e, s1) \<Rightarrow> (Inl e, s1)
      | (Inr vlans, s1) \<Rightarrow> (Inr (length (remdups vlans) \<le> 1), s1))"

fun verifyPoolCandidates :: "'w ipam \<Rightarrow> ToBeAllocated list \<Rightarrow> 'w st \<Rightarrow> err option \<times> 'w st" where
  "verifyPoolCandidates I [] s = (None, s)"
| "verifyPoolCandidates I (t # tt) s =
     (let allPools = concat (map Pools (PoolCandidates t))
      in case CheckVlanSame I allPools s of
           (Inl e, s1) \<Rightarrow> (Some e, s1)
         | (Inr same, s1) \<Rightarrow>
             if \<not> same then (Some (Wrapw ''vlans in each IPPools are not same'' ErrWrongInput), s1)
             else verifyPoolCandidates I tt s1)"

definition genToBeAllocatedSet ::
  "'w ipam \<Rightarrow> string \<Rightarrow> string list \<Rightarrow> string list \<Rightarrow> bool \<Rightarrow> Pod \<Rightarrow> 'w st
     \<Rightarrow> ToBeAllocated list res \<times> 'w st" where
  "genToBeAllocatedSet I nic defaultIPV4IPPool defaultIPV6IPPool cleanGateway pod s =
     (case getPoolCandidates I nic defaultIPV4IPPool defaultIPV6IPPool cleanGateway pod s of
        (Inl e, s1) \<Rightarrow> (Fail e, s1)
      | (Inr preliminary, s1) \<Rightarrow>
          (case checkIPVersionEnable (funcs I) (config I) preliminary of
             Some e \<Rightarrow> (Fail e, s1)
           | None \<Rightarrow>
               (case filterPoolCandidates I preliminary pod s1 of
                  (Fail e, s2) \<Rightarrow> (Fail e, s2)
                | (Panic m, s2) \<Rightarrow> (Panic m, s2)
                | (Ok filtered, s2) \<Rightarrow>
                    (case verifyPoolCandidates I filtered s2 of
                       (Some e, s3) \<Rightarrow> (Fail e, s3)
                     | (None, s3) \<Rightarrow> (Ok filtered, s3)))))"

section \<open>The allocation path: Allocate and Release\<close>

text \<open>
  The branch \<open>if err != nil\<close> of \<open>allocateInStandardMode\<close>, taken with the results and
  the error of \<open>allocateForAllNICs\<close>: roll back what was granted, clear the endpoint's
  current allocation, and return the error.
\<close>

definition allocateInStandardMode_failed ::
  "'w ipam \<Rightarrow> string \<Rightarrow> AllocationResult list \<Rightarrow> SpiderEndpoint option \<Rightarrow> err \<Rightarrow> 'w st
     \<Rightarrow> IpamAddResponse res \<times> 'w st" where
  "allocateInStandardMode_failed I containerID results endpoint err s =
     (let resIPs = fst (convertResultsToIPConfigsAndAllRoutes (funcs I) results);
          rolledBack =
            (if length resIPs \<noteq> 0
             then release I containerID (convertResultsToIPDetails (funcs I) results) s
             else (None, s))
      in case rolledBack of
           (Some rollbackErr, s1) \<Rightarrow>
             (Fail err,
              emit (EvWarn ''Failed to roll back the allocated IPs'')
                (emit (EvMetricAdd ''IpamAllocationRollbackFailureCounts'' 1) s1))
         | (None, s1) \<Rightarrow>
             (case call (EvClearCurrentIPAllocation containerID)
                     (we_ClearCurrentIPAllocation (weManager I) containerID endpoint) s1 of
                ((Some e, endpoint1), s2) \<Rightarrow>
                  (Fail err, emit (EvWarn ''Failed to clear the current IP allocation'') s2)
              | ((None, endpoint1), s2) \<Rightarrow> (Fail err, s2)))"

definition allocateInStandardMode ::
  "'w ipam \<Rightarrow> IpamAddArgs \<Rightarrow> Pod \<Rightarrow> SpiderEndpoint option \<Rightarrow> 'w st \<Rightarrow> IpamAddResponse res \<times> 'w st" where
  "allocateInStandardMode I addArgs pod endpoint s =
     (case genToBeAllocatedSet I (add_IfName addArgs) (add_DefaultIPV4IPPool addArgs)
             (add_DefaultIPV6IPPool addArgs) (add_CleanGateway addArgs) pod s of
        (Fail e, s1) \<Rightarrow> (Fail e, s1)
      | (Panic m, s1) \<Rightarrow> (Panic m, s1)
      | (Ok toBeAllocatedSet, s1) \<Rightarrow>
          (case call (EvMarkIPAllocation (add_ContainerID addArgs))
                  (we_MarkIPAllocation (weManager I) (add_ContainerID addArgs) endpoint pod) s1 of
             (Inl e, s2) \<Rightarrow> (Fail (Msgv ''failed to mark IP allocation'' e), s2)
           | (Inr endpoint1, s2) \<Rightarrow>
               (case allocateForAllNICs I toBeAllocatedSet (add_ContainerID addArgs) endpoint1 pod s2 of
                  (Panicked m, s3) \<Rightarrow> (Panic m, s3)
                | (Done (results, endpoint2, Some err), s3) \<Rightarrow>
                    allocateInStandardMode_failed I (add_ContainerID addArgs) results endpoint2 err s3
                | (Done (results, endpoint2, None), s3) \<Rightarrow>
                    (case convertResultsToIPConfigsAndAllRoutes (funcs I) results of
                       (resIPs, resRoutes) \<Rightarrow>
                         (Ok \<lparr>resp_Ips = resIPs, resp_Routes = resRoutes\<rparr>, s3)))))"

text \<open>
  The loop of \<open>retrieveStsIPAllocation\<close> over the IPs of the current allocation; it
  carries \<open>nicMatched\<close>.
\<close>

fun update_sts_ips ::
  "'w ipam \<Rightarrow> string \<Rightarrow> string \<Rightarrow> Pod \<Rightarrow> IPConfig list \<Rightarrow> bool \<Rightarrow> 'w st \<Rightarrow> bool res \<times> 'w st" where
  "update_sts_ips I containerID nic pod [] nicMatched s = (Ok nicMatched, s)"
| "update_sts_ips I containerID nic pod (c # cs) nicMatched s =
     (case ipc_Nic c of
        None \<Rightarrow> (Panic ''nil pointer dereference'', s)
      | Some n \<Rightarrow>
          if n = nic then
            (case call (EvUpdateAllocatedIPs containerID c)
                    (UpdateAllocatedIPs (ipPoolManager I) containerID pod c) s of
               (Some e, s1) \<Rightarrow>
                 (Fail (Wrapw ''failed to update previous IP allocation records of StatefulSet in IPPool'' e), s1)
             | (None, s1) \<Rightarrow> update_sts_ips I containerID nic pod cs True s1)
          else update_sts_ips I containerID nic pod cs nicMatched s)"

definition retrieveStsIPAllocation ::
  "'w ipam \<Rightarrow> string \<Rightarrow> string \<Rightarrow> Pod \<Rightarrow> SpiderEndpoint option \<Rightarrow> 'w st
     \<Rightarrow> IpamAddResponse option res \<times> 'w st" where
  "retrieveStsIPAllocation I containerID nic pod endpoint s =
     (case endpoint of
        None \<Rightarrow> (Ok None, s)
      | Some ep \<Rightarrow>
          (case Current (Status ep) of
             None \<Rightarrow> (Fail (New ''current IP allocation is lost, endpoint data broken''), s)
           | Some current \<Rightarrow>
               (case convertIPDetailsToIPConfigsAndAllRoutes (funcs I) (IPs current) of
                  (ips, routes) \<Rightarrow>
                    (case update_sts_ips I containerID nic pod ips False s of
                       (Fail e, s1) \<Rightarrow> (Fail e, s1)
                     | (Panic m, s1) \<Rightarrow> (Panic m, s1)
                     | (Ok nicMatched, s1) \<Rightarrow>
                         if \<not> nicMatched
                         then (Fail (New ''nic do not match the current IP allocation of StatefulSet''), s1)
                         else
                           (case call (EvUpdateCurrentStatus containerID)
                                   (we_UpdateCurrentStatus (weManager I) containerID pod) s1 of
                              (Some e, s2) \<Rightarrow>
                                (Fail (Wrapw ''failed to update the current IP allocation of StatefulSet'' e), s2)
                            | (None, s2) \<Rightarrow> (Ok (Some \<lparr>resp_Ips = ips, resp_Routes = routes\<rparr>), s2))))))"

definition retrieveMultiNICIPAllocation ::
  "'w ipam \<Rightarrow> string \<Rightarrow> string \<Rightarrow> SpiderEndpoint option \<Rightarrow> 'w st
     \<Rightarrow> IpamAddResponse option res \<times> 'w st" where
  "retrieveMultiNICIPAllocation I containerID nic endpoint s =
     (case fst (RetrieveIPAllocation (funcs I) containerID nic False endpoint) of
        None \<Rightarrow> (Ok None, s)
      | Some allocation \<Rightarrow>
          (case convertIPDetailsToIPConfigsAndAllRoutes (funcs I) (IPs allocation) of
             (ips, routes) \<Rightarrow> (Ok (Some \<lparr>resp_Ips = ips, resp_Routes = routes\<rparr>), s)))"

text \<open>
  What the caller holds after \<open>GetEndpointByName\<close> and the test
  \<open>client.IgnoreNotFound(err) != nil\<close>: the endpoint, nil when it was not found, or the
  error that is returned.
\<close>

definition found_or_nil :: "err + SpiderEndpoint \<Rightarrow> err + SpiderEndpoint option" where
  "found_or_nil got =
     (case got of
        Inl e \<Rightarrow> if IsNotFound e then Inr None else Inl e
      | Inr ep \<Rightarrow> Inr (Some ep))"

text \<open>
  The first half of \<open>Allocate\<close> after the endpoint is read: the retrieval of an
  allocation that exists, for a pod of a StatefulSet or in multi-NIC mode. \<open>Ok None\<close>
  is "nothing retrieved", after which \<open>Allocate\<close> allocates in standard mode.
\<close>

definition Allocate_retrieve ::
  "'w ipam \<Rightarrow> IpamAddArgs \<Rightarrow> Pod \<Rightarrow> SpiderEndpoint option \<Rightarrow> 'w st
     \<Rightarrow> IpamAddResponse option res \<times> 'w st" where
  "Allocate_retrieve I addArgs pod endpoint s =
     (if EnableStatefulSet (config I) \<and> fst (GetOwnerControllerType (funcs I) pod) = OwnerStatefulSet
      then (case retrieveStsIPAllocation I (add_ContainerID addArgs) (add_IfName addArgs) pod endpoint s of
              (Fail e, s1) \<Rightarrow> (Fail (Wrapw ''failed to retrieve the IP allocation of StatefulSet'' e), s1)
            | (r, s1) \<Rightarrow> (r, s1))
      else (case retrieveMultiNICIPAllocation I (add_ContainerID addArgs) (add_IfName addArgs) endpoint s of
              (Fail e, s1) \<Rightarrow> (Fail (Wrapw ''failed to retrieve the IP allocation in multi-NIC mode'' e), s1)
            | (r, s1) \<Rightarrow> (r, s1)))"

definition Allocate :: "'w ipam \<Rightarrow> IpamAddArgs \<Rightarrow> 'w st \<Rightarrow> IpamAddResponse res \<times> 'w st" where
  "Allocate I addArgs s =
     (case call (EvRead ''GetPodByName'' [add_PodNamespace addArgs, add_PodName addArgs])
             (GetPodByName (podManager I) (add_PodNamespace addArgs) (add_PodName addArgs)) s of
        (Inl e, s1) \<Rightarrow> (Fail (Msgv ''failed to get Pod'' e), s1)
      | (Inr pod, s1) \<Rightarrow>
          if \<not> snd (CheckPodStatus (funcs I) pod)
          then (Fail (New ''Pod cannot allocate IP addresees''), s1)
          else
            (case call (EvRead ''GetEndpointByName'' [add_PodNamespace addArgs, add_PodName addArgs])
                    (we_GetEndpointByName (weManager I) (add_PodNamespace addArgs) (add_PodName addArgs)) s1 of
               (got, s2) \<Rightarrow>
                 (case found_or_nil got of
                    Inl e \<Rightarrow> (Fail (Msgv ''failed to get Endpoint'' e), s2)
                  | Inr endpoint \<Rightarrow>
                      (case Allocate_retrieve I addArgs pod endpoint s2 of
                         (Fail e, s3) \<Rightarrow> (Fail e, s3)
                       | (Panic m, s3) \<Rightarrow> (Panic m, s3)
                       | (Ok (Some addResp), s3) \<Rightarrow> (Ok addResp, s3)
                       | (Ok None, s3) \<Rightarrow>
                           (case allocateInStandardMode I addArgs pod endpoint s3 of
                              (Fail e, s4) \<Rightarrow>
                                (Fail (Wrapw ''failed to allocate IP addresses in standard mode'' e), s4)
                            | (r, s4) \<Rightarrow> (r, s4))))))"

definition Release :: "'w ipam \<Rightarrow> IpamDelArgs \<Rightarrow> 'w st \<Rightarrow> unit res \<times> 'w st" where
  "Release I delArgs s =
     (case call (EvRead ''GetPodByName'' [del_PodNamespace delArgs, del_PodName delArgs])
             (GetPodByName (podManager I) (del_PodNamespace delArgs) (del_PodName delArgs)) s of
        (Inl e, s1) \<Rightarrow> (Fail (Msgv ''failed to get Pod'' e), s1)
      | (Inr pod, s1) \<Rightarrow>
          let ownerControllerType = fst (GetOwnerControllerType (funcs I) pod) in
          (case (if EnableStatefulSet (config I) \<and> ownerControllerType = OwnerStatefulSet
                 then call (EvRead ''IsValidStatefulSetPod'' [pod_Namespace pod, pod_Name pod, ownerControllerType])
                        (IsValidStatefulSetPod (stsManager I) (pod_Namespace pod) (pod_Name pod) ownerControllerType) s1
                 else (Inr False, s1)) of
             (Inl e, s2) \<Rightarrow> (Fail e, s2)
           | (Inr True, s2) \<Rightarrow> (Ok (), s2)
           | (Inr False, s2) \<Rightarrow>
               (case call (EvRead ''GetEndpointByName'' [del_PodNamespace delArgs, del_PodName delArgs])
                       (we_GetEndpointByName (weManager I) (del_PodNamespace delArgs) (del_PodName delArgs)) s2 of
                  (got, s3) \<Rightarrow>
                    (case found_or_nil got of
                       Inl e \<Rightarrow> (Fail (Msgv ''failed to get Endpoint'' e), s3)
                     | Inr endpoint \<Rightarrow>
                         (case RetrieveIPAllocation (funcs I) (del_ContainerID delArgs)
                                 (del_IfName delArgs) True endpoint of
                            (None, currently) \<Rightarrow> (Ok (), s3)
                          | (Some allocation, currently) \<Rightarrow>
                              let s4 = (if \<not> currently
                                        then emit (EvWarn ''Request to release non current IP allocation'') s3
                                        else s3)
                              in case release I (ContainerID allocation) (IPs allocation) s4 of
                                   (Some e, s5) \<Rightarrow> (Fail e, s5)
                                 | (None, s5) \<Rightarrow>
                                     (case call (EvClearCurrentIPAllocation (del_ContainerID delArgs))
                                             (we_ClearCurrentIPAllocation (weManager I)
                                                (del_ContainerID delArgs) endpoint) s5 of
                                        ((Some e, endpoint1), s6) \<Rightarrow>
                                          (Fail (Msgv ''failed to clear current IP allocation'' e), s6)
                                      | ((None, endpoint1), s6) \<Rightarrow> (Ok (), s6)))))))"

section \<open>An in-memory API server and concrete inputs\<close>

text \<open>
  Two clients on which the operations can be run. \<open>mem_client\<close> keeps the endpoints in a
  list keyed by namespace and name and answers as the Kubernetes API server does: a
  create of a name that exists is rejected with AlreadyExists, a read or a write of a
  name that does not exist with NotFound. Errors can be injected into the coming
  \<open>Update\<close> and \<open>Status().Update\<close> calls, one per call, and the random source hands
  out the listed draws. \<open>racing_client\<close> answers every read with the same endpoint and
  loses every write to a concurrent writer.
\<close>

record api =
  api_endpoints :: "((string \<times> string) \<times> SpiderEndpoint) list"
  api_update_faults :: "err list"
  api_status_faults :: "err list"
  api_draws :: "nat list"
  api_clock :: nat

definition api_key :: "SpiderEndpoint \<Rightarrow> string \<times> string" where
  "api_key ep = (ep_Namespace ep, ep_Name ep)"

definition api_put :: "SpiderEndpoint \<Rightarrow> api \<Rightarrow> api" where
  "api_put ep w =
     w\<lparr>api_endpoints := (api_key ep, ep) # filter (\<lambda>kv. fst kv \<noteq> api_key ep) (api_endpoints w)\<rparr>"

definition api_write :: "SpiderEndpoint \<Rightarrow> api \<Rightarrow> err option \<times> api" where
  "api_write ep w =
     (case map_of (api_endpoints w) (api_key ep) of
        None \<Rightarrow> (Some ApiNotFound, w)
      | Some old \<Rightarrow> (None, api_put ep w))"

definition mem_client :: "api k8s" where
  "mem_client =
     \<lparr>client_Get = (\<lambda>ns n w.
        (case map_of (api_endpoints w) (ns, n) of None \<Rightarrow> Fail ApiNotFound | Some ep \<Rightarrow> Ok ep, w)),
      client_Create = (\<lambda>ep w.
        (case map_of (api_endpoints w) (api_key ep) of
           None \<Rightarrow> (None, api_put ep w)
         | Some old \<Rightarrow> (Some ApiAlreadyExists, w))),
      client_Update = (\<lambda>ep w.
        (case api_update_faults w of
           e # es \<Rightarrow> (Some e, w\<lparr>api_update_faults := es\<rparr>)
         | [] \<Rightarrow> api_write ep w)),
      client_StatusUpdate = (\<lambda>ep w.
        (case api_status_faults w of
           e # es \<Rightarrow> (Some e, w\<lparr>api_status_faults := es\<rparr>)
         | [] \<Rightarrow> api_write ep w)),
      time_Now = api_clock,
      rand_Int63 = (\<lambda>w. case api_draws w of [] \<Rightarrow> (0, w) | r # rs \<Rightarrow> (r, w\<lparr>api_draws := rs\<rparr>)),
      time_Sleep = (\<lambda>d w. w\<lparr>api_clock := api_clock w + nat d\<rparr>)\<rparr>"

definition racing_client :: "SpiderEndpoint \<Rightarrow> nat list k8s" where
  "racing_client ep0 =
     \<lparr>client_Get = (\<lambda>ns n w. (Ok ep0, w)),
      client_Create = (\<lambda>ep w. (Some ApiAlreadyExists, w)),
      client_Update = (\<lambda>ep w. (Some ApiConflict, w)),
      client_StatusUpdate = (\<lambda>ep w. (Some ApiConflict, w)),
      time_Now = (\<lambda>w. 0),
      rand_Int63 = (\<lambda>w. case w of [] \<Rightarrow> (0, w) | r # rs \<Rightarrow> (r, rs)),
      time_Sleep = (\<lambda>d w. w)\<rparr>"

definition pod0 :: Pod where
  "pod0 = \<lparr>pod_Name = ''app-0'', pod_Namespace = ''ns1'', pod_UID = ''uid-1'',
           pod_NodeName = ''node-1'', pod_Annotations = []\<rparr>"

definition ep0 :: SpiderEndpoint where
  "ep0 = \<lparr>ep_Name = ''app-0'', ep_Namespace = ''ns1'', DeletionTimestamp = None,
          OwnerReferences = [\<lparr>owner_Kind = ''Pod'', owner_Name = ''app-0'', owner_UID = ''uid-1''\<rparr>],
          Finalizers = [SpiderFinalizer],
          Status = \<lparr>Current = Some \<lparr>ContainerID = ''c1'', Node = Some ''node-1'', IPs = [], CreationTime = Some 0\<rparr>,
                    History = [\<lparr>ContainerID = ''c1'', Node = Some ''node-1'', IPs = [], CreationTime = Some 0\<rparr>],
                    OwnerControllerType = ''Deployment'', OwnerControllerName = ''app''\<rparr>\<rparr>"

definition cfg0 :: EndpointManagerConfig where
  "cfg0 = \<lparr>MaxConflictRetries = 2, ConflictRetryUnitTime = 50000000,
           MaxHistoryRecords = Some 2, scheme_knows_pod = True\<rparr>"

definition cfg1 :: EndpointManagerConfig where
  "cfg1 = cfg0\<lparr>MaxHistoryRecords := Some 1\<rparr>"

definition api0 :: api where
  "api0 = \<lparr>api_endpoints = [], api_update_faults = [], api_status_faults = [],
           api_draws = [], api_clock = 0\<rparr>"

definition api1 :: api where
  "api1 = api0\<lparr>api_endpoints := [((''ns1'', ''app-0''), ep0)]\<rparr>"

definition ctl_deploy :: PodTopController where
  "ctl_deploy = \<lparr>ctl_Kind = ''Deployment'', ctl_Name = ''app''\<rparr>"

definition ctl_sts :: PodTopController where
  "ctl_sts = \<lparr>ctl_Kind = ''StatefulSet'', ctl_Name = ''app''\<rparr>"

definition alloc1 :: PodIPAllocation where
  "alloc1 = \<lparr>ContainerID = ''c1'', Node = None, IPs = [], CreationTime = None\<rparr>"

definition ep_sts :: SpiderEndpoint where
  "ep_sts = \<lparr>ep_Name = ''app-0'', ep_Namespace = ''ns1'', DeletionTimestamp = None,
          OwnerReferences = [],
          Finalizers = [SpiderFinalizer],
          Status = \<lparr>Current = Some \<lparr>ContainerID = ''c1'', Node = Some ''node-1'', IPs = [], CreationTime = Some 0\<rparr>,
                    History = [\<lparr>ContainerID = ''c1'', Node = Some ''node-1'', IPs = [], CreationTime = Some 0\<rparr>],
                    OwnerControllerType = ''StatefulSet'', OwnerControllerName = ''app''\<rparr>\<rparr>"

definition pod_new :: Pod where
  "pod_new = pod0\<lparr>pod_UID := ''uid-2''\<rparr>"

section \<open>An in-memory cluster\<close>

text \<open>
  Collaborators on which the allocation path can be run. The world is a small cluster:
  the API server of the endpoint manager, the pools with their address ranges and their
  allocated addresses, the pod, and the default pools of its namespace. A scenario says
  which collaborator fails and what the pod's \<open>ippools\<close> annotation parses to. The
  endpoint manager is the one modelled above, on the in-memory API server;
  \<open>MarkIPAllocation\<close> with an endpoint argument creates the endpoint when it is given
  none and re-marks the one it is given. The pool manager hands out the first address
  of the range that is not allocated, and releases the entries whose container ID
  matches.
\<close>

record cluster =
  cl_api :: api
  cl_pools :: "(string \<times> SpiderIPPool) list"
  cl_ranges :: "(string \<times> string list) list"
  cl_allocated :: "(string \<times> IPAndCID) list"
  cl_pod :: Pod
  cl_ns_defaults :: "string list \<times> string list"

record scenario =
  limiter_fails :: bool
  merge_fails :: bool
  release_fails :: bool
  anno_pools :: "ToBeAllocated list"

definition on_api :: "(api st \<Rightarrow> 'a \<times> api st) \<Rightarrow> cluster \<Rightarrow> 'a \<times> cluster" where
  "on_api f w = (case f \<lparr>world = cl_api w, trace = []\<rparr> of (r, s') \<Rightarrow> (r, w\<lparr>cl_api := world s'\<rparr>))"

definition as_error :: "unit res \<Rightarrow> err option" where
  "as_error r = (case r of Ok u \<Rightarrow> None | Fail e \<Rightarrow> Some e | Panic m \<Rightarrow> Some (New m))"

definition mem_limiter :: "scenario \<Rightarrow> cluster Limiter" where
  "mem_limiter sc =
     \<lparr>AcquireTicket = (\<lambda>pools w. (if limiter_fails sc then Some (New ''queue timeout'') else None, w)),
      ReleaseTicket = (\<lambda>pools w. w)\<rparr>"

definition mem_pools :: "scenario \<Rightarrow> cluster IPPoolManager" where
  "mem_pools sc =
     \<lparr>AllocateIP = (\<lambda>pool cid nic pod w.
        case map_of (cl_pools w) pool of
          None \<Rightarrow> ((None, None, Some ApiNotFound), w)
        | Some p \<Rightarrow>
            (case filter (\<lambda>ip. ip \<notin> set (map (ic_IP \<circ> snd) (filter (\<lambda>e. fst e = pool) (cl_allocated w))))
                    (case map_of (cl_ranges w) pool of None \<Rightarrow> [] | Some r \<Rightarrow> r) of
               [] \<Rightarrow> ((None, None, Some ErrIPUsedOut), w)
             | ip # ips \<Rightarrow>
                 ((Some \<lparr>ipc_Address = Some ip, ipc_Gateway = [], ipc_IPPool = pool, ipc_Nic = Some nic,
                          ipc_Version = pool_IPVersion p, ipc_Vlan = pool_Vlan p\<rparr>, Some p, None),
                  w\<lparr>cl_allocated := cl_allocated w @ [(pool, \<lparr>ic_IP = ip, ic_ContainerID = cid\<rparr>)]\<rparr>))),
      ReleaseIP = (\<lambda>pool ipAndCIDs w.
        if release_fails sc then (Some (New ''release refused''), w)
        else (None, w\<lparr>cl_allocated :=
                filter (\<lambda>e. \<not> (fst e = pool \<and> snd e \<in> set ipAndCIDs)) (cl_allocated w)\<rparr>)),
      UpdateAllocatedIPs = (\<lambda>cid pod c w. (None, w)),
      ListIPPools = (\<lambda>labels w. (Inr [], w)),
      GetIPPoolByName = (\<lambda>name w.
        (case map_of (cl_pools w) name of None \<Rightarrow> Inl ApiNotFound | Some p \<Rightarrow> Inr p, w))\<rparr>"

definition mem_endpoints :: "EndpointManagerConfig \<Rightarrow> PodTopController \<Rightarrow> cluster WorkloadEndpointManager" where
  "mem_endpoints cfg ctl =
     \<lparr>we_GetEndpointByName = (\<lambda>ns n. on_api (\<lambda>s.
        case GetEndpointByName mem_client ns n s of
          (Ok ep, s') \<Rightarrow> (Inr ep, s')
        | (Fail e, s') \<Rightarrow> (Inl e, s')
        | (Panic m, s') \<Rightarrow> (Inl (New m), s'))),
      we_MarkIPAllocation = (\<lambda>cid endpoint pod. on_api (\<lambda>s.
        case endpoint of
          None \<Rightarrow>
            (case MarkIPAllocation mem_client cfg cid (Some pod) ctl s of
               (Ok ep, s') \<Rightarrow> (Inr (Some ep), s')
             | (Fail e, s') \<Rightarrow> (Inl e, s')
             | (Panic m, s') \<Rightarrow> (Inl (New m), s'))
        | Some ep \<Rightarrow>
            (case ReMarkIPAllocation mem_client cfg cid endpoint (Some pod) s of
               ((Ok u, ep'), s') \<Rightarrow> (Inr ep', s')
             | ((Fail e, ep'), s') \<Rightarrow> (Inl e, s')
             | ((Panic m, ep'), s') \<Rightarrow> (Inl (New m), s')))),
      we_PatchIPAllocation = (\<lambda>a endpoint. on_api (\<lambda>s.
        case PatchIPAllocation mem_client (Some a) endpoint s of
          ((r, ep'), s') \<Rightarrow> ((as_error r, ep'), s'))),
      we_ClearCurrentIPAllocation = (\<lambda>cid endpoint. on_api (\<lambda>s.
        case ClearCurrentIPAllocation mem_client cid endpoint s of
          ((r, ep'), s') \<Rightarrow> ((as_error r, ep'), s'))),
      we_UpdateCurrentStatus = (\<lambda>cid pod w. (None, w))\<rparr>"

definition mem_nodes :: "cluster NodeManager" where
  "mem_nodes = \<lparr>node_MatchLabelSelector = (\<lambda>node sel w. (Inr True, w))\<rparr>"

definition mem_namespaces :: "cluster NamespaceManager" where
  "mem_namespaces =
     \<lparr>GetNamespaceByName = (\<lambda>ns w. (Inr \<lparr>nsobj_Name = ns, nsobj_Annotations = []\<rparr>, w)),
      GetNSDefaultPools = (\<lambda>ns w. (Inr (cl_ns_defaults w), w)),
      ns_MatchLabelSelector = (\<lambda>ns sel w. (Inr True, w))\<rparr>"

definition mem_pods :: "scenario \<Rightarrow> cluster PodManager" where
  "mem_pods sc =
     \<lparr>GetPodByName = (\<lambda>ns n w.
        (if pod_Namespace (cl_pod w) = ns \<and> pod_Name (cl_pod w) = n then Inr (cl_pod w)
         else Inl ApiNotFound, w)),
      GetPodTopController = (\<lambda>pod w.
        (Inr (''Deployment'', \<lparr>top_UID = ''uid-app'', top_Namespace = pod_Namespace pod, top_Name = ''app''\<rparr>), w)),
      pod_MatchLabelSelector = (\<lambda>ns n sel w. (Inr True, w)),
      MergeAnnotations = (\<lambda>ns n anno w.
        if merge_fails sc then (Some (New ''merge refused''), w)
        else (None, w\<lparr>cl_pod := (cl_pod w)\<lparr>pod_Annotations := anno @ pod_Annotations (cl_pod w)\<rparr>\<rparr>))\<rparr>"

definition mem_statefulsets :: "cluster StatefulSetManager" where
  "mem_statefulsets = \<lparr>IsValidStatefulSetPod = (\<lambda>ns n kind w. (Inr False, w))\<rparr>"

fun group_add :: "string \<Rightarrow> IPAndCID \<Rightarrow> (string \<times> IPAndCID list) list \<Rightarrow> (string \<times> IPAndCID list) list" where
  "group_add pool ic [] = [(pool, [ic])]"
| "group_add pool ic ((p, ics) # rest) =
     (if p = pool then (p, ics @ [ic]) # rest else (p, ics) # group_add pool ic rest)"

definition detail_of :: "IPConfig \<Rightarrow> IPAllocationDetail" where
  "detail_of c =
     (let v6 = (ipc_Version c = Some 6) in
      \<lparr>detail_NIC = (case ipc_Nic c of None \<Rightarrow> [] | Some n \<Rightarrow> n),
       detail_IPv4 = (if v6 then None else ipc_Address c),
       detail_IPv6 = (if v6 then ipc_Address c else None),
       detail_IPv4Pool = (if v6 then None else Some (ipc_IPPool c)),
       detail_IPv6Pool = (if v6 then Some (ipc_IPPool c) else None),
       detail_Vlan = Some (ipc_Vlan c),
       detail_IPv4Gateway = None, detail_IPv6Gateway = None,
       detail_CleanGateway = None, detail_Routes = []\<rparr>)"

definition has_nic :: "string \<Rightarrow> PodIPAllocation \<Rightarrow> bool" where
  "has_nic nic a = list_ex (\<lambda>d. detail_NIC d = nic) (IPs a)"

definition mem_funcs :: "scenario \<Rightarrow> helpers" where
  "mem_funcs sc =
     \<lparr>convertResultsToIPConfigsAndAllRoutes = (\<lambda>rs. (List.map_filter res_IP rs, concat (map res_Routes rs))),
      convertResultsToIPDetails = (\<lambda>rs. map detail_of (List.map_filter res_IP rs)),
      convertIPDetailsToIPConfigsAndAllRoutes = (\<lambda>ds. ([], concat (map detail_Routes ds))),
      convertSpecRoutesToOAIRoutes = (\<lambda>nic rs.
        map (\<lambda>r. \<lparr>route_IfName = nic, route_Dst = sr_Dst r, route_Gw = sr_Gw r\<rparr>) rs),
      GroupIPDetails = (\<lambda>cid ds.
        foldl (\<lambda>g d.
          let g4 = (case (detail_IPv4 d, detail_IPv4Pool d) of
                      (Some ip, Some pool) \<Rightarrow> group_add pool \<lparr>ic_IP = ip, ic_ContainerID = cid\<rparr> g
                    | _ \<Rightarrow> g)
          in (case (detail_IPv6 d, detail_IPv6Pool d) of
                (Some ip, Some pool) \<Rightarrow> group_add pool \<lparr>ic_IP = ip, ic_ContainerID = cid\<rparr> g4
              | _ \<Rightarrow> g4)) [] ds),
      genIPAssignmentAnnotation = (\<lambda>ips.
        Inr (map (\<lambda>c. (''ipam.spidernet.io/assigned-'' @ (case ipc_Nic c of None \<Rightarrow> [] | Some n \<Rightarrow> n),
                         (case ipc_Address c of None \<Rightarrow> [] | Some a \<Rightarrow> a))) ips)),
      getCustomRoutes = (\<lambda>pod. Inr []),
      groupCustomRoutesByGW = (\<lambda>customRoutes ip. Inr ([], customRoutes)),
      GetSubnetAnnoConfig = (\<lambda>annotations. Inr None),
      AppLabelValue = (\<lambda>kind ns n. kind @ ''_'' @ ns @ ''_'' @ n),
      getPoolFromPodAnnoPools = (\<lambda>anno nic. Inr (anno_pools sc)),
      getPoolFromPodAnnoPool = (\<lambda>anno nic cleanGateway. Inl (New ''unexpected annotation'')),
      getPoolFromNetConf = (\<lambda>nic v4 v6 cleanGateway.
        if length v4 = 0 \<and> length v6 = 0 then None
        else Some \<lparr>NIC = nic, CleanGateway = cleanGateway, PoolCandidates =
               (if length v4 \<noteq> 0 then [\<lparr>IPVersion = constant_IPv4, Pools = v4\<rparr>] else []) @
               (if length v6 \<noteq> 0 then [\<lparr>IPVersion = constant_IPv6, Pools = v6\<rparr>] else [])\<rparr>),
      getClusterDefaultPool = (\<lambda>cfg nic cleanGateway. Inl ErrNoAvailablePool),
      checkIPVersionEnable = (\<lambda>cfg tt. None),
      CheckPodStatus = (\<lambda>pod. (''Running'', True)),
      GetOwnerControllerType = (\<lambda>pod. (''Deployment'', ''app'')),
      RetrieveIPAllocation = (\<lambda>cid nic includeHistory endpoint.
        case endpoint of
          None \<Rightarrow> (None, False)
        | Some ep \<Rightarrow>
            (case Current (Status ep) of
               None \<Rightarrow> (None, False)
             | Some c \<Rightarrow>
                 if ContainerID c = cid \<and> has_nic nic c then (Some c, True)
                 else if includeHistory
                 then (case filter (\<lambda>h. ContainerID h = cid \<and> has_nic nic h) (History (Status ep)) of
                         [] \<Rightarrow> (None, False)
                       | h # hs \<Rightarrow> (Some h, False))
                 else (None, False)))\<rparr>"

definition mem_ipam :: "scenario \<Rightarrow> cluster ipam" where
  "mem_ipam sc =
     \<lparr>config = \<lparr>EnableIPv4 = True, EnableIPv6 = False, EnableStatefulSet = True,
                 WaitSubnetPoolRetries = 2, WaitSubnetPoolTime = 1000000000\<rparr>,
      ipamLimiter = mem_limiter sc,
      ipPoolManager = mem_pools sc,
      weManager = mem_endpoints cfg0 ctl_deploy,
      nodeManager = mem_nodes,
      nsManager = mem_namespaces,
      podManager = mem_pods sc,
      stsManager = mem_statefulsets,
      funcs = mem_funcs sc,
      sleep = (\<lambda>d w. w)\<rparr>"

definition pool4 :: "string \<Rightarrow> int \<Rightarrow> SpiderIPPool" where
  "pool4 name vlan =
     \<lparr>pool_Name = name, pool_DeletionTimestamp = None, pool_IPVersion = Some 4,
      pool_Disable = Some False, pool_Vlan = vlan, pool_Routes = [],
      pool_PodAffinity = None, pool_NamespaceAffinity = None, pool_NodeAffinity = None,
      pool_TotalIPCount = Some 2, pool_AllocatedIPCount = Some 0\<rparr>"

definition cluster0 :: cluster where
  "cluster0 =
     \<lparr>cl_api = api0,
      cl_pools = [(''p4'', pool4 ''p4'' 0), (''q4'', pool4 ''q4'' 0)],
      cl_ranges = [(''p4'', [''10.0.0.2'', ''10.0.0.3'']), (''q4'', [])],
      cl_allocated = [],
      cl_pod = pod0,
      cl_ns_defaults = ([''p4''], [])\<rparr>"

definition no_faults :: scenario where
  "no_faults = \<lparr>limiter_fails = False, merge_fails = False, release_fails = False, anno_pools = []\<rparr>"

definition add0 :: IpamAddArgs where
  "add0 = \<lparr>add_ContainerID = ''c1'', add_IfName = ''eth0'', add_PodNamespace = ''ns1'',
            add_PodName = ''app-0'', add_DefaultIPV4IPPool = [], add_DefaultIPV6IPPool = [],
            add_CleanGateway = False\<rparr>"

text \<open>Scenarios and inputs of the runs below.\<close>

definition pod_two_nics :: Pod where
  "pod_two_nics = pod0\<lparr>pod_Annotations := [(AnnoPodIPPools, ''two NICs'')]\<rparr>"

definition two_nics :: "ToBeAllocated list" where
  "two_nics =
     [\<lparr>NIC = ''eth0'', CleanGateway = False, PoolCandidates = [\<lparr>IPVersion = 4, Pools = [''p4'']\<rparr>]\<rparr>,
      \<lparr>NIC = ''net1'', CleanGateway = False, PoolCandidates = [\<lparr>IPVersion = 4, Pools = [''q4'']\<rparr>]\<rparr>]"

definition rollback_fails :: scenario where
  "rollback_fails = \<lparr>limiter_fails = False, merge_fails = False, release_fails = True, anno_pools = two_nics\<rparr>"

definition cluster_two_nics :: cluster where
  "cluster_two_nics = cluster0\<lparr>cl_pod := pod0\<lparr>pod_Annotations := [(AnnoPodIPPools, ''two NICs'')]\<rparr>\<rparr>"

definition limiter_down :: scenario where
  "limiter_down = no_faults\<lparr>limiter_fails := True\<rparr>"

definition ip0 :: IPConfig where
  "ip0 = \<lparr>ipc_Address = Some ''10.0.0.2'', ipc_Gateway = [], ipc_IPPool = ''p4'',
          ipc_Nic = Some ''eth0'', ipc_Version = Some 4, ipc_Vlan = 0\<rparr>"

definition cluster_granted :: cluster where
  "cluster_granted = cluster0\<lparr>cl_allocated := [(''p4'', \<lparr>ic_IP = ''10.0.0.2'', ic_ContainerID = ''c1''\<rparr>)]\<rparr>"

definition cluster_vlans :: cluster where
  "cluster_vlans =
     cluster0\<lparr>cl_pools := [(''p4'', pool4 ''p4'' 0), (''r4'', pool4 ''r4'' 20)],
              cl_ranges := [(''p4'', [''10.0.0.2'']), (''r4'', [''10.0.1.2''])],
              cl_pod := pod_two_nics\<rparr>"

definition look_vlans :: "string \<Rightarrow> SpiderIPPool" where
  "look_vlans name = (if name = ''r4'' then pool4 ''r4'' 20 else pool4 ''p4'' 0)"

definition nics_two_vlans :: "ToBeAllocated list" where
  "nics_two_vlans =
     [\<lparr>NIC = ''eth0'', CleanGateway = False, PoolCandidates = [\<lparr>IPVersion = 4, Pools = [''p4'']\<rparr>]\<rparr>,
      \<lparr>NIC = ''net1'', CleanGateway = False, PoolCandidates = [\<lparr>IPVersion = 4, Pools = [''r4'']\<rparr>]\<rparr>]"

definition two_vlans :: scenario where
  "two_vlans = no_faults\<lparr>anno_pools := nics_two_vlans\<rparr>"

definition nic_two_vlans :: "ToBeAllocated list" where
  "nic_two_vlans =
     [\<lparr>NIC = ''eth0'', CleanGateway = False, PoolCandidates = [\<lparr>IPVersion = 4, Pools = [''p4'', ''r4'']\<rparr>]\<rparr>]"

definition merge_refused :: scenario where
  "merge_refused = no_faults\<lparr>merge_fails := True\<rparr>"

definition result0 :: AllocationResult where
  "result0 = \<lparr>res_IP = Some ip0, res_CleanGateway = False, res_Routes = []\<rparr>"

definition eth0_p4 :: "ToBeAllocated list" where
  "eth0_p4 = [\<lparr>NIC = ''eth0'', CleanGateway = False, PoolCandidates = [\<lparr>IPVersion = 4, Pools = [''p4'']\<rparr>]\<rparr>]"

definition used_out :: err where
  "used_out = Wrapw ''failed to allocate any IP address from IPPools'' (Aggregate [ErrIPUsedOut])"

section \<open>Reading the trace\<close>

fun sleeps_of :: "event list \<Rightarrow> int list" where
  "sleeps_of [] = []"
| "sleeps_of (EvSleep d # es) = d # sleeps_of es"
| "sleeps_of (e # es) = sleeps_of es"

text \<open>The objects sent in \<open>Update\<close> calls, in order.\<close>

fun updates_of :: "event list \<Rightarrow> SpiderEndpoint list" where
  "updates_of [] = []"
| "updates_of (EvUpdate ep # es) = ep # updates_of es"
| "updates_of (e # es) = updates_of es"

text \<open>
  The backoff as the code computes it: the sleep after the conflict of iteration
  \<open>i + j\<close> is a number of \<open>[0, 2 ^ (i + j + 1))\<close> times the unit time, as a
  \<open>time.Duration\<close>.
\<close>

definition backoff_ok :: "int \<Rightarrow> int \<Rightarrow> int list \<Rightarrow> bool" where
  "backoff_ok unit i ds =
     (\<forall>j < length ds. \<exists>r. 0 \<le> r \<and> r < 2 ^ (nat i + j + 1) \<and> ds ! j = wrap64 (r * unit))"

text \<open>
  The backoff in the words of the specification, \<open>rand(0..2^i) * unit\<close> for
  \<open>i \<in> [0, MaxConflictRetries]\<close>, with \<open>i\<close> the loop variable of the retry loop: nothing
  is slept before iteration \<open>0\<close>, the \<open>i\<close>-th sleep of a run is the one before iteration
  \<open>i\<close>, and it is a number of \<open>[0, 2 ^ i)\<close> times the unit time.
\<close>

definition sleep_before :: "int list \<Rightarrow> nat \<Rightarrow> int" where
  "sleep_before ds i = (if i = 0 then 0 else ds ! (i - 1))"

definition backoff_spec :: "int \<Rightarrow> int list \<Rightarrow> bool" where
  "backoff_spec unit ds =
     (\<forall>i \<le> length ds. \<exists>r. 0 \<le> r \<and> r < 2 ^ i \<and> sleep_before ds i = wrap64 (r * unit))"

text \<open>The total a metric has after the increments of a trace.\<close>

fun metric_total :: "string \<Rightarrow> event list \<Rightarrow> int" where
  "metric_total name [] = 0"
| "metric_total name (EvMetricAdd n v # es) = (if n = name then v else 0) + metric_total name es"
| "metric_total name (e # es) = metric_total name es"

section \<open>Candidate resolution in the words of the specification\<close>

text \<open>
  "First match wins": the sources are asked in the order of the list, a source that
  fails ends the resolution with its error, a source that yields something ends it
  with that, and the next source is asked only when this one yields nothing. The last
  source always answers.
\<close>

fun first_match ::
  "('w st \<Rightarrow> (err + 'a option) \<times> 'w st) list \<Rightarrow> ('w st \<Rightarrow> (err + 'a) \<times> 'w st)
     \<Rightarrow> 'w st \<Rightarrow> (err + 'a) \<times> 'w st" where
  "first_match [] final s = final s"
| "first_match (src # srcs) final s =
     (case src s of
        (Inl e, s1) \<Rightarrow> (Inl e, s1)
      | (Inr (Some a), s1) \<Rightarrow> (Inr a, s1)
      | (Inr None, s1) \<Rightarrow> first_match srcs final s1)"

text \<open>The six sources of the specification, each from the code that reads it.\<close>

definition source_subnet ::
  "'w ipam \<Rightarrow> string \<Rightarrow> bool \<Rightarrow> Pod \<Rightarrow> 'w st \<Rightarrow> (err + ToBeAllocated list option) \<times> 'w st" where
  "source_subnet I nic cleanGateway pod s =
     (case getPoolFromSubnet I pod nic cleanGateway s of
        (Inl e, s1) \<Rightarrow> (Inl (Msgv ''failed to get IPPool from SpiderSubnet'' e), s1)
      | (Inr None, s1) \<Rightarrow> (Inr None, s1)
      | (Inr (Some t), s1) \<Rightarrow> (Inr (Some [t]), s1))"

definition source_pod_ippools ::
  "'w ipam \<Rightarrow> string \<Rightarrow> Pod \<Rightarrow> 'w st \<Rightarrow> (err + ToBeAllocated list option) \<times> 'w st" where
  "source_pod_ippools I nic pod s =
     (case map_of (pod_Annotations pod) AnnoPodIPPools of
        None \<Rightarrow> (Inr None, s)
      | Some anno \<Rightarrow>
          (case getPoolFromPodAnnoPools (funcs I) anno nic of
             Inl e \<Rightarrow> (Inl e, s)
           | Inr tt \<Rightarrow> (Inr (Some tt), s)))"

definition source_pod_ippool ::
  "'w ipam \<Rightarrow> string \<Rightarrow> bool \<Rightarrow> Pod \<Rightarrow> 'w st \<Rightarrow> (err + ToBeAllocated list option) \<times> 'w st" where
  "source_pod_ippool I nic cleanGateway pod s =
     (case map_of (pod_Annotations pod) AnnoPodIPPool of
        None \<Rightarrow> (Inr None, s)
      | Some anno \<Rightarrow>
          (case getPoolFromPodAnnoPool (funcs I) anno nic cleanGateway of
             Inl e \<Rightarrow> (Inl e, s)
           | Inr t \<Rightarrow> (Inr (Some [t]), s)))"

definition source_namespace ::
  "'w ipam \<Rightarrow> string \<Rightarrow> bool \<Rightarrow> Pod \<Rightarrow> 'w st \<Rightarrow> (err + ToBeAllocated list option) \<times> 'w st" where
  "source_namespace I nic cleanGateway pod s =
     (case getPoolFromNS I (pod_Namespace pod) nic cleanGateway s of
        (Inl e, s1) \<Rightarrow> (Inl e, s1)
      | (Inr None, s1) \<Rightarrow> (Inr None, s1)
      | (Inr (Some t), s1) \<Rightarrow> (Inr (Some [t]), s1))"

definition source_netconf ::
  "'w ipam \<Rightarrow> string \<Rightarrow> string list \<Rightarrow> string list \<Rightarrow> bool \<Rightarrow> 'w st
     \<Rightarrow> (err + ToBeAllocated list option) \<times> 'w st" where
  "source_netconf I nic netConfV4Pool netConfV6Pool cleanGateway s =
     (case getPoolFromNetConf (funcs I) nic netConfV4Pool netConfV6Pool cleanGateway of
        None \<Rightarrow> (Inr None, s)
      | Some t \<Rightarrow> (Inr (Some [t]), s))"

definition source_cluster_default ::
  "'w ipam \<Rightarrow> string \<Rightarrow> bool \<Rightarrow> 'w st \<Rightarrow> (err + ToBeAllocated list) \<times> 'w st" where
  "source_cluster_default I nic cleanGateway s =
     (case getClusterDefaultPool (funcs I) (config I) nic cleanGateway of
        Inl e \<Rightarrow> (Inl e, s)
      | Inr t \<Rightarrow> (Inr [t], s))"

section \<open>The VLAN check in the words of the specification\<close>

definition allPools :: "ToBeAllocated \<Rightarrow> string list" where
  "allPools t = concat (map Pools (PoolCandidates t))"

text \<open>The pools of one NIC share a VLAN, the pools being read with \<open>look\<close>.\<close>

definition nic_vlan_same :: "(string \<Rightarrow> SpiderIPPool) \<Rightarrow> ToBeAllocated \<Rightarrow> bool" where
  "nic_vlan_same look t =
     list_all (\<lambda>p. list_all (\<lambda>q. pool_Vlan (look p) = pool_Vlan (look q)) (allPools t)) (allPools t)"

text \<open>
  The check in the words of the specification: all pools of the request, over all NICs
  together, share a VLAN.
\<close>

definition request_vlan_same :: "(string \<Rightarrow> SpiderIPPool) \<Rightarrow> ToBeAllocated list \<Rightarrow> bool" where
  "request_vlan_same look tt =
     list_all (\<lambda>p. list_all (\<lambda>q. pool_Vlan (look p) = pool_Vlan (look q)) (concat (map allPools tt)))
       (concat (map allPools tt))"

section \<open>Lemmas on the endpoint manager\<close>

lemma sleeps_of_append: "sleeps_of (xs @ ys) = sleeps_of xs @ sleeps_of ys"
  by (induction xs rule: sleeps_of.induct) auto

lemma updates_of_append: "updates_of (xs @ ys) = updates_of xs @ updates_of ys"
  by (induction xs rule: updates_of.induct) auto

lemma wrap64_le: "0 \<le> x \<Longrightarrow> wrap64 x \<le> x"
proof -
  assume "0 \<le> x"
  then have "(x + 2 ^ 63) mod 2 ^ 64 \<le> x + 2 ^ 63"
    by (intro zmod_le_nonneg_dividend) simp
  then show ?thesis by (simp add: wrap64_def)
qed

lemma shl1_le: "0 \<le> k \<Longrightarrow> shl1 k \<le> 2 ^ nat k"
  by (simp add: shl1_def wrap64_le)

lemma wrap64_id: "- (2 ^ 63) \<le> x \<Longrightarrow> x < 2 ^ 63 \<Longrightarrow> wrap64 x = x"
  by (simp add: wrap64_def)

lemma shl1_small: "0 \<le> k \<Longrightarrow> k \<le> 62 \<Longrightarrow> shl1 k = 2 ^ nat k"
proof -
  assume a: "0 \<le> k" "k \<le> 62"
  then have "nat k \<le> 62" by simp
  then have "(2::int) ^ nat k \<le> 2 ^ 62" by (intro power_increasing) simp_all
  then have "(2::int) ^ nat k < 2 ^ 63" by simp
  moreover have "- (2 ^ 63) \<le> (2::int) ^ nat k"
    by (rule order_trans[of _ 0]) simp_all
  ultimately have "wrap64 (2 ^ nat k) = 2 ^ nat k"
    by (intro wrap64_id)
  with a show ?thesis by (simp add: shl1_def)
qed

lemma do_Intn_range:
  "do_Intn k n s = (Some r, s') \<Longrightarrow> 0 \<le> r \<and> r < n \<and> trace s' = trace s"
  by (auto simp: do_Intn_def split: if_splits prod.splits)

lemma do_Intn_none: "do_Intn k n s = (None, s') \<Longrightarrow> s' = s"
  by (auto simp: do_Intn_def split: if_splits prod.splits)

lemma do_Intn_some: "0 < n \<Longrightarrow> \<exists>r s'. do_Intn k n s = (Some r, s')"
  by (auto simp: do_Intn_def split: if_splits prod.splits)

lemma trace_do_Get: "do_Get k ns n s = (r, s') \<Longrightarrow> trace s' = trace s @ [EvGet ns n]"
  by (auto simp: do_Get_def emit_def split: prod.splits)

lemma trace_do_Update: "do_Update k ep s = (r, s') \<Longrightarrow> trace s' = trace s @ [EvUpdate ep]"
  by (auto simp: do_Update_def emit_def split: prod.splits)

lemma trace_do_Sleep: "trace (do_Sleep k d s) = trace s @ [EvSleep d]"
  by (simp add: do_Sleep_def emit_def)

lemma backoff_ok_Nil: "backoff_ok u i []"
  by (simp add: backoff_ok_def)

lemma backoff_ok_Cons:
  assumes "0 \<le> i" "0 \<le> r" "r < 2 ^ (nat i + 1)" "backoff_ok u (i + 1) ds"
  shows "backoff_ok u i (wrap64 (r * u) # ds)"
  unfolding backoff_ok_def
proof (intro allI impI)
  fix j assume j: "j < length (wrap64 (r * u) # ds)"
  show "\<exists>r'. 0 \<le> r' \<and> r' < 2 ^ (nat i + j + 1) \<and> (wrap64 (r * u) # ds) ! j = wrap64 (r' * u)"
  proof (cases j)
    case 0
    with assms show ?thesis by auto
  next
    case (Suc j')
    with j have "j' < length ds" by simp
    with assms(4) obtain r' where "0 \<le> r'" "r' < 2 ^ (nat (i + 1) + j' + 1)" "ds ! j' = wrap64 (r' * u)"
      unfolding backoff_ok_def by blast
    moreover have "nat (i + 1) + j' + 1 = nat i + j + 1" using assms(1) Suc by (simp add: nat_add_distrib)
    ultimately show ?thesis using Suc by auto
  qed
qed

lemma backoff_ok_spec: "backoff_ok u 0 ds \<Longrightarrow> backoff_spec u ds"
  unfolding backoff_spec_def
proof (intro allI impI)
  fix i assume a: "backoff_ok u 0 ds" "i \<le> length ds"
  show "\<exists>r. 0 \<le> r \<and> r < 2 ^ i \<and> sleep_before ds i = wrap64 (r * u)"
  proof (cases i)
    case 0
    then show ?thesis by (intro exI[of _ 0]) (simp add: sleep_before_def wrap64_def)
  next
    case (Suc j)
    with a(2) have "j < length ds" by simp
    with a(1) obtain r where "0 \<le> r" "r < 2 ^ (nat 0 + j + 1)" "ds ! j = wrap64 (r * u)"
      unfolding backoff_ok_def by blast
    with Suc show ?thesis by (intro exI[of _ r]) (simp add: sleep_before_def)
  qed
qed

text \<open>What one iteration adds to the sleeps of the trace.\<close>

lemma RemoveFinalizer_body_sleeps:
  assumes "RemoveFinalizer_body k cfg ns n i s = (c, s')" "0 \<le> i"
  shows "(c = Continue \<longrightarrow> i \<noteq> MaxConflictRetries cfg \<and>
            (\<exists>r. 0 \<le> r \<and> r < 2 ^ (nat i + 1) \<and>
               sleeps_of (trace s') = sleeps_of (trace s) @ [wrap64 (r * ConflictRetryUnitTime cfg)]))
       \<and> (c \<noteq> Continue \<longrightarrow> sleeps_of (trace s') = sleeps_of (trace s))"
proof -
  have le: "\<And>r. r < shl1 (i + 1) \<Longrightarrow> r < 2 * 2 ^ nat i"
  proof -
    fix r assume "r < shl1 (i + 1)"
    moreover have "shl1 (i + 1) \<le> 2 ^ nat (i + 1)" using assms(2) by (intro shl1_le) simp
    moreover have "nat (i + 1) = nat i + 1" using assms(2) by (simp add: nat_add_distrib)
    ultimately show "r < 2 * 2 ^ nat i" by simp
  qed
  from assms(1) show ?thesis
    unfolding RemoveFinalizer_body_def GetEndpointByName_def
    by (auto split: prod.splits res.splits if_splits option.splits
        simp: sleeps_of_append trace_do_Sleep
        dest!: trace_do_Get trace_do_Update do_Intn_range do_Intn_none dest: le)
qed

lemma RemoveFinalizer_from_sleeps:
  "0 \<le> i \<Longrightarrow>
   \<exists>ds. sleeps_of (trace (snd (RemoveFinalizer_from k cfg ns n i s))) = sleeps_of (trace s) @ ds
      \<and> int (length ds) \<le> max 0 (MaxConflictRetries cfg - i)
      \<and> backoff_ok (ConflictRetryUnitTime cfg) i ds"
proof (induction k cfg ns n i s rule: RemoveFinalizer_from.induct)
  case (1 k cfg namespace podName i s)
  show ?case
  proof (cases "i \<le> MaxConflictRetries cfg")
    case False
    then show ?thesis
      by (subst RemoveFinalizer_from.simps) (auto simp: backoff_ok_Nil)
  next
    case le: True
    obtain c s1 where b: "RemoveFinalizer_body k cfg namespace podName i s = (c, s1)" by force
    note bs = RemoveFinalizer_body_sleeps[OF b "1.prems"]
    show ?thesis
    proof (cases c)
      case (Return r)
      with b le bs show ?thesis
        by (subst RemoveFinalizer_from.simps) (auto simp: backoff_ok_Nil)
    next
      case Break
      with b le bs show ?thesis
        by (subst RemoveFinalizer_from.simps) (auto simp: backoff_ok_Nil)
    next
      case Continue
      with bs obtain r where r: "i \<noteq> MaxConflictRetries cfg" "0 \<le> r" "r < 2 ^ (nat i + 1)"
        "sleeps_of (trace s1) = sleeps_of (trace s) @ [wrap64 (r * ConflictRetryUnitTime cfg)]"
        by blast
      have "0 \<le> i + 1" using "1.prems" by simp
      from "1.IH"[OF le b[symmetric] Continue this]
      obtain ds where ds:
        "sleeps_of (trace (snd (RemoveFinalizer_from k cfg namespace podName (i + 1) s1))) = sleeps_of (trace s1) @ ds"
        "int (length ds) \<le> max 0 (MaxConflictRetries cfg - (i + 1))"
        "backoff_ok (ConflictRetryUnitTime cfg) (i + 1) ds" by blast
      have eq: "RemoveFinalizer_from k cfg namespace podName i s = RemoveFinalizer_from k cfg namespace podName (i + 1) s1"
        using b le Continue by (subst RemoveFinalizer_from.simps) simp
      let ?ds = "wrap64 (r * ConflictRetryUnitTime cfg) # ds"
      have "sleeps_of (trace (snd (RemoveFinalizer_from k cfg namespace podName i s))) = sleeps_of (trace s) @ ?ds"
        using eq ds(1) r(4) by simp
      moreover have "int (length ?ds) \<le> max 0 (MaxConflictRetries cfg - i)"
        using ds(2) le r(1) by simp
      moreover have "backoff_ok (ConflictRetryUnitTime cfg) i ?ds"
        using "1.prems" r(2,3) ds(3) by (rule backoff_ok_Cons)
      ultimately show ?thesis by blast
    qed
  qed
qed

lemma body_exhaust:
  assumes g: "\<forall>w. \<exists>ep w'. client_Get k ns n w = (Ok ep, w') \<and> ContainsFinalizer ep SpiderFinalizer"
      and u: "\<forall>ep w. \<exists>e w'. client_Update k ep w = (Some e, w') \<and> IsConflict e"
  shows "i = MaxConflictRetries cfg \<Longrightarrow>
           \<exists>s'. RemoveFinalizer_body k cfg ns n i s =
             (Return (Fail (Wrapw ''failed to remove finalizer from Endpoint'' ErrRetriesExhausted)), s')
             \<and> sleeps_of (trace s') = sleeps_of (trace s)
             \<and> length (updates_of (trace s')) = Suc (length (updates_of (trace s)))"
    and "i \<noteq> MaxConflictRetries cfg \<Longrightarrow> 0 \<le> i \<Longrightarrow> i + 1 \<le> 62 \<Longrightarrow>
           \<exists>s' d. RemoveFinalizer_body k cfg ns n i s = (Continue, s')
             \<and> sleeps_of (trace s') = sleeps_of (trace s) @ [d]
             \<and> length (updates_of (trace s')) = Suc (length (updates_of (trace s)))"
proof -
  obtain ep w1 where g1: "client_Get k ns n (world s) = (Ok ep, w1)" "ContainsFinalizer ep SpiderFinalizer"
    using g by blast
  define s1 where "s1 = emit (EvGet ns n) (s\<lparr>world := w1\<rparr>)"
  have G: "GetEndpointByName k ns n s = (Ok ep, s1)"
    using g1 by (simp add: GetEndpointByName_def do_Get_def s1_def)
  obtain e w2 where u1: "client_Update k (RemoveFinalizer_util ep SpiderFinalizer) (world s1) = (Some e, w2)" "IsConflict e"
    using u by blast
  define s2 where "s2 = emit (EvUpdate (RemoveFinalizer_util ep SpiderFinalizer)) (s1\<lparr>world := w2\<rparr>)"
  have U: "do_Update k (RemoveFinalizer_util ep SpiderFinalizer) s1 = (Some e, s2)"
    using u1 by (simp add: do_Update_def s2_def)
  have t2: "sleeps_of (trace s2) = sleeps_of (trace s)"
    by (simp add: s2_def s1_def emit_def sleeps_of_append)
  have v2: "length (updates_of (trace s2)) = Suc (length (updates_of (trace s)))"
    by (simp add: s2_def s1_def emit_def updates_of_append)
  { assume "i = MaxConflictRetries cfg"
    then show "\<exists>s'. RemoveFinalizer_body k cfg ns n i s =
             (Return (Fail (Wrapw ''failed to remove finalizer from Endpoint'' ErrRetriesExhausted)), s')
             \<and> sleeps_of (trace s') = sleeps_of (trace s)
             \<and> length (updates_of (trace s')) = Suc (length (updates_of (trace s)))"
      using G U g1(2) u1(2) t2 v2 by (simp add: RemoveFinalizer_body_def) }
  { assume a: "i \<noteq> MaxConflictRetries cfg" "0 \<le> i" "i + 1 \<le> 62"
    then have "shl1 (i + 1) = 2 ^ nat (i + 1)" by (intro shl1_small) simp_all
    then have "0 < shl1 (i + 1)" by simp
    then obtain r s3 where I: "do_Intn k (shl1 (i + 1)) s2 = (Some r, s3)"
      using do_Intn_some by blast
    then have "trace s3 = trace s2" by (auto dest: do_Intn_range)
    then show "\<exists>s' d. RemoveFinalizer_body k cfg ns n i s = (Continue, s')
             \<and> sleeps_of (trace s') = sleeps_of (trace s) @ [d]
             \<and> length (updates_of (trace s')) = Suc (length (updates_of (trace s)))"
      using G U g1(2) u1(2) t2 v2 a I
      by (simp add: RemoveFinalizer_body_def trace_do_Sleep sleeps_of_append updates_of_append) }
qed

lemma RemoveFinalizer_from_exhaust:
  assumes g: "\<forall>w. \<exists>ep w'. client_Get k ns n w = (Ok ep, w') \<and> ContainsFinalizer ep SpiderFinalizer"
      and u: "\<forall>ep w. \<exists>e w'. client_Update k ep w = (Some e, w') \<and> IsConflict e"
      and m: "MaxConflictRetries cfg \<le> 62"
  shows "0 \<le> i \<Longrightarrow> i \<le> MaxConflictRetries cfg \<Longrightarrow>
         fst (RemoveFinalizer_from k cfg ns n i s) =
           Fail (Wrapw ''failed to remove finalizer from Endpoint'' ErrRetriesExhausted)
         \<and> length (sleeps_of (trace (snd (RemoveFinalizer_from k cfg ns n i s)))) =
             length (sleeps_of (trace s)) + nat (MaxConflictRetries cfg - i)
         \<and> length (updates_of (trace (snd (RemoveFinalizer_from k cfg ns n i s)))) =
             length (updates_of (trace s)) + nat (MaxConflictRetries cfg - i) + 1"
proof (induction "nat (MaxConflictRetries cfg - i)" arbitrary: i s)
  case 0
  then have i: "i = MaxConflictRetries cfg" by simp
  from body_exhaust(1)[OF g u i, of s] obtain s' where
    "RemoveFinalizer_body k cfg ns n i s =
       (Return (Fail (Wrapw ''failed to remove finalizer from Endpoint'' ErrRetriesExhausted)), s')"
    "sleeps_of (trace s') = sleeps_of (trace s)"
    "length (updates_of (trace s')) = Suc (length (updates_of (trace s)))" by blast
  then show ?case using i by (subst (1 2 3) RemoveFinalizer_from.simps) simp
next
  case (Suc x)
  then have i: "i \<noteq> MaxConflictRetries cfg" "0 \<le> i" "i + 1 \<le> 62" using m by simp_all
  from body_exhaust(2)[OF g u i, of s] obtain s' d where b:
    "RemoveFinalizer_body k cfg ns n i s = (Continue, s')"
    "sleeps_of (trace s') = sleeps_of (trace s) @ [d]"
    "length (updates_of (trace s')) = Suc (length (updates_of (trace s)))" by blast
  have eq: "RemoveFinalizer_from k cfg ns n i s = RemoveFinalizer_from k cfg ns n (i + 1) s'"
    using b(1) Suc.prems by (subst RemoveFinalizer_from.simps) simp
  have "x = nat (MaxConflictRetries cfg - (i + 1))" using Suc.hyps(2) by simp
  from Suc.hyps(1)[OF this, of s'] Suc.prems i
  have "fst (RemoveFinalizer_from k cfg ns n (i + 1) s') =
           Fail (Wrapw ''failed to remove finalizer from Endpoint'' ErrRetriesExhausted)
         \<and> length (sleeps_of (trace (snd (RemoveFinalizer_from k cfg ns n (i + 1) s')))) =
             length (sleeps_of (trace s')) + nat (MaxConflictRetries cfg - (i + 1))
         \<and> length (updates_of (trace (snd (RemoveFinalizer_from k cfg ns n (i + 1) s')))) =
             length (updates_of (trace s')) + nat (MaxConflictRetries cfg - (i + 1)) + 1" by simp
  moreover have "nat (MaxConflictRetries cfg - i) = Suc (nat (MaxConflictRetries cfg - (i + 1)))"
    using Suc.prems i by simp
  ultimately show ?case using eq b(2,3) by simp
qed

text \<open>Reducing a uniform draw of \<open>[0, a * n)\<close> modulo \<open>n\<close> gives a uniform draw of \<open>[0, n)\<close>.\<close>

lemma card_mod_eq:
  assumes "r < n"
  shows "card {x::nat. x < a * n \<and> x mod n = r} = a"
proof -
  have "{x. x < a * n \<and> x mod n = r} = (\<lambda>q. q * n + r) ` {..<a}"
  proof (intro set_eqI iffI)
    fix x assume "x \<in> {x. x < a * n \<and> x mod n = r}"
    then have x: "x < a * n" "x mod n = r" by simp_all
    then have "x div n < a" using assms by (simp add: div_less_iff_less_mult mult.commute)
    moreover have "x = (x div n) * n + r" using x(2) by (metis div_mult_mod_eq)
    ultimately show "x \<in> (\<lambda>q. q * n + r) ` {..<a}" by blast
  next
    fix x assume "x \<in> (\<lambda>q. q * n + r) ` {..<a}"
    then obtain q where q: "q < a" "x = q * n + r" by blast
    then have "Suc q \<le> a" by simp
    then have "Suc q * n \<le> a * n" by (rule mult_le_mono1)
    moreover have "q * n + r < Suc q * n" using assms by simp
    ultimately have "x < a * n" using q(2) by simp
    moreover have "x mod n = r" using q(2) assms by simp
    ultimately show "x \<in> {x. x < a * n \<and> x mod n = r}" by simp
  qed
  moreover have "inj_on (\<lambda>q. q * n + r) {..<a}"
    using assms by (intro inj_onI) simp
  ultimately show ?thesis by (simp add: card_image)
qed

lemma do_Intn_uniform:
  assumes "0 \<le> i" "i \<le> 62" "nat i \<le> m" "0 \<le> r" "r < 2 ^ nat i"
  shows "card {x. x < 2 ^ m \<and> fst (do_Intn (k\<lparr>rand_Int63 := \<lambda>w. (x, w)\<rparr>) (shl1 i) s) = Some r}
           = 2 ^ (m - nat i)"
proof -
  have sh: "shl1 i = 2 ^ nat i" using assms(1,2) by (rule shl1_small)
  have eq: "\<And>x. fst (do_Intn (k\<lparr>rand_Int63 := \<lambda>w. (x, w)\<rparr>) (shl1 i) s) = Some (int x mod 2 ^ nat i)"
    unfolding sh by (simp add: do_Intn_def)
  have "\<And>x::nat. (int x mod 2 ^ nat i = r) = (x mod 2 ^ nat i = nat r)"
  proof -
    fix x :: nat
    have "int x mod 2 ^ nat i = int (x mod 2 ^ nat i)" by (simp add: zmod_int)
    then show "(int x mod 2 ^ nat i = r) = (x mod 2 ^ nat i = nat r)" using assms(4) by auto
  qed
  then have "{x. x < 2 ^ m \<and> fst (do_Intn (k\<lparr>rand_Int63 := \<lambda>w. (x, w)\<rparr>) (shl1 i) s) = Some r}
        = {x::nat. x < 2 ^ (m - nat i) * 2 ^ nat i \<and> x mod 2 ^ nat i = nat r}"
    using assms(3) by (simp add: eq power_add[symmetric])
  moreover have "nat r < 2 ^ nat i" using assms(4,5) by (simp add: nat_less_iff)
  ultimately show ?thesis by (simp add: card_mod_eq)
qed

text \<open>An iteration that goes on to the next one has drawn \<open>rand.Intn(1 << (i + 1))\<close>.\<close>

lemma body_draw:
  "RemoveFinalizer_body k cfg ns n i s = (Continue, s') \<Longrightarrow>
     \<exists>s2 r s3. do_Intn k (shl1 (i + 1)) s2 = (Some r, s3)
        \<and> s' = do_Sleep k (wrap64 (r * ConflictRetryUnitTime cfg)) s3"
  unfolding RemoveFinalizer_body_def
  by (auto split: prod.splits res.splits if_splits option.splits)

lemmas run_defs = RemoveFinalizer_def RemoveFinalizer_from.simps RemoveFinalizer_body_def
      GetEndpointByName_def do_Get_def do_Update_def do_Intn_def do_Sleep_def emit_def
      ContainsFinalizer_def RemoveFinalizer_util_def shl1_def wrap64_def
      SpiderFinalizer_def

lemma racing_sleeps:
  "sleeps_of (trace (snd (RemoveFinalizer (racing_client ep0) cfg0 ''ns1'' ''app-0''
      \<lparr>world = [1, 3], trace = []\<rparr>))) = [50000000, 150000000]"
  by (simp add: run_defs racing_client_def cfg0_def ep0_def)

lemma racing_body:
  "RemoveFinalizer_body (racing_client ep0) cfg0 ''ns1'' ''app-0'' 0 \<lparr>world = [1, 3], trace = []\<rparr>
     = (Continue, \<lparr>world = [3], trace = [EvGet ''ns1'' ''app-0'',
          EvUpdate (RemoveFinalizer_util ep0 SpiderFinalizer), EvSleep 50000000]\<rparr>)"
  by (simp add: run_defs racing_client_def cfg0_def ep0_def)

lemmas em_defs = MarkIPAllocation_def ReMarkIPAllocation_def PatchIPAllocation_def
  ReallocateCurrentIPAllocation_def ClearCurrentIPAllocation_def
  do_Create_def do_StatusUpdate_def emit_def SetOwnerReference_def AddFinalizer_def
  KindStatefulSet_def SpiderFinalizer_def

lemmas api_defs = mem_client_def api_write_def api_put_def api_key_def api0_def api1_def

lemma mark_run:
  "\<exists>s1. MarkIPAllocation mem_client cfg0 ''c1'' (Some pod0) ctl_deploy \<lparr>world = api0, trace = []\<rparr> = (Ok ep0, s1)
        \<and> world s1 = api1"
  by (simp add: em_defs api_defs cfg0_def pod0_def ctl_deploy_def ep0_def Let_def)

lemma mark_run1:
  "\<exists>s1. MarkIPAllocation mem_client cfg1 ''c1'' (Some pod0) ctl_deploy \<lparr>world = api0, trace = []\<rparr> = (Ok ep0, s1)
        \<and> world s1 = api1"
  by (simp add: em_defs api_defs cfg1_def cfg0_def pod0_def ctl_deploy_def ep0_def Let_def)

lemma patch_run:
  "\<exists>ep' s'. PatchIPAllocation mem_client (Some alloc1) (Some ep0) \<lparr>world = api1, trace = []\<rparr>
      = ((Ok (), Some ep'), s')"
  by (simp add: em_defs api_defs ep0_def alloc1_def Let_def)

lemma mark_sts_run:
  "\<exists>s1. MarkIPAllocation mem_client cfg0 ''c1'' (Some pod0) ctl_sts \<lparr>world = api0, trace = []\<rparr> = (Ok ep_sts, s1)"
  by (simp add: em_defs api_defs cfg0_def pod0_def ctl_sts_def ep_sts_def Let_def)

section \<open>Lemmas on the allocation path\<close>

lemma metric_total_append: "metric_total name (xs @ ys) = metric_total name xs + metric_total name ys"
  by (induction name xs rule: metric_total.induct) auto

lemma snd_release:
  "details \<noteq> [] \<Longrightarrow>
   snd (release I cid details s) = snd (release_pools I (GroupIPDetails (funcs I) cid details) [] s)"
  by (simp add: release_def Let_def split: prod.splits)

text \<open>Sources after the first one that answers play no part.\<close>

lemma first_match_yields:
  "src s = (Inr (Some a), s1) \<Longrightarrow> first_match (src # srcs) final s = (Inr a, s1)"
  by simp

lemma first_match_skips:
  "src s = (Inr None, s1) \<Longrightarrow> first_match (src # srcs) final s = first_match srcs final s1"
  by simp

lemma call_pure:
  "f (world s) = (r, world s) \<Longrightarrow> call ev f s = (r, emit ev s)"
  by (simp add: call_def)

lemma world_emit [simp]: "world (emit e s) = world s"
  by (simp add: emit_def)

lemma pool_vlans_pure:
  assumes "list_all (\<lambda>name. GetIPPoolByName (ipPoolManager I) name (world s) = (Inr (look name), world s)) names"
  shows "fst (pool_vlans I names s) = Inr (map (\<lambda>n. pool_Vlan (look n)) names)
         \<and> world (snd (pool_vlans I names s)) = world s"
  using assms
proof (induction names arbitrary: s)
  case Nil
  show ?case by simp
next
  case (Cons n ns)
  let ?s1 = "emit (EvRead ''GetIPPoolByName'' [n]) s"
  have c: "call (EvRead ''GetIPPoolByName'' [n]) (GetIPPoolByName (ipPoolManager I) n) s = (Inr (look n), ?s1)"
    using Cons.prems by (intro call_pure) simp
  have "list_all (\<lambda>name. GetIPPoolByName (ipPoolManager I) name (world ?s1) = (Inr (look name), world ?s1)) ns"
    using Cons.prems by simp
  from Cons.IH[OF this]
  have ih: "fst (pool_vlans I ns ?s1) = Inr (map (\<lambda>n. pool_Vlan (look n)) ns)"
       "world (snd (pool_vlans I ns ?s1)) = world s" by simp_all
  obtain r s2 where p: "pool_vlans I ns ?s1 = (r, s2)" by force
  with ih have "r = Inr (map (\<lambda>n. pool_Vlan (look n)) ns)" "world s2 = world s" by simp_all
  with c p show ?case by simp
qed

lemma remdups_le_1: "length (remdups xs) \<le> 1 \<longleftrightarrow> list_all (\<lambda>x. list_all (\<lambda>y. x = y) xs) xs"
proof -
  have "length (remdups xs) \<le> 1 \<longleftrightarrow> card (set xs) \<le> 1"
    by (simp add: length_remdups_card_conv)
  also have "\<dots> \<longleftrightarrow> (\<forall>x \<in> set xs. \<forall>y \<in> set xs. x = y)"
    by (simp add: card_le_Suc0_iff_eq)
  finally show ?thesis by (simp add: list_all_iff)
qed

lemma CheckVlanSame_pure:
  assumes "list_all (\<lambda>name. GetIPPoolByName (ipPoolManager I) name (world s) = (Inr (look name), world s)) names"
  shows "fst (CheckVlanSame I names s)
           = Inr (list_all (\<lambda>p. list_all (\<lambda>q. pool_Vlan (look p) = pool_Vlan (look q)) names) names)
         \<and> world (snd (CheckVlanSame I names s)) = world s"
proof -
  obtain r s1 where p: "pool_vlans I names s = (r, s1)" by force
  with pool_vlans_pure[OF assms]
  have r: "r = Inr (map (\<lambda>n. pool_Vlan (look n)) names)" "world s1 = world s" by simp_all
  have "(length (remdups (map (\<lambda>n. pool_Vlan (look n)) names)) \<le> 1)
          = list_all (\<lambda>p. list_all (\<lambda>q. pool_Vlan (look p) = pool_Vlan (look q)) names) names"
    unfolding remdups_le_1 by (simp add: list_all_iff)
  then show ?thesis
    using p r by (simp add: CheckVlanSame_def del: One_nat_def)
qed

lemma trace_emit [simp]: "trace (emit e s) = trace s @ [e]"
  by (simp add: emit_def)

lemma call_result:
  "call ev f s = (r, s') \<Longrightarrow> trace s' = trace s @ [ev] \<and> (r, world s') = f (world s)"
  by (auto simp: call_def emit_def split: prod.splits)

lemma trace_call: "trace (snd (call ev f s)) = trace s @ [ev]"
  by (simp add: call_def emit_def split: prod.splits)

lemma fst_call: "fst (call ev f s) = fst (f (world s))"
  by (simp add: call_def split: prod.splits)








text \<open>The release of the pools, whatever the limiter answers.\<close>

lemma release_pools_mono:
  "set (trace s) \<subseteq> set (trace (snd (release_pools I g errs s)))"
proof (induction g arbitrary: errs s)
  case Nil
  show ?case by simp
next
  case (Cons x g)
  obtain pool ips where x: "x = (pool, ips)" by force
  show ?case
    unfolding x
    apply (simp add: Let_def split: prod.splits)
    apply (intro allI impI)
    apply (rule subset_trans[OF _ Cons.IH])
    apply (auto simp: trace_call dest!: call_result split: option.splits)
    done
qed

lemma release_pools_events:
  "list_all (\<lambda>(pool, ips). EvReleaseIP pool ips \<in> set (trace (snd (release_pools I g errs s)))) g"
proof (induction g arbitrary: errs s)
  case Nil
  show ?case by simp
next
  case (Cons x g)
  obtain pool ips where x: "x = (pool, ips)" by force
  obtain tk s1 where a: "call (EvAcquireTicket [pool]) (AcquireTicket (ipamLimiter I) [pool]) s = (tk, s1)"
    by force
  define s2 where "s2 = (case tk of Some e \<Rightarrow> emit (EvError ''Failed to queue correctly'') s1 | None \<Rightarrow> s1)"
  obtain r s3 where b: "call (EvReleaseIP pool ips) (ReleaseIP (ipPoolManager I) pool ips) s2 = (r, s3)"
    by force
  define s4 where "s4 = (case tk of Some e \<Rightarrow> s3
       | None \<Rightarrow> snd (call (EvReleaseTicket [pool]) (\<lambda>w. ((), ReleaseTicket (ipamLimiter I) [pool] w)) s3))"
  define errs' where "errs' = (case r of Some e \<Rightarrow> errs @ [e] | None \<Rightarrow> errs)"
  have step: "release_pools I (x # g) errs s = release_pools I g errs' s4"
    using a b by (simp add: x s2_def s4_def errs'_def Let_def)
  have "EvReleaseIP pool ips \<in> set (trace s3)" using b by (auto dest!: call_result)
  then have "EvReleaseIP pool ips \<in> set (trace s4)"
    by (auto simp: s4_def trace_call split: option.splits)
  with release_pools_mono[where s=s4 and I=I and g=g and errs=errs']
  have here: "EvReleaseIP pool ips \<in> set (trace (snd (release_pools I g errs' s4)))" by blast
  show ?case
    unfolding step using here Cons.IH[where errs=errs' and s=s4] by (simp add: x)
qed

lemma release_pools_ok:
  assumes "\<forall>pool ips w. \<exists>w'. ReleaseIP (ipPoolManager I) pool ips w = (None, w')"
  shows "fst (release_pools I g errs s) = errs"
proof (induction g arbitrary: errs s)
  case Nil
  show ?case by simp
next
  case (Cons x g)
  obtain pool ips where x: "x = (pool, ips)" by force
  have r: "\<And>s2. fst (call (EvReleaseIP pool ips) (ReleaseIP (ipPoolManager I) pool ips) s2) = None"
  proof -
    fix s2 :: "'a st"
    from assms obtain w' where "ReleaseIP (ipPoolManager I) pool ips (world s2) = (None, w')" by blast
    then show "fst (call (EvReleaseIP pool ips) (ReleaseIP (ipPoolManager I) pool ips) s2) = None"
      by (simp add: fst_call)
  qed
  show ?case
    unfolding x
    by (auto simp: Let_def Cons.IH split: prod.splits option.splits dest!: arg_cong[where f=fst] simp: r)
qed

text \<open>Where \<open>Allocate\<close> reaches the allocation in standard mode, it wraps its error.\<close>

lemma Allocate_standard_mode:
  assumes "call (EvRead ''GetPodByName'' [add_PodNamespace a, add_PodName a])
             (GetPodByName (podManager I) (add_PodNamespace a) (add_PodName a)) s = (Inr pod, p1)"
    and "snd (CheckPodStatus (funcs I) pod)"
    and "call (EvRead ''GetEndpointByName'' [add_PodNamespace a, add_PodName a])
             (we_GetEndpointByName (weManager I) (add_PodNamespace a) (add_PodName a)) p1 = (got, p2)"
    and "found_or_nil got = Inr endpoint"
    and "Allocate_retrieve I a pod endpoint p2 = (Ok None, p3)"
    and "allocateInStandardMode I a pod endpoint p3 = (Fail e, p4)"
  shows "Allocate I a s = (Fail (Wrapw ''failed to allocate IP addresses in standard mode'' e), p4)"
  using assms by (simp add: Allocate_def)

lemma allocateInStandardMode_on_error:
  assumes "genToBeAllocatedSet I (add_IfName a) (add_DefaultIPV4IPPool a) (add_DefaultIPV6IPPool a)
             (add_CleanGateway a) pod s = (Ok tt, s1)"
    and "call (EvMarkIPAllocation (add_ContainerID a))
           (we_MarkIPAllocation (weManager I) (add_ContainerID a) endpoint pod) s1 = (Inr ep1, s2)"
    and "allocateForAllNICs I tt (add_ContainerID a) ep1 pod s2 = (Done (results, ep2, Some err), s3)"
  shows "allocateInStandardMode I a pod endpoint s
           = allocateInStandardMode_failed I (add_ContainerID a) results ep2 err s3"
  using assms by (simp add: allocateInStandardMode_def)

lemma allocateInStandardMode_failed_rollback_failed:
  assumes "fst (convertResultsToIPConfigsAndAllRoutes (funcs I) results) \<noteq> []"
    and "release I cid (convertResultsToIPDetails (funcs I) results) s = (Some rollbackErr, s1)"
  shows "allocateInStandardMode_failed I cid results ep err s =
           (Fail err, emit (EvWarn ''Failed to roll back the allocated IPs'')
                        (emit (EvMetricAdd ''IpamAllocationRollbackFailureCounts'' 1) s1))"
  using assms by (simp add: allocateInStandardMode_failed_def Let_def)

lemma allocateForAllNICs_merge_failed:
  assumes "getCustomRoutes (funcs I) pod = Inr cr"
    and "allocateForAllNICs_loop I cid pod tt [] cr ep s = (Done (results, cr', ep', None), s1)"
    and "genIPAssignmentAnnotation (funcs I) (fst (convertResultsToIPConfigsAndAllRoutes (funcs I) results)) = Inr anno"
    and "MergeAnnotations (podManager I) (pod_Namespace pod) (pod_Name pod) anno (world s1) = (Some e, w2)"
  shows "\<exists>s2. allocateForAllNICs I tt cid ep pod s =
           (Done (results, ep', Some (Wrapw ''failed to merge IP assignment annotation'' e)), s2)"
  using assms by (simp add: allocateForAllNICs_def Let_def call_def)

lemma allocateInStandardMode_failed_error:
  "fst (allocateInStandardMode_failed I cid results ep err s) = Fail err"
  by (simp add: allocateInStandardMode_failed_def Let_def split: prod.splits option.splits)

lemma allocateInStandardMode_failed_releases:
  assumes "fst (convertResultsToIPConfigsAndAllRoutes (funcs I) results) \<noteq> []"
  shows "set (trace (snd (release I cid (convertResultsToIPDetails (funcs I) results) s)))
           \<subseteq> set (trace (snd (allocateInStandardMode_failed I cid results ep err s)))"
  using assms
  by (auto simp: allocateInStandardMode_failed_def Let_def dest!: call_result
      split: prod.splits option.splits)

lemma allocateInStandardMode_failed_clears:
  assumes "fst (release I cid (convertResultsToIPDetails (funcs I) results) s) = None"
  shows "EvClearCurrentIPAllocation cid
           \<in> set (trace (snd (allocateInStandardMode_failed I cid results ep err s)))"
proof -
  have r: "fst (release I cid [] s) = None" by (simp add: release_def)
  show ?thesis
    using assms
    by (auto simp: allocateInStandardMode_failed_def Let_def dest!: call_result
        split: prod.splits option.splits)
qed

lemmas mem_defs = mem_ipam_def mem_limiter_def mem_pools_def mem_endpoints_def mem_nodes_def
  mem_namespaces_def mem_pods_def mem_statefulsets_def mem_funcs_def on_api_def as_error_def
  detail_of_def has_nic_def pool4_def cluster0_def no_faults_def add0_def
  mem_client_def api_write_def api_put_def api_key_def api0_def cfg0_def pod0_def ctl_deploy_def

lemmas ipam_defs = Allocate_def Allocate_retrieve_def found_or_nil_def retrieveMultiNICIPAllocation_def
  retrieveStsIPAllocation_def allocateInStandardMode_def allocateInStandardMode_failed_def
  genToBeAllocatedSet_def getPoolCandidates_def getPoolFromSubnet_def getPoolFromNS_def
  selectByPod_def CheckVlanSame_def allocateForAllNICs_def allocateForOneNIC_def
  allocateIPFromPoolCandidates_def release_def call_def emit_def
  OwnerStatefulSet_def AnnoPodIPPools_def AnnoPodIPPool_def constant_IPv4_def constant_IPv6_def
  MarkIPAllocation_def ReMarkIPAllocation_def PatchIPAllocation_def ClearCurrentIPAllocation_def
  GetEndpointByName_def do_Get_def do_Create_def do_StatusUpdate_def
  SetOwnerReference_def AddFinalizer_def KindStatefulSet_def SpiderFinalizer_def IgnoreNotFound_def

lemmas verify_defs = CheckVlanSame_def call_def emit_def mem_ipam_def mem_pools_def
  cluster_vlans_def cluster0_def pool4_def nics_two_vlans_def nic_two_vlans_def pod_two_nics_def

lemma pair_fst: "fst x = a \<Longrightarrow> x = (a, snd x)"
  by (cases x) simp

lemmas scenario_defs = merge_refused_def limiter_down_def rollback_fails_def two_nics_def
  cluster_two_nics_def cluster_granted_def ip0_def result0_def eth0_p4_def ep0_def

section \<open>The endpoint manager: claims\<close>

text \<open>
  C2 (code defect). The claim bounds the length of \<open>status.history\<close> by
  \<open>MaxHistoryRecords\<close> after every operation. \<open>ReMarkIPAllocation\<close> truncates, but
  \<open>PatchIPAllocation\<close> and \<open>ReallocateCurrentIPAllocation\<close> prepend a record and never
  look at the bound: every successful call makes the history one record longer,
  whatever its length was.
\<close>

theorem history_grows_without_bound:
  "(PatchIPAllocation k a (Some ep) s = ((Ok (), Some ep'), s')
      \<longrightarrow> length (History (Status ep')) = Suc (length (History (Status ep))))
   \<and> (ReallocateCurrentIPAllocation k cid node (Some ep) s = ((Ok (), Some ep''), s'')
        \<and> (\<forall>c. Current (Status ep) = Some c \<longrightarrow> ContainerID c \<noteq> cid)
      \<longrightarrow> length (History (Status ep'')) = Suc (length (History (Status ep))))"
  by (auto simp: PatchIPAllocation_def ReallocateCurrentIPAllocation_def Let_def
      split: option.splits if_splits prod.splits)

theorem history_grows_witness:
  "(\<exists>s1. MarkIPAllocation mem_client cfg1 ''c1'' (Some pod0) ctl_deploy \<lparr>world = api0, trace = []\<rparr>
           = (Ok ep0, s1) \<and> world s1 = api1) \<and>
   MaxHistoryRecords cfg1 = Some 1 \<and>
   length (History (Status ep0)) = 1 \<and>
   (\<exists>ep' s'. PatchIPAllocation mem_client (Some alloc1) (Some ep0) \<lparr>world = api1, trace = []\<rparr>
                = ((Ok (), Some ep'), s')
            \<and> length (History (Status ep')) = 2)"
proof -
  obtain ep' s' where p: "PatchIPAllocation mem_client (Some alloc1) (Some ep0) \<lparr>world = api1, trace = []\<rparr>
      = ((Ok (), Some ep'), s')" using patch_run by blast
  have l: "length (History (Status ep0)) = 1" by (simp add: ep0_def)
  have m: "MaxHistoryRecords cfg1 = Some 1" by (simp add: cfg1_def)
  from history_grows_without_bound[of mem_client "Some alloc1" ep0 "\<lparr>world = api1, trace = []\<rparr>" ep' s'] p
  have "length (History (Status ep')) = Suc (length (History (Status ep0)))" by blast
  with l m p mark_run1 show ?thesis by simp
qed

text \<open>
  C4 (as stated, refuted). On an API server that holds an Endpoint of the pod's
  namespace and name, \<open>MarkIPAllocation\<close> fails with AlreadyExists.
\<close>

theorem MarkIPAllocation_exists_counterexample:
  "map_of (api_endpoints api1) (pod_Namespace pod0, pod_Name pod0) = Some ep0 \<and>
   fst (MarkIPAllocation mem_client cfg0 ''c2'' (Some pod0) ctl_deploy \<lparr>world = api1, trace = []\<rparr>)
     = Fail ApiAlreadyExists"
  by (simp add: em_defs api_defs cfg0_def pod0_def ctl_deploy_def ep0_def Let_def)

text \<open>\<open>MarkIPAllocation\<close> on the in-memory API server, and on any client.\<close>

lemma Mark_on_mem_client:
  "(ctl_Kind c = KindStatefulSet \<or> scheme_knows_pod cfg) \<longrightarrow>
   (map_of (api_endpoints (world s)) (pod_Namespace p, pod_Name p) \<noteq> None \<longrightarrow>
      fst (MarkIPAllocation mem_client cfg cid (Some p) c s) = Fail ApiAlreadyExists
      \<and> world (snd (MarkIPAllocation mem_client cfg cid (Some p) c s)) = world s)
   \<and> (map_of (api_endpoints (world s)) (pod_Namespace p, pod_Name p) = None
        \<and> api_status_faults (world s) = [] \<longrightarrow>
      (\<exists>ep. fst (MarkIPAllocation mem_client cfg cid (Some p) c s) = Ok ep
         \<and> map_of (api_endpoints (world (snd (MarkIPAllocation mem_client cfg cid (Some p) c s))))
              (pod_Namespace p, pod_Name p) = Some ep
         \<and> ep_Name ep = pod_Name p \<and> ep_Namespace ep = pod_Namespace p
         \<and> Current (Status ep) = Some \<lparr>ContainerID = cid, Node = Some (pod_NodeName p),
                            IPs = [], CreationTime = Some (api_clock (world s))\<rparr>
         \<and> History (Status ep) = [\<lparr>ContainerID = cid, Node = Some (pod_NodeName p),
                            IPs = [], CreationTime = Some (api_clock (world s))\<rparr>]))"
  by (auto simp: MarkIPAllocation_def SetOwnerReference_def AddFinalizer_def Let_def
        do_Create_def do_StatusUpdate_def emit_def mem_client_def api_write_def api_put_def api_key_def
      split: option.splits)

lemma Mark_any_client:
  assumes "ctl_Kind c = KindStatefulSet \<or> scheme_knows_pod cfg"
  shows "\<exists>ep. ep_Name ep = pod_Name p \<and> ep_Namespace ep = pod_Namespace p
          \<and> Status ep = \<lparr>Current = None, History = [], OwnerControllerType = [], OwnerControllerName = []\<rparr>
          \<and> (\<forall>e w'. client_Create k ep (world s) = (Some e, w')
                \<longrightarrow> MarkIPAllocation k cfg cid (Some p) c s = (Fail e, emit (EvCreate ep) (s\<lparr>world := w'\<rparr>)))"
proof (cases "ctl_Kind c = KindStatefulSet")
  case True
  then show ?thesis
    by (intro exI[of _ "AddFinalizer \<lparr>ep_Name = pod_Name p, ep_Namespace = pod_Namespace p,
                           DeletionTimestamp = None, OwnerReferences = [], Finalizers = [],
                           Status = \<lparr>Current = None, History = [],
                                     OwnerControllerType = [], OwnerControllerName = []\<rparr>\<rparr> SpiderFinalizer"])
       (simp add: MarkIPAllocation_def AddFinalizer_def do_Create_def Let_def)
next
  case False
  with assms have k: "scheme_knows_pod cfg" by simp
  show ?thesis
    by (intro exI[of _ "AddFinalizer \<lparr>ep_Name = pod_Name p, ep_Namespace = pod_Namespace p,
                           DeletionTimestamp = None,
                           OwnerReferences = [\<lparr>owner_Kind = ''Pod'', owner_Name = pod_Name p, owner_UID = pod_UID p\<rparr>],
                           Finalizers = [],
                           Status = \<lparr>Current = None, History = [],
                                     OwnerControllerType = [], OwnerControllerName = []\<rparr>\<rparr> SpiderFinalizer"])
       (simp add: MarkIPAllocation_def AddFinalizer_def SetOwnerReference_def do_Create_def Let_def k False)
qed

text \<open>
  C4 (amended). \<open>MarkIPAllocation\<close> always creates and never reads: when an Endpoint
  of the pod's namespace and name exists the create is rejected, the operation fails
  with AlreadyExists and the server's state stays as it was; when none exists (and the
  status update is not failed) the Endpoint is created, stored, and returned with
  \<open>current\<close> set and \<open>history = [current]\<close>. On any client, the error of the create
  of the new Endpoint is the error of the operation.
\<close>

theorem MarkIPAllocation_create_only:
  "(ctl_Kind c = KindStatefulSet \<or> scheme_knows_pod cfg) \<longrightarrow>
   (map_of (api_endpoints (world s)) (pod_Namespace p, pod_Name p) \<noteq> None \<longrightarrow>
      fst (MarkIPAllocation mem_client cfg cid (Some p) c s) = Fail ApiAlreadyExists
      \<and> world (snd (MarkIPAllocation mem_client cfg cid (Some p) c s)) = world s)
   \<and> (map_of (api_endpoints (world s)) (pod_Namespace p, pod_Name p) = None
        \<and> api_status_faults (world s) = [] \<longrightarrow>
      (\<exists>ep. fst (MarkIPAllocation mem_client cfg cid (Some p) c s) = Ok ep
         \<and> map_of (api_endpoints (world (snd (MarkIPAllocation mem_client cfg cid (Some p) c s))))
              (pod_Namespace p, pod_Name p) = Some ep
         \<and> ep_Name ep = pod_Name p \<and> ep_Namespace ep = pod_Namespace p
         \<and> Current (Status ep) = Some \<lparr>ContainerID = cid, Node = Some (pod_NodeName p),
                            IPs = [], CreationTime = Some (api_clock (world s))\<rparr>
         \<and> History (Status ep) = [\<lparr>ContainerID = cid, Node = Some (pod_NodeName p),
                            IPs = [], CreationTime = Some (api_clock (world s))\<rparr>]))
   \<and> (\<exists>ep. ep_Name ep = pod_Name p \<and> ep_Namespace ep = pod_Namespace p
         \<and> (\<forall>e w'. client_Create k ep (world t) = (Some e, w')
               \<longrightarrow> MarkIPAllocation k cfg cid (Some p) c t = (Fail e, emit (EvCreate ep) (t\<lparr>world := w'\<rparr>))))"
proof (intro impI)
  assume a: "ctl_Kind c = KindStatefulSet \<or> scheme_knows_pod cfg"
  from Mark_any_client[OF a, of p k t cid]
  have any: "\<exists>ep. ep_Name ep = pod_Name p \<and> ep_Namespace ep = pod_Namespace p
         \<and> (\<forall>e w'. client_Create k ep (world t) = (Some e, w')
               \<longrightarrow> MarkIPAllocation k cfg cid (Some p) c t = (Fail e, emit (EvCreate ep) (t\<lparr>world := w'\<rparr>)))"
    by blast
  from Mark_on_mem_client[of c cfg s p cid] a any
  show "(map_of (api_endpoints (world s)) (pod_Namespace p, pod_Name p) \<noteq> None \<longrightarrow>
      fst (MarkIPAllocation mem_client cfg cid (Some p) c s) = Fail ApiAlreadyExists
      \<and> world (snd (MarkIPAllocation mem_client cfg cid (Some p) c s)) = world s)
   \<and> (map_of (api_endpoints (world s)) (pod_Namespace p, pod_Name p) = None
        \<and> api_status_faults (world s) = [] \<longrightarrow>
      (\<exists>ep. fst (MarkIPAllocation mem_client cfg cid (Some p) c s) = Ok ep
         \<and> map_of (api_endpoints (world (snd (MarkIPAllocation mem_client cfg cid (Some p) c s))))
              (pod_Namespace p, pod_Name p) = Some ep
         \<and> ep_Name ep = pod_Name p \<and> ep_Namespace ep = pod_Namespace p
         \<and> Current (Status ep) = Some \<lparr>ContainerID = cid, Node = Some (pod_NodeName p),
                            IPs = [], CreationTime = Some (api_clock (world s))\<rparr>
         \<and> History (Status ep) = [\<lparr>ContainerID = cid, Node = Some (pod_NodeName p),
                            IPs = [], CreationTime = Some (api_clock (world s))\<rparr>]))
   \<and> (\<exists>ep. ep_Name ep = pod_Name p \<and> ep_Namespace ep = pod_Namespace p
         \<and> (\<forall>e w'. client_Create k ep (world t) = (Some e, w')
               \<longrightarrow> MarkIPAllocation k cfg cid (Some p) c t = (Fail e, emit (EvCreate ep) (t\<lparr>world := w'\<rparr>))))"
    by blast
qed

theorem MarkIPAllocation_create_only_witness:
  "fst (MarkIPAllocation mem_client cfg0 ''c2'' (Some pod0) ctl_deploy \<lparr>world = api1, trace = []\<rparr>)
     = Fail ApiAlreadyExists
   \<and> (\<exists>ep. fst (MarkIPAllocation mem_client cfg0 ''c1'' (Some pod0) ctl_deploy \<lparr>world = api0, trace = []\<rparr>) = Ok ep
         \<and> History (Status ep) = [\<lparr>ContainerID = ''c1'', Node = Some ''node-1'', IPs = [], CreationTime = Some 0\<rparr>])"
proof -
  have a: "ctl_Kind ctl_deploy = KindStatefulSet \<or> scheme_knows_pod cfg0" by (simp add: cfg0_def)
  have b: "map_of (api_endpoints (world \<lparr>world = api1, trace = []\<rparr>)) (pod_Namespace pod0, pod_Name pod0) \<noteq> None"
    by (simp add: api1_def pod0_def)
  have c: "map_of (api_endpoints (world \<lparr>world = api0, trace = []\<rparr>)) (pod_Namespace pod0, pod_Name pod0) = None
           \<and> api_status_faults (world \<lparr>world = api0, trace = []\<rparr>) = []"
    by (simp add: api0_def)
  from MarkIPAllocation_create_only[of ctl_deploy cfg0 "\<lparr>world = api1, trace = []\<rparr>" pod0 "''c2''"] a b
  have 1: "fst (MarkIPAllocation mem_client cfg0 ''c2'' (Some pod0) ctl_deploy \<lparr>world = api1, trace = []\<rparr>)
     = Fail ApiAlreadyExists" by blast
  from MarkIPAllocation_create_only[of ctl_deploy cfg0 "\<lparr>world = api0, trace = []\<rparr>" pod0 "''c1''"] a c
  obtain ep where "fst (MarkIPAllocation mem_client cfg0 ''c1'' (Some pod0) ctl_deploy \<lparr>world = api0, trace = []\<rparr>) = Ok ep"
    "History (Status ep) = [\<lparr>ContainerID = ''c1'', Node = Some (pod_NodeName pod0),
                            IPs = [], CreationTime = Some (api_clock (world \<lparr>world = api0, trace = []\<rparr>))\<rparr>]"
    by blast
  then have "\<exists>ep. fst (MarkIPAllocation mem_client cfg0 ''c1'' (Some pod0) ctl_deploy \<lparr>world = api0, trace = []\<rparr>) = Ok ep
         \<and> History (Status ep) = [\<lparr>ContainerID = ''c1'', Node = Some ''node-1'', IPs = [], CreationTime = Some 0\<rparr>]"
    by (simp add: pod0_def api0_def)
  with 1 show ?thesis by blast
qed

text \<open>
  C9. With a deletion timestamp on the endpoint, \<open>ReMarkIPAllocation\<close> reads
  \<open>GetOwnerReferences()[0]\<close> unchecked: it panics with an index out of range exactly
  when the endpoint is terminating and has no owner reference, and an endpoint that
  \<open>MarkIPAllocation\<close> creates for a pod of a StatefulSet has none.
\<close>

theorem ReMarkIPAllocation_owner_index:
  "(DeletionTimestamp ep \<noteq> None \<and> OwnerReferences ep = [] \<longrightarrow>
      ReMarkIPAllocation k cfg cid (Some ep) (Some p) s
        = ((Panic ''index out of range [0] with length 0'', Some ep), s))
   \<and> (fst (fst (ReMarkIPAllocation k cfg cid (Some ep) (Some p) s)) = Panic ''index out of range [0] with length 0''
        \<longrightarrow> DeletionTimestamp ep \<noteq> None \<and> OwnerReferences ep = [])
   \<and> (ctl_Kind c = KindStatefulSet \<and> MarkIPAllocation k cfg cid' (Some p) c s = (Ok ep', s')
        \<longrightarrow> OwnerReferences ep' = [])"
  by (auto simp: ReMarkIPAllocation_def MarkIPAllocation_def AddFinalizer_def Let_def
      split: option.splits if_splits prod.splits)

theorem ReMarkIPAllocation_owner_index_witness:
  "(\<exists>s1. MarkIPAllocation mem_client cfg0 ''c1'' (Some pod0) ctl_sts \<lparr>world = api0, trace = []\<rparr> = (Ok ep_sts, s1))
   \<and> OwnerReferences ep_sts = []
   \<and> fst (fst (ReMarkIPAllocation mem_client cfg0 ''c2'' (Some (ep_sts\<lparr>DeletionTimestamp := Some 7\<rparr>)) (Some pod0)
        \<lparr>world = api0, trace = []\<rparr>)) = Panic ''index out of range [0] with length 0''"
proof -
  obtain s1 where m: "MarkIPAllocation mem_client cfg0 ''c1'' (Some pod0) ctl_sts \<lparr>world = api0, trace = []\<rparr> = (Ok ep_sts, s1)"
    using mark_sts_run by blast
  have k: "ctl_Kind ctl_sts = KindStatefulSet" by (simp add: ctl_sts_def KindStatefulSet_def)
  note t = ReMarkIPAllocation_owner_index[of "ep_sts\<lparr>DeletionTimestamp := Some 7\<rparr>" mem_client cfg0 "''c2''" pod0
      "\<lparr>world = api0, trace = []\<rparr>" ctl_sts "''c1''" ep_sts s1]
  from t k m have o: "OwnerReferences ep_sts = []" by blast
  then have "DeletionTimestamp (ep_sts\<lparr>DeletionTimestamp := Some 7\<rparr>) \<noteq> None
    \<and> OwnerReferences (ep_sts\<lparr>DeletionTimestamp := Some 7\<rparr>) = []" by simp
  with t have "ReMarkIPAllocation mem_client cfg0 ''c2'' (Some (ep_sts\<lparr>DeletionTimestamp := Some 7\<rparr>)) (Some pod0)
        \<lparr>world = api0, trace = []\<rparr> = ((Panic ''index out of range [0] with length 0'', Some (ep_sts\<lparr>DeletionTimestamp := Some 7\<rparr>)), \<lparr>world = api0, trace = []\<rparr>)"
    by blast
  with m o show ?thesis by simp
qed

text \<open>
  C10 (as stated, refuted). A terminating endpoint whose owner is another pod: the
  current container ID equals the given one, and \<open>ReMarkIPAllocation\<close> returns an
  error, not success.
\<close>

theorem ReMarkIPAllocation_noop_counterexample:
  "Current (Status (ep0\<lparr>DeletionTimestamp := Some 7\<rparr>)) \<noteq> None
   \<and> ContainerID (the (Current (Status (ep0\<lparr>DeletionTimestamp := Some 7\<rparr>)))) = ''c1''
   \<and> fst (fst (ReMarkIPAllocation mem_client cfg0 ''c1'' (Some (ep0\<lparr>DeletionTimestamp := Some 7\<rparr>)) (Some pod_new)
         \<lparr>world = api1, trace = []\<rparr>))
      = Fail (New ''currently, the IP addresses of the Pod is being recycled'')"
  by (simp add: ReMarkIPAllocation_def ep0_def pod_new_def pod0_def)

text \<open>
  C10 (amended). When \<open>status.current\<close> is set and carries the given container ID,
  \<open>ReallocateCurrentIPAllocation\<close> returns success, and \<open>ReMarkIPAllocation\<close> makes no
  call and leaves the endpoint as it was on every path; it returns success when the
  pod is given and the endpoint is not terminating or its first owner is this pod, and
  the recycling error when the endpoint is terminating and its first owner is another
  pod.
\<close>

theorem same_containerID_noop:
  "Current (Status ep) = Some cur \<and> ContainerID cur = cid \<longrightarrow>
     ReallocateCurrentIPAllocation k cid node (Some ep) s = ((Ok (), Some ep), s)
   \<and> snd (fst (ReMarkIPAllocation k cfg cid (Some ep) pod s)) = Some ep
   \<and> snd (ReMarkIPAllocation k cfg cid (Some ep) pod s) = s
   \<and> ((\<exists>p. pod = Some p \<and> (DeletionTimestamp ep = None
            \<or> OwnerReferences ep \<noteq> [] \<and> owner_UID (hd (OwnerReferences ep)) = pod_UID p))
        \<longrightarrow> ReMarkIPAllocation k cfg cid (Some ep) pod s = ((Ok (), Some ep), s))
   \<and> ((\<exists>p. pod = Some p \<and> DeletionTimestamp ep \<noteq> None
            \<and> OwnerReferences ep \<noteq> [] \<and> owner_UID (hd (OwnerReferences ep)) \<noteq> pod_UID p)
        \<longrightarrow> ReMarkIPAllocation k cfg cid (Some ep) pod s
              = ((Fail (New ''currently, the IP addresses of the Pod is being recycled''), Some ep), s))"
  by (auto simp: ReMarkIPAllocation_def ReallocateCurrentIPAllocation_def split: option.splits)

theorem same_containerID_noop_witness:
  "ReallocateCurrentIPAllocation mem_client ''c1'' ''node-2'' (Some ep0) \<lparr>world = api1, trace = []\<rparr>
     = ((Ok (), Some ep0), \<lparr>world = api1, trace = []\<rparr>)
   \<and> ReMarkIPAllocation mem_client cfg0 ''c1'' (Some ep0) (Some pod0) \<lparr>world = api1, trace = []\<rparr>
     = ((Ok (), Some ep0), \<lparr>world = api1, trace = []\<rparr>)
   \<and> ReMarkIPAllocation mem_client cfg0 ''c1'' (Some (ep0\<lparr>DeletionTimestamp := Some 7\<rparr>)) (Some pod_new)
        \<lparr>world = api1, trace = []\<rparr>
     = ((Fail (New ''currently, the IP addresses of the Pod is being recycled''),
         Some (ep0\<lparr>DeletionTimestamp := Some 7\<rparr>)), \<lparr>world = api1, trace = []\<rparr>)"
proof -
  have c: "Current (Status ep0) = Some \<lparr>ContainerID = ''c1'', Node = Some ''node-1'', IPs = [], CreationTime = Some 0\<rparr>
     \<and> ContainerID \<lparr>ContainerID = ''c1'', Node = Some ''node-1'', IPs = [], CreationTime = Some 0\<rparr> = ''c1''"
    by (simp add: ep0_def)
  have d: "\<exists>p. Some pod0 = Some p \<and> (DeletionTimestamp ep0 = None
            \<or> OwnerReferences ep0 \<noteq> [] \<and> owner_UID (hd (OwnerReferences ep0)) = pod_UID p)"
    by (simp add: ep0_def)
  have c': "Current (Status (ep0\<lparr>DeletionTimestamp := Some 7\<rparr>))
       = Some \<lparr>ContainerID = ''c1'', Node = Some ''node-1'', IPs = [], CreationTime = Some 0\<rparr>
     \<and> ContainerID \<lparr>ContainerID = ''c1'', Node = Some ''node-1'', IPs = [], CreationTime = Some 0\<rparr> = ''c1''"
    by (simp add: ep0_def)
  have d': "\<exists>p. Some pod_new = Some p \<and> DeletionTimestamp (ep0\<lparr>DeletionTimestamp := Some 7\<rparr>) \<noteq> None
            \<and> OwnerReferences (ep0\<lparr>DeletionTimestamp := Some 7\<rparr>) \<noteq> []
            \<and> owner_UID (hd (OwnerReferences (ep0\<lparr>DeletionTimestamp := Some 7\<rparr>))) \<noteq> pod_UID p"
    by (simp add: ep0_def pod_new_def pod0_def)
  from same_containerID_noop[of ep0 _ "''c1''" mem_client "''node-2''" "\<lparr>world = api1, trace = []\<rparr>" cfg0 "Some pod0"] c d
  have 1: "ReallocateCurrentIPAllocation mem_client ''c1'' ''node-2'' (Some ep0) \<lparr>world = api1, trace = []\<rparr>
     = ((Ok (), Some ep0), \<lparr>world = api1, trace = []\<rparr>)
   \<and> ReMarkIPAllocation mem_client cfg0 ''c1'' (Some ep0) (Some pod0) \<lparr>world = api1, trace = []\<rparr>
     = ((Ok (), Some ep0), \<lparr>world = api1, trace = []\<rparr>)" by blast
  from same_containerID_noop[of "ep0\<lparr>DeletionTimestamp := Some 7\<rparr>" _ "''c1''" mem_client "''node-2''"
      "\<lparr>world = api1, trace = []\<rparr>" cfg0 "Some pod_new"] c' d'
  have 2: "ReMarkIPAllocation mem_client cfg0 ''c1'' (Some (ep0\<lparr>DeletionTimestamp := Some 7\<rparr>)) (Some pod_new)
        \<lparr>world = api1, trace = []\<rparr>
     = ((Fail (New ''currently, the IP addresses of the Pod is being recycled''),
         Some (ep0\<lparr>DeletionTimestamp := Some 7\<rparr>)), \<lparr>world = api1, trace = []\<rparr>)" by blast
  from 1 2 show ?thesis by blast
qed

text \<open>
  C8. With \<open>i\<close> the loop variable of the retry loop of \<open>RemoveFinalizer\<close>: on every run
  the iterations entered are within \<open>[0, MaxConflictRetries]\<close> and the sleep before
  iteration \<open>i\<close> is a number of \<open>[0, 2 ^ i)\<close> times the unit time (as a
  \<open>time.Duration\<close>). An iteration \<open>i\<close> that goes on to iteration \<open>i + 1\<close> has drawn that
  number by \<open>rand.Intn(1 << (i + 1))\<close>, and \<open>rand.Intn(1 << j)\<close> is uniform when the raw
  draw of the random source is: of the \<open>2 ^ m\<close> raw draws of \<open>m\<close> bits, every value of
  \<open>[0, 2 ^ j)\<close> is the result for \<open>2 ^ (m - j)\<close> of them. When every read finds the
  finalizer and every update conflicts (and \<open>0 \<le> MaxConflictRetries \<le> 62\<close>, so that the
  shift stays positive), the operation makes the first update and \<open>MaxConflictRetries\<close>
  retries, each after a sleep, and returns RetriesExhausted.
\<close>

theorem RemoveFinalizer_backoff:
  "(\<exists>ds. sleeps_of (trace (snd (RemoveFinalizer k cfg ns n s))) = sleeps_of (trace s) @ ds
        \<and> int (length ds) \<le> max 0 (MaxConflictRetries cfg)
        \<and> backoff_spec (ConflictRetryUnitTime cfg) ds)
   \<and> (RemoveFinalizer_body k cfg ns n i t = (Continue, t')
       \<longrightarrow> i \<noteq> MaxConflictRetries cfg
           \<and> (\<exists>t2 r t3. do_Intn k (shl1 (i + 1)) t2 = (Some r, t3)
                 \<and> t' = do_Sleep k (wrap64 (r * ConflictRetryUnitTime cfg)) t3))
   \<and> (0 \<le> j \<and> j \<le> 62 \<and> nat j \<le> m \<and> 0 \<le> v \<and> v < 2 ^ nat j
       \<longrightarrow> card {x. x < 2 ^ m \<and> fst (do_Intn (k\<lparr>rand_Int63 := \<lambda>w. (x, w)\<rparr>) (shl1 j) q) = Some v}
             = 2 ^ (m - nat j))
   \<and> ((\<forall>w. \<exists>ep w'. client_Get k ns n w = (Ok ep, w') \<and> ContainsFinalizer ep SpiderFinalizer)
        \<and> (\<forall>ep w. \<exists>e w'. client_Update k ep w = (Some e, w') \<and> IsConflict e)
        \<and> 0 \<le> MaxConflictRetries cfg \<and> MaxConflictRetries cfg \<le> 62
       \<longrightarrow> fst (RemoveFinalizer k cfg ns n s) =
             Fail (Wrapw ''failed to remove finalizer from Endpoint'' ErrRetriesExhausted)
           \<and> length (sleeps_of (trace (snd (RemoveFinalizer k cfg ns n s)))) =
               length (sleeps_of (trace s)) + nat (MaxConflictRetries cfg)
           \<and> length (updates_of (trace (snd (RemoveFinalizer k cfg ns n s)))) =
               length (updates_of (trace s)) + nat (MaxConflictRetries cfg) + 1)"
proof (intro conjI impI)
  show "\<exists>ds. sleeps_of (trace (snd (RemoveFinalizer k cfg ns n s))) = sleeps_of (trace s) @ ds
        \<and> int (length ds) \<le> max 0 (MaxConflictRetries cfg)
        \<and> backoff_spec (ConflictRetryUnitTime cfg) ds"
    using RemoveFinalizer_from_sleeps[of 0 k cfg ns n s]
    by (auto simp: RemoveFinalizer_def intro: backoff_ok_spec)
next
  assume b: "RemoveFinalizer_body k cfg ns n i t = (Continue, t')"
  then show "i \<noteq> MaxConflictRetries cfg"
    unfolding RemoveFinalizer_body_def
    by (auto split: prod.splits res.splits if_splits option.splits)
  from b show "\<exists>t2 r t3. do_Intn k (shl1 (i + 1)) t2 = (Some r, t3)
                 \<and> t' = do_Sleep k (wrap64 (r * ConflictRetryUnitTime cfg)) t3"
    by (rule body_draw)
next
  assume "0 \<le> j \<and> j \<le> 62 \<and> nat j \<le> m \<and> 0 \<le> v \<and> v < 2 ^ nat j"
  then show "card {x. x < 2 ^ m \<and> fst (do_Intn (k\<lparr>rand_Int63 := \<lambda>w. (x, w)\<rparr>) (shl1 j) q) = Some v}
             = 2 ^ (m - nat j)"
    by (intro do_Intn_uniform) simp_all
next
  assume a: "(\<forall>w. \<exists>ep w'. client_Get k ns n w = (Ok ep, w') \<and> ContainsFinalizer ep SpiderFinalizer)
        \<and> (\<forall>ep w. \<exists>e w'. client_Update k ep w = (Some e, w') \<and> IsConflict e)
        \<and> 0 \<le> MaxConflictRetries cfg \<and> MaxConflictRetries cfg \<le> 62"
  then have r: "fst (RemoveFinalizer_from k cfg ns n 0 s) =
           Fail (Wrapw ''failed to remove finalizer from Endpoint'' ErrRetriesExhausted)
         \<and> length (sleeps_of (trace (snd (RemoveFinalizer_from k cfg ns n 0 s)))) =
             length (sleeps_of (trace s)) + nat (MaxConflictRetries cfg - 0)
         \<and> length (updates_of (trace (snd (RemoveFinalizer_from k cfg ns n 0 s)))) =
             length (updates_of (trace s)) + nat (MaxConflictRetries cfg - 0) + 1"
    by (intro RemoveFinalizer_from_exhaust) simp_all
  from r show "fst (RemoveFinalizer k cfg ns n s) =
             Fail (Wrapw ''failed to remove finalizer from Endpoint'' ErrRetriesExhausted)"
    by (simp add: RemoveFinalizer_def)
  from r show "length (sleeps_of (trace (snd (RemoveFinalizer k cfg ns n s)))) =
               length (sleeps_of (trace s)) + nat (MaxConflictRetries cfg)"
    by (simp add: RemoveFinalizer_def)
  from r show "length (updates_of (trace (snd (RemoveFinalizer k cfg ns n s)))) =
               length (updates_of (trace s)) + nat (MaxConflictRetries cfg) + 1"
    by (simp add: RemoveFinalizer_def)
qed

theorem RemoveFinalizer_backoff_witness:
  "fst (RemoveFinalizer (racing_client ep0) cfg0 ''ns1'' ''app-0'' \<lparr>world = [1, 3], trace = []\<rparr>)
     = Fail (Wrapw ''failed to remove finalizer from Endpoint'' ErrRetriesExhausted)
   \<and> sleeps_of (trace (snd (RemoveFinalizer (racing_client ep0) cfg0 ''ns1'' ''app-0''
        \<lparr>world = [1, 3], trace = []\<rparr>))) = [50000000, 150000000]
   \<and> backoff_spec 50000000 [50000000, 150000000]
   \<and> length (updates_of (trace (snd (RemoveFinalizer (racing_client ep0) cfg0 ''ns1'' ''app-0''
        \<lparr>world = [1, 3], trace = []\<rparr>)))) = 3
   \<and> (\<exists>t2 r t3. do_Intn (racing_client ep0) (shl1 1) t2 = (Some r, t3)
         \<and> snd (RemoveFinalizer_body (racing_client ep0) cfg0 ''ns1'' ''app-0'' 0 \<lparr>world = [1, 3], trace = []\<rparr>)
             = do_Sleep (racing_client ep0) (wrap64 (r * 50000000)) t3)
   \<and> card {x. x < 2 ^ 3 \<and> fst (do_Intn ((racing_client ep0)\<lparr>rand_Int63 := \<lambda>w. (x, w)\<rparr>) (shl1 2)
                \<lparr>world = [], trace = []\<rparr>) = Some 3} = 2"
proof -
  have g: "\<forall>w. \<exists>ep w'. client_Get (racing_client ep0) ''ns1'' ''app-0'' w = (Ok ep, w')
             \<and> ContainsFinalizer ep SpiderFinalizer"
    by (simp add: racing_client_def ep0_def ContainsFinalizer_def)
  have u: "\<forall>ep w. \<exists>e w'. client_Update (racing_client ep0) ep w = (Some e, w') \<and> IsConflict e"
    by (simp add: racing_client_def)
  have m: "0 \<le> MaxConflictRetries cfg0 \<and> MaxConflictRetries cfg0 \<le> 62"
    by (simp add: cfg0_def)
  have c: "ConflictRetryUnitTime cfg0 = 50000000" "MaxConflictRetries cfg0 = 2"
    by (simp_all add: cfg0_def)
  have j: "(0::int) \<le> 2 \<and> (2::int) \<le> 62 \<and> nat 2 \<le> 3 \<and> (0::int) \<le> 3 \<and> (3::int) < 2 ^ nat 2"
    by simp
  note T = RemoveFinalizer_backoff[where k = "racing_client ep0" and cfg = cfg0 and ns = "''ns1''"
      and n = "''app-0''" and s = "\<lparr>world = [1, 3], trace = []\<rparr>" and i = 0
      and t = "\<lparr>world = [1, 3], trace = []\<rparr>"
      and t' = "\<lparr>world = [3], trace = [EvGet ''ns1'' ''app-0'',
          EvUpdate (RemoveFinalizer_util ep0 SpiderFinalizer), EvSleep 50000000]\<rparr>"
      and j = 2 and m = 3 and v = 3 and q = "\<lparr>world = [], trace = []\<rparr>"]
  from T obtain ds where ds:
    "sleeps_of (trace (snd (RemoveFinalizer (racing_client ep0) cfg0 ''ns1'' ''app-0''
        \<lparr>world = [1, 3], trace = []\<rparr>))) = sleeps_of (trace \<lparr>world = [1::nat, 3], trace = []\<rparr>) @ ds"
    "backoff_spec (ConflictRetryUnitTime cfg0) ds" by blast
  from ds(1) have "ds = [50000000, 150000000]" unfolding racing_sleeps by simp
  with ds(2) c have 1: "backoff_spec 50000000 [50000000, 150000000]" by simp
  from T racing_body c have 2: "\<exists>t2 r t3. do_Intn (racing_client ep0) (shl1 1) t2 = (Some r, t3)
         \<and> snd (RemoveFinalizer_body (racing_client ep0) cfg0 ''ns1'' ''app-0'' 0 \<lparr>world = [1, 3], trace = []\<rparr>)
             = do_Sleep (racing_client ep0) (wrap64 (r * 50000000)) t3"
    by simp
  from T j have 3: "card {x. x < 2 ^ 3 \<and> fst (do_Intn ((racing_client ep0)\<lparr>rand_Int63 := \<lambda>w. (x, w)\<rparr>) (shl1 2)
                \<lparr>world = [], trace = []\<rparr>) = Some 3} = 2"
    by simp
  from T g u m c have 4: "fst (RemoveFinalizer (racing_client ep0) cfg0 ''ns1'' ''app-0'' \<lparr>world = [1, 3], trace = []\<rparr>)
     = Fail (Wrapw ''failed to remove finalizer from Endpoint'' ErrRetriesExhausted)
     \<and> length (updates_of (trace (snd (RemoveFinalizer (racing_client ep0) cfg0 ''ns1'' ''app-0''
        \<lparr>world = [1, 3], trace = []\<rparr>)))) = 3"
    by simp
  from 1 2 3 4 racing_sleeps show ?thesis by blast
qed

section \<open>The allocation path: claims\<close>

text \<open>
  C1 (as stated, refuted). Every NIC gets its address and the merge of the annotation
  is refused: \<open>Allocate\<close> returns the error, and it has released the address it had
  granted and patched into the endpoint (the pool holds no allocation any more) and
  cleared the endpoint's current allocation.
\<close>

theorem annotation_failure_keeps_allocation_counterexample:
  "fst (Allocate (mem_ipam merge_refused) add0 \<lparr>world = cluster0, trace = []\<rparr>)
     = Fail (Wrapw ''failed to allocate IP addresses in standard mode''
              (Wrapw ''failed to merge IP assignment annotation'' (New ''merge refused'')))
   \<and> EvPatchIPAllocation \<lparr>ContainerID = ''c1'', Node = None, IPs = [detail_of ip0], CreationTime = None\<rparr>
       \<in> set (trace (snd (Allocate (mem_ipam merge_refused) add0 \<lparr>world = cluster0, trace = []\<rparr>)))
   \<and> EvReleaseIP ''p4'' [\<lparr>ic_IP = ''10.0.0.2'', ic_ContainerID = ''c1''\<rparr>]
       \<in> set (trace (snd (Allocate (mem_ipam merge_refused) add0 \<lparr>world = cluster0, trace = []\<rparr>)))
   \<and> cl_allocated (world (snd (Allocate (mem_ipam merge_refused) add0 \<lparr>world = cluster0, trace = []\<rparr>))) = []
   \<and> map_option (\<lambda>ep. Current (Status ep))
        (map_of (api_endpoints (cl_api (world (snd
           (Allocate (mem_ipam merge_refused) add0 \<lparr>world = cluster0, trace = []\<rparr>)))))
           (''ns1'', ''app-0'')) = Some None"
  by (simp add: ipam_defs mem_defs scenario_defs Let_def List.map_filter_simps)

text \<open>
  C1 (amended). When every per-NIC allocation succeeds and the merge of the annotation
  fails, \<open>allocateForAllNICs\<close> hands the results back with the error, and
  \<open>allocateInStandardMode\<close> rolls back as after any other failure: it returns the merge
  error, it has called \<open>ReleaseIP\<close> for every pool of the granted addresses, and when
  the releases succeed it has called \<open>ClearCurrentIPAllocation\<close>.
\<close>

theorem annotation_failure_rolls_back:
  assumes "genToBeAllocatedSet I (add_IfName a) (add_DefaultIPV4IPPool a) (add_DefaultIPV6IPPool a)
             (add_CleanGateway a) pod s = (Ok tt, s1)"
    and "call (EvMarkIPAllocation (add_ContainerID a))
           (we_MarkIPAllocation (weManager I) (add_ContainerID a) endpoint pod) s1 = (Inr ep1, s2)"
    and "getCustomRoutes (funcs I) pod = Inr cr"
    and "allocateForAllNICs_loop I (add_ContainerID a) pod tt [] cr ep1 s2 = (Done (results, cr', ep2, None), s3)"
    and "genIPAssignmentAnnotation (funcs I) (fst (convertResultsToIPConfigsAndAllRoutes (funcs I) results)) = Inr anno"
    and "MergeAnnotations (podManager I) (pod_Namespace pod) (pod_Name pod) anno (world s3) = (Some e, w4)"
    and "fst (convertResultsToIPConfigsAndAllRoutes (funcs I) results) \<noteq> []"
    and "convertResultsToIPDetails (funcs I) results \<noteq> []"
  shows "fst (allocateInStandardMode I a pod endpoint s)
           = Fail (Wrapw ''failed to merge IP assignment annotation'' e)
       \<and> list_all (\<lambda>(pool, ips). EvReleaseIP pool ips
                     \<in> set (trace (snd (allocateInStandardMode I a pod endpoint s))))
           (GroupIPDetails (funcs I) (add_ContainerID a) (convertResultsToIPDetails (funcs I) results))
       \<and> ((\<forall>pool ips w. \<exists>w'. ReleaseIP (ipPoolManager I) pool ips w = (None, w')) \<longrightarrow>
            EvClearCurrentIPAllocation (add_ContainerID a)
              \<in> set (trace (snd (allocateInStandardMode I a pod endpoint s))))"
proof -
  let ?cid = "add_ContainerID a"
  let ?err = "Wrapw ''failed to merge IP assignment annotation'' e"
  let ?details = "convertResultsToIPDetails (funcs I) results"
  from allocateForAllNICs_merge_failed[OF assms(3,4,5,6)]
  obtain s4 where all: "allocateForAllNICs I tt ?cid ep1 pod s2 = (Done (results, ep2, Some ?err), s4)"
    by blast
  have std: "allocateInStandardMode I a pod endpoint s = allocateInStandardMode_failed I ?cid results ep2 ?err s4"
    by (rule allocateInStandardMode_on_error[OF assms(1,2) all])
  have 1: "fst (allocateInStandardMode I a pod endpoint s) = Fail ?err"
    unfolding std by (rule allocateInStandardMode_failed_error)
  have ev: "list_all (\<lambda>(pool, ips). EvReleaseIP pool ips \<in> set (trace (snd (release I ?cid ?details s4))))
              (GroupIPDetails (funcs I) ?cid ?details)"
    using release_pools_events[where I=I and g="GroupIPDetails (funcs I) ?cid ?details" and errs="[]" and s=s4]
      assms(8) by (simp add: snd_release)
  have 2: "list_all (\<lambda>(pool, ips). EvReleaseIP pool ips
                     \<in> set (trace (snd (allocateInStandardMode I a pod endpoint s))))
           (GroupIPDetails (funcs I) ?cid ?details)"
    unfolding std
    using ev allocateInStandardMode_failed_releases[OF assms(7), where cid="?cid" and s=s4 and ep=ep2 and err="?err"]
    by (auto simp: list_all_iff)
  have 3: "(\<forall>pool ips w. \<exists>w'. ReleaseIP (ipPoolManager I) pool ips w = (None, w')) \<longrightarrow>
            EvClearCurrentIPAllocation ?cid \<in> set (trace (snd (allocateInStandardMode I a pod endpoint s)))"
  proof
    assume "\<forall>pool ips w. \<exists>w'. ReleaseIP (ipPoolManager I) pool ips w = (None, w')"
    then have "fst (release_pools I (GroupIPDetails (funcs I) ?cid ?details) [] s4) = []"
      by (rule release_pools_ok)
    then have "fst (release I ?cid ?details s4) = None"
      by (cases "release_pools I (GroupIPDetails (funcs I) ?cid ?details) [] s4")
         (simp add: release_def Let_def)
    then show "EvClearCurrentIPAllocation ?cid \<in> set (trace (snd (allocateInStandardMode I a pod endpoint s)))"
      unfolding std by (rule allocateInStandardMode_failed_clears)
  qed
  from 1 2 3 show ?thesis by blast
qed

theorem annotation_failure_rolls_back_witness:
  "fst (allocateInStandardMode (mem_ipam merge_refused) add0 pod0 None \<lparr>world = cluster0, trace = []\<rparr>)
     = Fail (Wrapw ''failed to merge IP assignment annotation'' (New ''merge refused''))
   \<and> EvReleaseIP ''p4'' [\<lparr>ic_IP = ''10.0.0.2'', ic_ContainerID = ''c1''\<rparr>]
       \<in> set (trace (snd (allocateInStandardMode (mem_ipam merge_refused) add0 pod0 None
            \<lparr>world = cluster0, trace = []\<rparr>)))
   \<and> EvClearCurrentIPAllocation ''c1''
       \<in> set (trace (snd (allocateInStandardMode (mem_ipam merge_refused) add0 pod0 None
            \<lparr>world = cluster0, trace = []\<rparr>)))"
proof -
  let ?I = "mem_ipam merge_refused"
  let ?s = "\<lparr>world = cluster0, trace = []\<rparr>"
  let ?gen = "genToBeAllocatedSet ?I (add_IfName add0) (add_DefaultIPV4IPPool add0)
                (add_DefaultIPV6IPPool add0) (add_CleanGateway add0) pod0 ?s"
  let ?mark = "call (EvMarkIPAllocation (add_ContainerID add0))
                 (we_MarkIPAllocation (weManager ?I) (add_ContainerID add0) None pod0) (snd ?gen)"
  let ?loop = "allocateForAllNICs_loop ?I (add_ContainerID add0) pod0 eth0_p4 [] [] (Some ep0) (snd ?mark)"
  let ?anno = "[(''ipam.spidernet.io/assigned-eth0'', ''10.0.0.2'')]"
  have g: "?gen = (Ok eth0_p4, snd ?gen)"
    by (rule pair_fst) (simp add: ipam_defs mem_defs scenario_defs Let_def)
  have m: "?mark = (Inr (Some ep0), snd ?mark)"
    by (rule pair_fst) (simp add: ipam_defs mem_defs scenario_defs Let_def)
  have c: "getCustomRoutes (funcs ?I) pod0 = Inr []"
    by (simp add: mem_ipam_def mem_funcs_def)
  have "\<exists>ep2. fst ?loop = Done ([result0], [], ep2, None)"
    by (simp add: ipam_defs mem_defs scenario_defs Let_def)
  then obtain ep2 where "fst ?loop = Done ([result0], [], ep2, None)" by blast
  then have l: "?loop = (Done ([result0], [], ep2, None), snd ?loop)" by (rule pair_fst)
  have a: "genIPAssignmentAnnotation (funcs ?I)
             (fst (convertResultsToIPConfigsAndAllRoutes (funcs ?I) [result0])) = Inr ?anno"
    by (simp add: mem_ipam_def mem_funcs_def result0_def ip0_def List.map_filter_simps)
  have mg: "MergeAnnotations (podManager ?I) (pod_Namespace pod0) (pod_Name pod0) ?anno (world (snd ?loop))
              = (Some (New ''merge refused''), world (snd ?loop))"
    by (simp add: mem_ipam_def mem_pods_def merge_refused_def)
  have n1: "fst (convertResultsToIPConfigsAndAllRoutes (funcs ?I) [result0]) \<noteq> []"
    by (simp add: mem_ipam_def mem_funcs_def result0_def List.map_filter_simps)
  have n2: "convertResultsToIPDetails (funcs ?I) [result0] \<noteq> []"
    by (simp add: mem_ipam_def mem_funcs_def result0_def List.map_filter_simps)
  have grp: "GroupIPDetails (funcs ?I) (add_ContainerID add0) (convertResultsToIPDetails (funcs ?I) [result0])
               = [(''p4'', [\<lparr>ic_IP = ''10.0.0.2'', ic_ContainerID = ''c1''\<rparr>])]"
    by (simp add: mem_ipam_def mem_funcs_def result0_def ip0_def detail_of_def add0_def List.map_filter_simps)
  have rl: "\<forall>pool ips w. \<exists>w'. ReleaseIP (ipPoolManager ?I) pool ips w = (None, w')"
    by (simp add: mem_ipam_def mem_pools_def merge_refused_def no_faults_def)
  have cid: "add_ContainerID add0 = ''c1''" by (simp add: add0_def)
  note t = annotation_failure_rolls_back[OF g m c l a mg n1 n2]
  from t have 1: "fst (allocateInStandardMode ?I add0 pod0 None ?s)
     = Fail (Wrapw ''failed to merge IP assignment annotation'' (New ''merge refused''))" by blast
  from t have "list_all (\<lambda>(pool, ips). EvReleaseIP pool ips
                     \<in> set (trace (snd (allocateInStandardMode ?I add0 pod0 None ?s))))
           (GroupIPDetails (funcs ?I) (add_ContainerID add0) (convertResultsToIPDetails (funcs ?I) [result0]))"
    by blast
  then have 2: "EvReleaseIP ''p4'' [\<lparr>ic_IP = ''10.0.0.2'', ic_ContainerID = ''c1''\<rparr>]
       \<in> set (trace (snd (allocateInStandardMode ?I add0 pod0 None ?s)))"
    unfolding grp by simp
  from t rl have "EvClearCurrentIPAllocation (add_ContainerID add0)
       \<in> set (trace (snd (allocateInStandardMode ?I add0 pod0 None ?s)))" by blast
  then have 3: "EvClearCurrentIPAllocation ''c1''
       \<in> set (trace (snd (allocateInStandardMode ?I add0 pod0 None ?s)))" unfolding cid .
  from 1 2 3 show ?thesis by blast
qed

text \<open>
  C3 (as stated, refuted). Two NICs, the pool of the first on VLAN 0 and the pool of
  the second on VLAN 20: the pools of the request do not share a VLAN, the
  verification passes, and \<open>Allocate\<close> succeeds with one address of each pool.
\<close>

theorem verifyPoolCandidates_whole_request_counterexample:
  "fst (Allocate (mem_ipam two_vlans) add0 \<lparr>world = cluster_vlans, trace = []\<rparr>)
     = Ok \<lparr>resp_Ips =
             [\<lparr>ipc_Address = Some ''10.0.0.2'', ipc_Gateway = [], ipc_IPPool = ''p4'',
               ipc_Nic = Some ''eth0'', ipc_Version = Some 4, ipc_Vlan = 0\<rparr>,
              \<lparr>ipc_Address = Some ''10.0.1.2'', ipc_Gateway = [], ipc_IPPool = ''r4'',
               ipc_Nic = Some ''net1'', ipc_Version = Some 4, ipc_Vlan = 20\<rparr>],
           resp_Routes = []\<rparr>
   \<and> fst (verifyPoolCandidates (mem_ipam two_vlans) nics_two_vlans \<lparr>world = cluster_vlans, trace = []\<rparr>) = None
   \<and> GetIPPoolByName (ipPoolManager (mem_ipam two_vlans)) ''p4'' cluster_vlans = (Inr (look_vlans ''p4''), cluster_vlans)
   \<and> GetIPPoolByName (ipPoolManager (mem_ipam two_vlans)) ''r4'' cluster_vlans = (Inr (look_vlans ''r4''), cluster_vlans)
   \<and> \<not> request_vlan_same look_vlans nics_two_vlans"
  by (simp add: ipam_defs mem_defs scenario_defs verify_defs two_vlans_def look_vlans_def
      request_vlan_same_def allPools_def Let_def List.map_filter_simps)

text \<open>
  C3 (amended). \<open>verifyPoolCandidates\<close> checks each NIC on its own: with every pool of
  the request readable, it passes exactly when, for each NIC, the pools of that NIC
  share one VLAN, and it fails with WrongInput otherwise.
\<close>

theorem verifyPoolCandidates_per_nic:
  assumes "list_all (\<lambda>name. GetIPPoolByName (ipPoolManager I) name (world s) = (Inr (look name), world s))
             (concat (map allPools tt))"
  shows "fst (verifyPoolCandidates I tt s) =
           (if list_all (nic_vlan_same look) tt then None
            else Some (Wrapw ''vlans in each IPPools are not same'' ErrWrongInput))"
  using assms
proof (induction tt arbitrary: s)
  case Nil
  show ?case by simp
next
  case (Cons t tt)
  have here: "list_all (\<lambda>name. GetIPPoolByName (ipPoolManager I) name (world s) = (Inr (look name), world s))
                (allPools t)"
    using Cons.prems by simp
  obtain r s1 where c: "CheckVlanSame I (allPools t) s = (r, s1)" by force
  with CheckVlanSame_pure[OF here]
  have r: "r = Inr (nic_vlan_same look t)" and w: "world s1 = world s" by (simp_all add: nic_vlan_same_def)
  have "list_all (\<lambda>name. GetIPPoolByName (ipPoolManager I) name (world s1) = (Inr (look name), world s1))
          (concat (map allPools tt))"
    using Cons.prems w by simp
  from Cons.IH[OF this] c r show ?case
    by (simp add: allPools_def[symmetric] Let_def)
qed

theorem verifyPoolCandidates_per_nic_witness:
  "fst (verifyPoolCandidates (mem_ipam no_faults) nics_two_vlans \<lparr>world = cluster_vlans, trace = []\<rparr>) = None
   \<and> fst (verifyPoolCandidates (mem_ipam no_faults) nic_two_vlans \<lparr>world = cluster_vlans, trace = []\<rparr>)
       = Some (Wrapw ''vlans in each IPPools are not same'' ErrWrongInput)"
proof -
  let ?I = "mem_ipam no_faults"
  let ?s = "\<lparr>world = cluster_vlans, trace = []\<rparr>"
  have h1: "list_all (\<lambda>name. GetIPPoolByName (ipPoolManager ?I) name (world ?s) = (Inr (look_vlans name), world ?s))
             (concat (map allPools nics_two_vlans))"
    by (simp add: verify_defs look_vlans_def allPools_def)
  have h2: "list_all (\<lambda>name. GetIPPoolByName (ipPoolManager ?I) name (world ?s) = (Inr (look_vlans name), world ?s))
             (concat (map allPools nic_two_vlans))"
    by (simp add: verify_defs look_vlans_def allPools_def)
  have a: "list_all (nic_vlan_same look_vlans) nics_two_vlans"
    by (simp add: nic_vlan_same_def allPools_def nics_two_vlans_def)
  have b: "\<not> list_all (nic_vlan_same look_vlans) nic_two_vlans"
    by (simp add: nic_vlan_same_def allPools_def nic_two_vlans_def look_vlans_def pool4_def)
  from verifyPoolCandidates_per_nic[OF h1] verifyPoolCandidates_per_nic[OF h2] a b
  show ?thesis by simp
qed

text \<open>
  C5. A partial allocation failed with \<open>err\<close>, addresses had been granted, and the
  rollback's \<open>release\<close> fails: \<open>allocateInStandardMode\<close> returns \<open>err\<close> itself,
  \<open>Allocate\<close> returns it wrapped with \<open>%w\<close>, never the rollback's error, and the
  rollback-failure metric has been incremented by one.
\<close>

theorem rollback_failure_keeps_original_error:
  assumes "call (EvRead ''GetPodByName'' [add_PodNamespace a, add_PodName a])
             (GetPodByName (podManager I) (add_PodNamespace a) (add_PodName a)) s = (Inr pod, p1)"
    and "snd (CheckPodStatus (funcs I) pod)"
    and "call (EvRead ''GetEndpointByName'' [add_PodNamespace a, add_PodName a])
             (we_GetEndpointByName (weManager I) (add_PodNamespace a) (add_PodName a)) p1 = (got, p2)"
    and "found_or_nil got = Inr endpoint"
    and "Allocate_retrieve I a pod endpoint p2 = (Ok None, p3)"
    and "genToBeAllocatedSet I (add_IfName a) (add_DefaultIPV4IPPool a) (add_DefaultIPV6IPPool a)
             (add_CleanGateway a) pod p3 = (Ok tt, s1)"
    and "call (EvMarkIPAllocation (add_ContainerID a))
           (we_MarkIPAllocation (weManager I) (add_ContainerID a) endpoint pod) s1 = (Inr ep1, s2)"
    and "allocateForAllNICs I tt (add_ContainerID a) ep1 pod s2 = (Done (results, ep2, Some err), s3)"
    and "fst (convertResultsToIPConfigsAndAllRoutes (funcs I) results) \<noteq> []"
    and "release I (add_ContainerID a) (convertResultsToIPDetails (funcs I) results) s3 = (Some rollbackErr, s4)"
  shows "fst (allocateInStandardMode I a pod endpoint p3) = Fail err
       \<and> fst (Allocate I a s) = Fail (Wrapw ''failed to allocate IP addresses in standard mode'' err)
       \<and> world (snd (Allocate I a s)) = world s4
       \<and> metric_total ''IpamAllocationRollbackFailureCounts'' (trace (snd (Allocate I a s)))
           = metric_total ''IpamAllocationRollbackFailureCounts'' (trace s4) + 1"
proof -
  let ?end = "emit (EvWarn ''Failed to roll back the allocated IPs'')
                (emit (EvMetricAdd ''IpamAllocationRollbackFailureCounts'' 1) s4)"
  have std: "allocateInStandardMode I a pod endpoint p3 = (Fail err, ?end)"
    using allocateInStandardMode_on_error[OF assms(6,7,8)]
      allocateInStandardMode_failed_rollback_failed[OF assms(9,10)] by simp
  have "Allocate I a s = (Fail (Wrapw ''failed to allocate IP addresses in standard mode'' err), ?end)"
    using Allocate_standard_mode[OF assms(1-5) std] .
  with std show ?thesis by (simp add: metric_total_append)
qed

theorem rollback_failure_keeps_original_error_witness:
  "fst (Allocate (mem_ipam rollback_fails) add0 \<lparr>world = cluster_two_nics, trace = []\<rparr>)
     = Fail (Wrapw ''failed to allocate IP addresses in standard mode'' used_out)
   \<and> metric_total ''IpamAllocationRollbackFailureCounts''
        (trace (snd (Allocate (mem_ipam rollback_fails) add0 \<lparr>world = cluster_two_nics, trace = []\<rparr>))) = 1
   \<and> cl_allocated (world (snd (Allocate (mem_ipam rollback_fails) add0 \<lparr>world = cluster_two_nics, trace = []\<rparr>)))
       = [(''p4'', \<lparr>ic_IP = ''10.0.0.2'', ic_ContainerID = ''c1''\<rparr>)]"
proof -
  let ?I = "mem_ipam rollback_fails"
  let ?s = "\<lparr>world = cluster_two_nics, trace = []\<rparr>"
  let ?pod = "call (EvRead ''GetPodByName'' [add_PodNamespace add0, add_PodName add0])
             (GetPodByName (podManager ?I) (add_PodNamespace add0) (add_PodName add0)) ?s"
  let ?get = "call (EvRead ''GetEndpointByName'' [add_PodNamespace add0, add_PodName add0])
             (we_GetEndpointByName (weManager ?I) (add_PodNamespace add0) (add_PodName add0)) (snd ?pod)"
  let ?ret = "Allocate_retrieve ?I add0 pod_two_nics None (snd ?get)"
  let ?gen = "genToBeAllocatedSet ?I (add_IfName add0) (add_DefaultIPV4IPPool add0)
                (add_DefaultIPV6IPPool add0) (add_CleanGateway add0) pod_two_nics (snd ?ret)"
  let ?mark = "call (EvMarkIPAllocation (add_ContainerID add0))
                 (we_MarkIPAllocation (weManager ?I) (add_ContainerID add0) None pod_two_nics) (snd ?gen)"
  let ?all = "allocateForAllNICs ?I two_nics (add_ContainerID add0) (Some ep0) pod_two_nics (snd ?mark)"
  let ?rel = "release ?I (add_ContainerID add0) (convertResultsToIPDetails (funcs ?I) [result0]) (snd ?all)"
  let ?rerr = "Wrapw ''failed to release all allocated IP addresses'' (Aggregate [New ''release refused''])"
  note defs = ipam_defs mem_defs scenario_defs pod_two_nics_def used_out_def Let_def List.map_filter_simps
  have 1: "?pod = (Inr pod_two_nics, snd ?pod)"
    by (rule pair_fst) (simp add: defs)
  have 2: "snd (CheckPodStatus (funcs ?I) pod_two_nics)"
    by (simp add: mem_ipam_def mem_funcs_def)
  have 3: "?get = (Inl ApiNotFound, snd ?get)"
    by (rule pair_fst) (simp add: defs)
  have 4: "found_or_nil (Inl ApiNotFound) = Inr None"
    by (simp add: found_or_nil_def)
  have 5: "?ret = (Ok None, snd ?ret)"
    by (rule pair_fst) (simp add: defs)
  have 6: "?gen = (Ok two_nics, snd ?gen)"
    by (rule pair_fst) (simp add: defs)
  have 7: "?mark = (Inr (Some ep0), snd ?mark)"
    by (rule pair_fst) (simp add: defs)
  have "\<exists>ep2. fst ?all = Done ([result0], ep2, Some used_out)"
    by (simp add: defs)
  then obtain ep2 where "fst ?all = Done ([result0], ep2, Some used_out)" by blast
  then have 8: "?all = (Done ([result0], ep2, Some used_out), snd ?all)" by (rule pair_fst)
  have 9: "fst (convertResultsToIPConfigsAndAllRoutes (funcs ?I) [result0]) \<noteq> []"
    by (simp add: mem_ipam_def mem_funcs_def result0_def List.map_filter_simps)
  have 10: "?rel = (Some ?rerr, snd ?rel)"
    by (rule pair_fst) (simp add: defs)
  have m0: "metric_total ''IpamAllocationRollbackFailureCounts'' (trace (snd ?rel)) = 0"
    by (simp add: defs)
  have w: "cl_allocated (world (snd ?rel)) = [(''p4'', \<lparr>ic_IP = ''10.0.0.2'', ic_ContainerID = ''c1''\<rparr>)]"
    by (simp add: defs)
  from rollback_failure_keeps_original_error[OF 1 2 3 4 5 6 7 8 9 10] m0 w
  show ?thesis by simp
qed



text \<open>
  C7. \<open>getPoolCandidates\<close> is the first match over the six sources in the order of the
  specification: pod subnet annotation, pod \<open>ippools\<close> annotation, pod \<open>ippool\<close>
  annotation, namespace defaults, CNI configuration, cluster default.
\<close>

theorem getPoolCandidates_first_match:
  "getPoolCandidates I nic netConfV4Pool netConfV6Pool cleanGateway pod s =
     first_match
       [source_subnet I nic cleanGateway pod,
        source_pod_ippools I nic pod,
        source_pod_ippool I nic cleanGateway pod,
        source_namespace I nic cleanGateway pod,
        source_netconf I nic netConfV4Pool netConfV6Pool cleanGateway]
       (source_cluster_default I nic cleanGateway) s"
  by (simp add: getPoolCandidates_def source_subnet_def source_pod_ippools_def source_pod_ippool_def
        source_namespace_def source_netconf_def source_cluster_default_def
      split: prod.splits sum.splits option.splits)

end
